theory Spec2Isabelle
  imports Complex_Main "HOL-Library.Word" "HOL-Library.Monad_Syntax"
begin

unbundle bit_operations_syntax

section \<open>The glyph cache of vtedraw.cc\<close>

text \<open>
  A shallow embedding of the font cache and the text drawing loop of \<^verbatim>\<open>src/vtedraw.cc\<close>.
  Pango, cairo and GLib are libraries outside the program: what they answer is a parameter
  (the record \<open>pango\<close> below), what they are told to paint is appended to a list of
  cairo operations, and the GLib main loop is a list of pending timeout sources.
  A \<^verbatim>\<open>vteunistr\<close> is a \<^verbatim>\<open>guint32\<close>. Pointers are \<open>nat option\<close> (\<open>None\<close> is
  \<^verbatim>\<open>NULL\<close>); a C array of fixed size is a function of its index, read and written
  below its size only. A computation that aborts (a failed \<^verbatim>\<open>g_assert\<close>) or has no
  defined behaviour (a dangling pointer, a division by zero) is \<open>None\<close>.
\<close>

subsection \<open>What Pango shapes\<close>

type_synonym vteunistr = "32 word"

record pango_glyph_info =
  glyph :: "32 word"
  geometry_width :: int
  x_offset :: int
  y_offset :: int

text \<open>One run of a line (\<^verbatim>\<open>PangoGlyphItem\<close>): the font of its analysis, which may be
  \<^verbatim>\<open>NULL\<close>, and its glyph string.\<close>

record glyph_item =
  analysis_font :: "nat option"
  glyphs :: "pango_glyph_info list"

text \<open>The positions of a \<^verbatim>\<open>PangoGlyphItemIter\<close> at one cluster.\<close>

record glyph_item_iter =
  start_char :: int
  end_char :: int
  start_index :: int
  end_index :: int
  start_glyph :: int
  end_glyph :: int

text \<open>What a layout answers once its text is set: the logical extents and the baseline in
  Pango units, the runs of line 0 and the number of unknown glyphs. A layout always has a
  line 0, so the source's test \<^verbatim>\<open>!line\<close> never holds; \<^verbatim>\<open>!line->runs\<close> is the empty
  list of runs and \<^verbatim>\<open>line->runs->next\<close> a list of two runs or more.\<close>

record shaped =
  logical_width :: int
  logical_height :: int
  baseline :: int
  line_runs :: "glyph_item list"
  unknown_glyphs_count :: nat

datatype pango_style = PANGO_STYLE_NORMAL | PANGO_STYLE_OBLIQUE | PANGO_STYLE_ITALIC

text \<open>A font description: a field that is not set in the description's mask is \<open>None\<close>.\<close>

record font_description =
  desc_family :: "string option"
  desc_style :: "pango_style option"
  desc_weight :: "nat option"
  desc_size :: "int option"

text \<open>A \<^verbatim>\<open>PangoContext\<close> as this file reads it. The resolution is a \<^verbatim>\<open>double\<close>, in dots
  per inch: a finite \<^verbatim>\<open>double\<close> is a rational number, and it is kept here as this number
  (\<open>-0.0\<close> and \<open>0.0\<close> are both 0; a resolution that is not a number is left out). Font
  options are opaque values compared by \<^verbatim>\<open>cairo_font_options_equal\<close>; a language is an
  interned pointer.\<close>

record pango_context =
  resolution :: rat
  ctx_font_description :: font_description
  ctx_font_options :: "nat option"
  ctx_language :: "nat option"
  fontconfig_timestamp :: "32 word"
  font_map_is_cairo :: bool

record pango =
  shape :: "pango_context \<Rightarrow> string \<Rightarrow> shaped"
  glyph_item_iter_clusters :: "glyph_item \<Rightarrow> string \<Rightarrow> glyph_item_iter list"
  get_scaled_font :: "nat \<Rightarrow> nat option"
  unistr_append_to_string :: "vteunistr \<Rightarrow> string"
  language_get_default :: nat
  language_includes_latin :: "nat \<Rightarrow> bool"
  script_upto_inherited :: "vteunistr \<Rightarrow> bool"
  font_description_hash :: "font_description \<Rightarrow> 32 word"
  font_options_hash :: "nat \<Rightarrow> 32 word"
  default_font_map_context :: pango_context
  default_font_options :: nat
  bidi_get_mirror_char :: "vteunistr \<Rightarrow> bool \<Rightarrow> vteunistr"

definition PANGO_PIXELS_CEIL :: "int \<Rightarrow> int" where
  "PANGO_PIXELS_CEIL d = (d + 1023) div 1024"

subsection \<open>The cached information of one character\<close>

datatype unistr_coverage =
  COVERAGE_UNKNOWN
| COVERAGE_USE_PANGO_LAYOUT_LINE
| COVERAGE_USE_PANGO_GLYPH_STRING
| COVERAGE_USE_CAIRO_GLYPH

text \<open>The byte \<^verbatim>\<open>coverage\<close> of a \<^verbatim>\<open>unistr_info\<close> tags its union \<^verbatim>\<open>unistr_font_info\<close>: the two
  are one datatype here, and \<open>coverage\<close> reads the tag. \<open>Ufi_unknown\<close> is the zeroed union
  of a fresh entry; a layout line is kept as its runs, a glyph string with its font (which
  may be \<^verbatim>\<open>NULL\<close>), a cairo glyph as a scaled font and a glyph index.\<close>

datatype unistr_font_info =
  Ufi_unknown
| Using_pango_layout_line "glyph_item list"
| Using_pango_glyph_string "nat option" "pango_glyph_info list"
| Using_cairo_glyph nat "32 word"

record unistr_info =
  has_unknown_chars :: bool
  uinfo_width :: "16 word"
  ufi :: unistr_font_info

fun coverage_of :: "unistr_font_info \<Rightarrow> unistr_coverage" where
  "coverage_of Ufi_unknown = COVERAGE_UNKNOWN"
| "coverage_of (Using_pango_layout_line line) = COVERAGE_USE_PANGO_LAYOUT_LINE"
| "coverage_of (Using_pango_glyph_string font glyph_string) = COVERAGE_USE_PANGO_GLYPH_STRING"
| "coverage_of (Using_cairo_glyph scaled_font glyph_index) = COVERAGE_USE_CAIRO_GLYPH"

definition coverage :: "unistr_info \<Rightarrow> unistr_coverage" where
  "coverage uinfo = coverage_of (ufi uinfo)"

definition unistr_info_create :: unistr_info where
  "unistr_info_create = \<lparr>has_unknown_chars = False, uinfo_width = 0, ufi = Ufi_unknown\<rparr>"

text \<open>The reusable layout of a font_info: its context and its current text. The counter
  \<open>layout_set_text_calls\<close> is not in the source: it counts the calls of
  \<^verbatim>\<open>pango_layout_set_text\<close>, so that a theorem can say that Pango was not asked.\<close>

record pango_layout =
  layout_context :: pango_context
  layout_text :: string
  layout_set_text_calls :: nat

definition pango_layout_set_text :: "pango_layout \<Rightarrow> string \<Rightarrow> pango_layout" where
  "pango_layout_set_text l t =
     l\<lparr>layout_text := t, layout_set_text_calls := Suc (layout_set_text_calls l)\<rparr>"

definition layout_shaped :: "pango \<Rightarrow> pango_layout \<Rightarrow> shaped" where
  "layout_shaped env l = shape env (layout_context l) (layout_text l)"

record font_info =
  ref_count :: int
  destroy_timeout :: nat
  layout :: pango_layout
  ascii_unistr_info :: "nat \<Rightarrow> unistr_info"
  other_unistr_info :: "vteunistr \<rightharpoonup> unistr_info"
  width :: int
  height :: int
  ascent :: int
  info_string :: string

text \<open>\<^verbatim>\<open>font_info_find_unistr_info\<close>: the slot of \<open>c\<close>, created empty in the hash table
  when \<open>c\<close> is not below 128 and has none. The hash table that is still \<^verbatim>\<open>NULL\<close> is the
  empty map.\<close>

definition font_info_find_unistr_info :: "font_info \<Rightarrow> vteunistr \<Rightarrow> unistr_info \<times> font_info" where
  "font_info_find_unistr_info info c =
     (if c < 128 then (ascii_unistr_info info (unat c), info)
      else (case other_unistr_info info c of
              Some uinfo \<Rightarrow> (uinfo, info)
            | None \<Rightarrow> (unistr_info_create,
                       info\<lparr>other_unistr_info := (other_unistr_info info)(c \<mapsto> unistr_info_create)\<rparr>)))"

text \<open>Writing through the pointer that \<^verbatim>\<open>font_info_find_unistr_info\<close> returned.\<close>

definition store_unistr_info :: "font_info \<Rightarrow> vteunistr \<Rightarrow> unistr_info \<Rightarrow> font_info" where
  "store_unistr_info info c uinfo =
     (if c < 128 then info\<lparr>ascii_unistr_info := (ascii_unistr_info info)(unat c := uinfo)\<rparr>
      else info\<lparr>other_unistr_info := (other_unistr_info info)(c \<mapsto> uinfo)\<rparr>)"

text \<open>The test of the fast cairo path: one glyph, its index at most \<^verbatim>\<open>0xFFFF\<close>, at the
  origin.\<close>

definition one_real_glyph_at_origin :: "pango_glyph_info list \<Rightarrow> bool" where
  "one_real_glyph_at_origin gs =
     (case gs of
        [g] \<Rightarrow> glyph g \<le> 0xFFFF \<and> (x_offset g OR y_offset g) = 0
      | _ \<Rightarrow> False)"

text \<open>The classification that \<^verbatim>\<open>font_info_get_unistr_info\<close> computes for an entry that is
  still \<^verbatim>\<open>COVERAGE_UNKNOWN\<close>, from what the layout answers for the text of \<open>c\<close>.\<close>

definition pango_cairo_font_get_scaled_font :: "pango \<Rightarrow> nat option \<Rightarrow> nat option" where
  "pango_cairo_font_get_scaled_font env font =
     (case font of None \<Rightarrow> None | Some pango_font \<Rightarrow> get_scaled_font env pango_font)"

definition classify_shaped :: "pango \<Rightarrow> shaped \<Rightarrow> unistr_info" where
  "classify_shaped env sh =
     (let w = (word_of_int (PANGO_PIXELS_CEIL (logical_width sh)) :: 16 word);
          unknown = (unknown_glyphs_count sh \<noteq> 0)
      in case line_runs sh of
           [glyph_item] \<Rightarrow>
             (case (if \<not> unknown \<and> one_real_glyph_at_origin (glyphs glyph_item)
                    then pango_cairo_font_get_scaled_font env (analysis_font glyph_item)
                    else None) of
                Some scaled_font \<Rightarrow>
                  \<lparr>has_unknown_chars = unknown, uinfo_width = w,
                   ufi = Using_cairo_glyph scaled_font (glyph (hd (glyphs glyph_item)))\<rparr>
              | None \<Rightarrow>
                  \<lparr>has_unknown_chars = unknown, uinfo_width = w,
                   ufi = Using_pango_glyph_string (analysis_font glyph_item) (glyphs glyph_item)\<rparr>)
         | runs \<Rightarrow>
             \<lparr>has_unknown_chars = unknown, uinfo_width = w, ufi = Using_pango_layout_line runs\<rparr>)"

definition font_info_get_unistr_info :: "pango \<Rightarrow> font_info \<Rightarrow> vteunistr \<Rightarrow> unistr_info \<times> font_info" where
  "font_info_get_unistr_info env info c =
     (let (uinfo, info1) = font_info_find_unistr_info info c
      in if coverage uinfo \<noteq> COVERAGE_UNKNOWN then (uinfo, info1)
         else
           (let text = unistr_append_to_string env c;
                l1 = pango_layout_set_text (layout info1) text;
                uinfo' = classify_shaped env (layout_shaped env l1);
                l2 = (if coverage uinfo' = COVERAGE_USE_PANGO_LAYOUT_LINE
                      then pango_layout_set_text l1 [] else l1);
                l3 = pango_layout_set_text l2 []
            in (uinfo', (store_unistr_info info1 c uinfo')\<lparr>layout := l3, info_string := text\<rparr>)))"

subsection \<open>Measuring a font and caching the ASCII letters\<close>

text \<open>\<^verbatim>\<open>VTE_DRAW_SINGLE_WIDE_CHARACTERS\<close>: two spaces, then every character from \<^verbatim>\<open>!\<close> to
  \<^verbatim>\<open>~\<close>, each followed by a space.\<close>

definition VTE_DRAW_SINGLE_WIDE_CHARACTERS :: string where
  "VTE_DRAW_SINGLE_WIDE_CHARACTERS =
     [CHR '' '', CHR '' ''] @ concat (map (\<lambda>n. [char_of n, CHR '' '']) [0x21 ..< (0x7f :: nat)])"

text \<open>A \<^verbatim>\<open>char\<close> of the text read as a \<^verbatim>\<open>vteunistr\<close>: \<^verbatim>\<open>char\<close> is signed, a byte from 128
  on is sign-extended.\<close>

definition char_to_unistr :: "char \<Rightarrow> vteunistr" where
  "char_to_unistr ch =
     (if (of_char ch :: nat) < 128 then of_char ch else of_char ch + 0xFFFFFF00)"

text \<open>The body of the loop of \<^verbatim>\<open>font_info_cache_ascii\<close> for one cluster. Pango's iterator
  stays inside the text and the glyph string; a cluster outside them is skipped here.\<close>

definition cache_ascii_cluster ::
  "pango \<Rightarrow> string \<Rightarrow> pango_glyph_info list \<Rightarrow> nat \<Rightarrow> bool \<Rightarrow> font_info \<Rightarrow> glyph_item_iter \<Rightarrow> font_info" where
  "cache_ascii_cluster env text glyph_string scaled_font latin_uses_default_language info iter =
     (if start_char iter + 1 \<noteq> end_char iter \<or> start_index iter + 1 \<noteq> end_index iter \<or>
         start_glyph iter + 1 \<noteq> end_glyph iter then info
      else if start_index iter < 0 \<or> int (length text) \<le> start_index iter \<or>
              start_glyph iter < 0 \<or> int (length glyph_string) \<le> start_glyph iter then info
      else
        (let c = char_to_unistr (text ! nat (start_index iter));
             g = glyph_string ! nat (start_glyph iter)
         in if \<not> latin_uses_default_language \<and> script_upto_inherited env c then info
            else if \<not> (glyph g \<le> 0xFFFF) \<or> (x_offset g OR y_offset g) \<noteq> 0 then info
            else (let (uinfo, info1) = font_info_find_unistr_info info c
                  in if coverage uinfo \<noteq> COVERAGE_UNKNOWN then info1
                     else store_unistr_info info1 c
                            \<lparr>has_unknown_chars = False,
                             uinfo_width = word_of_int (PANGO_PIXELS_CEIL (geometry_width g)),
                             ufi = Using_cairo_glyph scaled_font (glyph g)\<rparr>)))"

definition font_info_cache_ascii :: "pango \<Rightarrow> font_info \<Rightarrow> font_info" where
  "font_info_cache_ascii env info =
     (let sh = layout_shaped env (layout info)
      in if unknown_glyphs_count sh \<noteq> 0 then info
         else
           (let language = (case ctx_language (layout_context (layout info)) of
                              None \<Rightarrow> language_get_default env
                            | Some l \<Rightarrow> l);
                latin_uses_default_language = language_includes_latin env language;
                text = layout_text (layout info)
            in case line_runs sh of
                 [glyph_item] \<Rightarrow>
                   (case analysis_font glyph_item of
                      None \<Rightarrow> info
                    | Some pango_font \<Rightarrow>
                        (case get_scaled_font env pango_font of
                           None \<Rightarrow> info
                         | Some scaled_font \<Rightarrow>
                             foldl (cache_ascii_cluster env text (glyphs glyph_item) scaled_font
                                      latin_uses_default_language)
                               info (glyph_item_iter_clusters env glyph_item text)))
               | _ \<Rightarrow> info))"

text \<open>One round of the loop of \<^verbatim>\<open>font_info_measure_font\<close> over the characters
  \<^verbatim>\<open>0x21\<close> to \<^verbatim>\<open>0x7e\<close>.\<close>

definition measure_char :: "pango \<Rightarrow> pango_layout \<times> int \<times> int \<Rightarrow> nat \<Rightarrow> pango_layout \<times> int \<times> int" where
  "measure_char env st n =
     (case st of (l, max_width, max_height) \<Rightarrow>
        (let l1 = pango_layout_set_text l [char_of n];
             logical = layout_shaped env l1
         in (l1, max max_width (PANGO_PIXELS_CEIL (logical_width logical)),
                 max max_height (PANGO_PIXELS_CEIL (logical_height logical)))))"

definition font_info_measure_font :: "pango \<Rightarrow> font_info \<Rightarrow> font_info" where
  "font_info_measure_font env info =
     (case foldl (measure_char env) (layout info, 1, 1) [0x21 ..< 0x7f] of
        (l1, max_width, max_height) \<Rightarrow>
          (let l2 = pango_layout_set_text l1 VTE_DRAW_SINGLE_WIDE_CHARACTERS;
               logical = layout_shaped env l2;
               info1 = info\<lparr>layout := l2, ascent := PANGO_PIXELS_CEIL (baseline logical),
                             height := max_height, width := max_width\<rparr>;
               info2 = font_info_cache_ascii env info1;
               info3 = (if height info2 = 0
                        then info2\<lparr>height := PANGO_PIXELS_CEIL (logical_height logical)\<rparr>
                        else info2)
           in if ascent info3 = 0
              then info3\<lparr>ascent := PANGO_PIXELS_CEIL (baseline (layout_shaped env (layout info3)))\<rparr>
              else info3))"

definition font_info_allocate :: "pango \<Rightarrow> pango_context \<Rightarrow> font_info" where
  "font_info_allocate env context =
     font_info_measure_font env
       \<lparr>ref_count = 0, destroy_timeout = 0,
        layout = \<lparr>layout_context = context, layout_text = [], layout_set_text_calls = 0\<rparr>,
        ascii_unistr_info = (\<lambda>_. unistr_info_create), other_unistr_info = Map.empty,
        width = 0, height = 0, ascent = 0, info_string = []\<rparr>"

subsection \<open>The global cache of font infos, and the main loop's timeouts\<close>

datatype cairo_op =
  Cairo_set_source_rgba "nat \<times> nat \<times> nat" nat
| Cairo_set_operator_over
| Cairo_move_to int int
| Pango_cairo_show_layout_line "glyph_item list"
| Pango_cairo_show_glyph_string "nat option" "pango_glyph_info list"
| Cairo_set_scaled_font "nat option"
| Cairo_show_glyphs "(32 word \<times> int \<times> int) list"
| Terminal_draw_graphic vteunistr "32 word" "nat \<times> nat \<times> nat" int int int int int

text \<open>
  The state outside a \<^verbatim>\<open>_vte_draw\<close>: the live \<^verbatim>\<open>font_info\<close> structs by address, the hash
  table \<^verbatim>\<open>font_info_for_context\<close> as the list of its entries (the table that is still
  \<^verbatim>\<open>NULL\<close> is the empty list), the pending timeout sources of the main loop as
  (source id, time due, data), the clock in seconds, and what cairo was told to paint.
  Every allocation takes the address after \<open>last_address\<close> and every source the id after
  \<open>last_source\<close>: an address names one construction and is not used again.
\<close>

record world =
  heap :: "nat \<rightharpoonup> font_info"
  font_info_for_context :: "(pango_context \<times> nat) list"
  timeouts :: "(nat \<times> nat \<times> nat) list"
  now :: nat
  last_address :: nat
  last_source :: nat
  cairo_ops :: "cairo_op list"

definition FONT_CACHE_TIMEOUT :: nat where
  "FONT_CACHE_TIMEOUT = 30"

text \<open>\<^verbatim>\<open>_vte_double_equal\<close> is \<^verbatim>\<open>==\<close> on \<^verbatim>\<open>double\<close>s: no rounding.\<close>

definition vte_double_equal :: "rat \<Rightarrow> rat \<Rightarrow> bool" where
  "vte_double_equal a b = (a = b)"

text \<open>\<^verbatim>\<open>pango_units_from_double\<close> rounds to Pango units, 1024 to the unit:
  \<^verbatim>\<open>(int) floor (d * PANGO_SCALE + 0.5)\<close>.\<close>

definition PANGO_SCALE :: int where
  "PANGO_SCALE = 1024"

definition pango_units_from_double :: "rat \<Rightarrow> int" where
  "pango_units_from_double d = \<lfloor>d * of_int PANGO_SCALE + 1 / 2\<rfloor>"

definition context_hash :: "pango \<Rightarrow> pango_context \<Rightarrow> 32 word" where
  "context_hash env context =
     word_of_int (pango_units_from_double (resolution context))
       XOR font_description_hash env (ctx_font_description context)
       XOR (case ctx_font_options context of None \<Rightarrow> 0 | Some options \<Rightarrow> font_options_hash env options)
       XOR (case ctx_language context of None \<Rightarrow> 0 | Some l \<Rightarrow> of_nat l)
       XOR fontconfig_timestamp context"

text \<open>\<^verbatim>\<open>cairo_font_options_equal\<close> is false when one of its arguments is \<^verbatim>\<open>NULL\<close>.\<close>

definition cairo_font_options_equal :: "nat option \<Rightarrow> nat option \<Rightarrow> bool" where
  "cairo_font_options_equal a b =
     (case (a, b) of (Some x, Some y) \<Rightarrow> x = y | _ \<Rightarrow> False)"

definition context_equal :: "pango_context \<Rightarrow> pango_context \<Rightarrow> bool" where
  "context_equal a b =
     (vte_double_equal (resolution a) (resolution b)
      \<and> ctx_font_description a = ctx_font_description b
      \<and> cairo_font_options_equal (ctx_font_options a) (ctx_font_options b)
      \<and> ctx_language a = ctx_language b
      \<and> fontconfig_timestamp a = fontconfig_timestamp b)"

text \<open>A \<^verbatim>\<open>GHashTable\<close> made with \<^verbatim>\<open>context_hash\<close> and \<^verbatim>\<open>context_equal\<close>: an entry matches
  a key when the hashes agree and the keys are equal.\<close>

definition key_matches :: "pango \<Rightarrow> pango_context \<Rightarrow> pango_context \<times> nat \<Rightarrow> bool" where
  "key_matches env key entry =
     (context_hash env (fst entry) = context_hash env key \<and> context_equal (fst entry) key)"

definition g_hash_table_lookup ::
  "pango \<Rightarrow> (pango_context \<times> nat) list \<Rightarrow> pango_context \<Rightarrow> nat option" where
  "g_hash_table_lookup env table key = map_option snd (find (key_matches env key) table)"

fun g_hash_table_insert ::
  "pango \<Rightarrow> (pango_context \<times> nat) list \<Rightarrow> pango_context \<Rightarrow> nat \<Rightarrow> (pango_context \<times> nat) list" where
  "g_hash_table_insert env [] key val = [(key, val)]"
| "g_hash_table_insert env (entry # table) key val =
     (if key_matches env key entry then (fst entry, val) # table
      else entry # g_hash_table_insert env table key val)"

fun g_hash_table_remove ::
  "pango \<Rightarrow> (pango_context \<times> nat) list \<Rightarrow> pango_context \<Rightarrow> (pango_context \<times> nat) list" where
  "g_hash_table_remove env [] key = []"
| "g_hash_table_remove env (entry # table) key =
     (if key_matches env key entry then table
      else entry # g_hash_table_remove env table key)"

definition font_info_register :: "pango \<Rightarrow> nat \<Rightarrow> font_info \<Rightarrow> world \<Rightarrow> world" where
  "font_info_register env p info w =
     w\<lparr>font_info_for_context :=
         g_hash_table_insert env (font_info_for_context w) (layout_context (layout info)) p\<rparr>"

definition font_info_unregister :: "pango \<Rightarrow> font_info \<Rightarrow> world \<Rightarrow> world" where
  "font_info_unregister env info w =
     w\<lparr>font_info_for_context :=
         g_hash_table_remove env (font_info_for_context w) (layout_context (layout info))\<rparr>"

definition g_source_remove :: "nat \<Rightarrow> world \<Rightarrow> world" where
  "g_source_remove tag w = w\<lparr>timeouts := filter (\<lambda>t. fst t \<noteq> tag) (timeouts w)\<rparr>"

text \<open>\<^verbatim>\<open>gdk_threads_add_timeout_seconds\<close> with the callback \<^verbatim>\<open>font_info_destroy_delayed\<close>,
  the only one this file registers: the new source is due after \<open>interval\<close> seconds and
  its id is not 0.\<close>

definition gdk_threads_add_timeout_seconds :: "nat \<Rightarrow> nat \<Rightarrow> world \<Rightarrow> nat \<times> world" where
  "gdk_threads_add_timeout_seconds interval data w =
     (let tag = Suc (last_source w)
      in (tag, w\<lparr>timeouts := timeouts w @ [(tag, now w + interval, data)], last_source := tag\<rparr>))"

definition font_info_reference :: "nat option \<Rightarrow> world \<Rightarrow> (nat option \<times> world) option" where
  "font_info_reference info_ptr w =
     (case info_ptr of
        None \<Rightarrow> Some (None, w)
      | Some p \<Rightarrow>
          (case heap w p of
             None \<Rightarrow> None
           | Some info \<Rightarrow>
               if \<not> 0 \<le> ref_count info then Some (Some p, w)
               else
                 (let w1 = (if destroy_timeout info \<noteq> 0
                            then g_source_remove (destroy_timeout info) w else w);
                      info1 = info\<lparr>destroy_timeout := 0\<rparr>
                  in Some (Some p,
                           w1\<lparr>heap := (heap w1)(p \<mapsto> info1\<lparr>ref_count := ref_count info1 + 1\<rparr>)\<rparr>))))"

text \<open>The timeout's callback: the struct is taken out of the hash table and freed.\<close>

definition font_info_destroy_delayed :: "pango \<Rightarrow> nat \<Rightarrow> world \<Rightarrow> world option" where
  "font_info_destroy_delayed env p w =
     (case heap w p of
        None \<Rightarrow> None
      | Some info \<Rightarrow>
          (let info1 = info\<lparr>destroy_timeout := 0\<rparr>;
               w1 = font_info_unregister env info1 w
           in Some (w1\<lparr>heap := (heap w1)(p := None)\<rparr>)))"

definition font_info_destroy :: "nat option \<Rightarrow> world \<Rightarrow> world option" where
  "font_info_destroy info_ptr w =
     (case info_ptr of
        None \<Rightarrow> Some w
      | Some p \<Rightarrow>
          (case heap w p of
             None \<Rightarrow> None
           | Some info \<Rightarrow>
               if \<not> 0 < ref_count info then Some w
               else
                 (let info1 = info\<lparr>ref_count := ref_count info - 1\<rparr>
                  in if ref_count info1 \<noteq> 0 then Some (w\<lparr>heap := (heap w)(p \<mapsto> info1)\<rparr>)
                     else
                       (let (tag, w1) = gdk_threads_add_timeout_seconds FONT_CACHE_TIMEOUT p w
                        in Some (w1\<lparr>heap := (heap w1)(p \<mapsto> info1\<lparr>destroy_timeout := tag\<rparr>)\<rparr>)))))"

text \<open>The main loop: time passes, and a source that is due is dispatched. The callback
  returns \<^verbatim>\<open>FALSE\<close>, so the source is removed; a source that is not due, or not pending
  any more, is not dispatched.\<close>

definition time_passes :: "nat \<Rightarrow> world \<Rightarrow> world" where
  "time_passes seconds w = w\<lparr>now := now w + seconds\<rparr>"

definition g_main_dispatch :: "pango \<Rightarrow> nat \<Rightarrow> world \<Rightarrow> world option" where
  "g_main_dispatch env tag w =
     (case find (\<lambda>t. fst t = tag) (timeouts w) of
        None \<Rightarrow> Some w
      | Some (_, due, data) \<Rightarrow>
          if now w < due then Some w
          else font_info_destroy_delayed env data (g_source_remove tag w))"

definition font_info_find_for_context :: "pango \<Rightarrow> pango_context \<Rightarrow> world \<Rightarrow> (nat \<times> world) option" where
  "font_info_find_for_context env context w =
     (case g_hash_table_lookup env (font_info_for_context w) context of
        Some p \<Rightarrow>
          (case font_info_reference (Some p) w of
             None \<Rightarrow> None
           | Some (_, w1) \<Rightarrow> Some (p, w1))
      | None \<Rightarrow>
          (let info = (font_info_allocate env context)\<lparr>ref_count := 1\<rparr>;
               p = Suc (last_address w);
               w1 = w\<lparr>heap := (heap w)(p \<mapsto> info), last_address := p\<rparr>
           in Some (p, font_info_register env p info w1)))"

definition font_info_create_for_context ::
  "pango \<Rightarrow> pango_context \<Rightarrow> font_description option \<Rightarrow> nat option \<Rightarrow> 32 word \<Rightarrow> world
     \<Rightarrow> (nat \<times> world) option" where
  "font_info_create_for_context env context desc language timestamp w =
     (let context1 = (if \<not> font_map_is_cairo context then default_font_map_context env else context);
          context2 = context1\<lparr>fontconfig_timestamp := timestamp\<rparr>;
          context3 = (case desc of None \<Rightarrow> context2
                      | Some d \<Rightarrow> context2\<lparr>ctx_font_description := d\<rparr>);
          context4 = context3\<lparr>ctx_language := language\<rparr>;
          context5 = (if ctx_font_options context4 = None
                      then context4\<lparr>ctx_font_options := Some (default_font_options env)\<rparr>
                      else context4)
      in font_info_find_for_context env context5 w)"

text \<open>A screen gives a Pango context and the setting \<^verbatim>\<open>gtk-fontconfig-timestamp\<close>; a widget
  is on a screen and its own Pango context has a language.\<close>

record gdk_screen =
  screen_pango_context :: pango_context
  gtk_fontconfig_timestamp :: "32 word"

record gtk_widget =
  widget_screen :: gdk_screen
  widget_language :: "nat option"

definition font_info_create_for_screen ::
  "pango \<Rightarrow> gdk_screen \<Rightarrow> font_description option \<Rightarrow> nat option \<Rightarrow> world \<Rightarrow> (nat \<times> world) option" where
  "font_info_create_for_screen env screen desc language w =
     font_info_create_for_context env (screen_pango_context screen) desc language
       (gtk_fontconfig_timestamp screen) w"

definition font_info_create_for_widget ::
  "pango \<Rightarrow> gtk_widget \<Rightarrow> font_description option \<Rightarrow> world \<Rightarrow> (nat \<times> world) option" where
  "font_info_create_for_widget env widget desc w =
     font_info_create_for_screen env (widget_screen widget) desc (widget_language widget) w"

subsection \<open>The draw struct and its fonts\<close>

text \<open>Modelled from the spec: the header \<^verbatim>\<open>vtedraw.hh\<close> that declares the style indices
  and the draw request is not among the sources. The four fonts of a draw are the
  normal, bold, italic and bold-italic ones, in this order, and a style is the bitwise or of the
  bits \<open>VTE_DRAW_BOLD\<close> and \<open>VTE_DRAW_ITALIC\<close>; a request has the fields that
  \<^verbatim>\<open>_vte_draw_text_internal\<close> reads.\<close>

definition VTE_DRAW_NORMAL :: nat where
  "VTE_DRAW_NORMAL = 0"

definition VTE_DRAW_BOLD :: nat where
  "VTE_DRAW_BOLD = 1"

definition VTE_DRAW_ITALIC :: nat where
  "VTE_DRAW_ITALIC = 2"

record vte_draw_text_request =
  req_c :: vteunistr
  req_x :: int
  req_y :: int
  req_columns :: int
  req_mirror :: bool
  req_box_mirror :: bool

record gtk_border =
  border_left :: int
  border_right :: int
  border_top :: int
  border_bottom :: int

record vte_draw =
  fonts :: "nat \<Rightarrow> nat option"
  cell_width :: int
  cell_height :: int
  char_spacing :: gtk_border
  cr :: "nat option"
  undercurl_surface :: "nat option"

definition PANGO_WEIGHT_BOLD :: nat where
  "PANGO_WEIGHT_BOLD = 700"

definition pango_font_description_set_weight :: "font_description \<Rightarrow> nat \<Rightarrow> font_description" where
  "pango_font_description_set_weight desc weight = desc\<lparr>desc_weight := Some weight\<rparr>"

definition pango_font_description_set_style :: "font_description \<Rightarrow> pango_style \<Rightarrow> font_description" where
  "pango_font_description_set_style desc style = desc\<lparr>desc_style := Some style\<rparr>"

text \<open>Division of C \<^verbatim>\<open>int\<close>s rounds towards zero; the caller excludes the divisor 0.\<close>

definition c_div :: "int \<Rightarrow> int \<Rightarrow> int" where
  "c_div a b = sgn a * sgn b * (\<bar>a\<bar> div \<bar>b\<bar>)"

definition vte_draw_new :: vte_draw where
  "vte_draw_new =
     \<lparr>fonts = (\<lambda>_. None), cell_width = 0, cell_height = 0,
      char_spacing = \<lparr>border_left = 0, border_right = 0, border_top = 0, border_bottom = 0\<rparr>,
      cr = None, undercurl_surface = None\<rparr>"

text \<open>The loop that frees the fonts, in \<^verbatim>\<open>_vte_draw_free\<close> and at the start of
  \<^verbatim>\<open>_vte_draw_set_text_font\<close>: \<open>free_fonts n\<close> runs it for the styles \<open>n - 1\<close> down to 0.\<close>

fun free_fonts :: "nat \<Rightarrow> vte_draw \<Rightarrow> world \<Rightarrow> (vte_draw \<times> world) option" where
  "free_fonts 0 draw w = Some (draw, w)"
| "free_fonts (Suc style) draw w =
     (if fonts draw style \<noteq> None \<and> (style = 0 \<or> fonts draw style \<noteq> fonts draw (style - 1))
      then (case font_info_destroy (fonts draw style) w of
              None \<Rightarrow> None
            | Some w1 \<Rightarrow> free_fonts style (draw\<lparr>fonts := (fonts draw)(style := None)\<rparr>) w1)
      else free_fonts style draw w)"

definition vte_draw_free :: "vte_draw \<Rightarrow> world \<Rightarrow> world option" where
  "vte_draw_free draw w = map_option snd (free_fonts 4 draw w)"

text \<open>The test of \<^verbatim>\<open>_vte_draw_set_text_font\<close> on the fonts \<open>normal\<close> and \<open>bold\<close>: the
  bold font is given up when its width is not within 10% of the normal one's.\<close>

definition reject_bold :: "nat \<Rightarrow> nat \<Rightarrow> vte_draw \<Rightarrow> world \<Rightarrow> (vte_draw \<times> world) option" where
  "reject_bold normal bold draw w =
     (case (fonts draw bold, fonts draw normal) of
        (Some b, Some n) \<Rightarrow>
          (case (heap w b, heap w n) of
             (Some bold_info, Some normal_info) \<Rightarrow>
               if width normal_info = 0 then None
               else
                 (let ratio = c_div (width bold_info * 100) (width normal_info)
                  in if \<bar>ratio - 100\<bar> > 10
                     then (case font_info_destroy (fonts draw bold) w of
                             None \<Rightarrow> None
                           | Some w1 \<Rightarrow>
                               Some (draw\<lparr>fonts := (fonts draw)(bold := fonts draw normal)\<rparr>, w1))
                     else Some (draw, w))
           | _ \<Rightarrow> None)
      | _ \<Rightarrow> None)"

text \<open>The two scale factors are \<^verbatim>\<open>double\<close>s: each is given as the function that
  multiplies an \<^verbatim>\<open>int\<close> by it and truncates.\<close>

definition vte_draw_set_text_font ::
  "pango \<Rightarrow> vte_draw \<Rightarrow> gtk_widget \<Rightarrow> font_description \<Rightarrow> (int \<Rightarrow> int) \<Rightarrow> (int \<Rightarrow> int) \<Rightarrow> world
     \<Rightarrow> (vte_draw \<times> world) option" where
  "vte_draw_set_text_font env draw widget fontdesc cell_width_scale cell_height_scale w =
     do {
       (draw0, w0) \<leftarrow> free_fonts 4 draw w;
       let bolddesc = pango_font_description_set_weight fontdesc PANGO_WEIGHT_BOLD;
       let italicdesc = pango_font_description_set_style fontdesc PANGO_STYLE_ITALIC;
       let bolditalicdesc = pango_font_description_set_style bolddesc PANGO_STYLE_ITALIC;
       (p0, w1) \<leftarrow> font_info_create_for_widget env widget (Some fontdesc) w0;
       (p1, w2) \<leftarrow> font_info_create_for_widget env widget (Some bolddesc) w1;
       (p2, w3) \<leftarrow> font_info_create_for_widget env widget (Some italicdesc) w2;
       (p3, w4) \<leftarrow> font_info_create_for_widget env widget (Some bolditalicdesc) w3;
       let draw1 = draw0\<lparr>fonts := (fonts draw0)
                     (VTE_DRAW_NORMAL := Some p0, VTE_DRAW_BOLD := Some p1, VTE_DRAW_ITALIC := Some p2,
                      VTE_DRAW_ITALIC OR VTE_DRAW_BOLD := Some p3)\<rparr>;
       (draw2, w5) \<leftarrow> reject_bold VTE_DRAW_NORMAL (VTE_DRAW_NORMAL OR VTE_DRAW_BOLD) draw1 w4;
       (draw3, w6) \<leftarrow> reject_bold VTE_DRAW_ITALIC (VTE_DRAW_ITALIC OR VTE_DRAW_BOLD) draw2 w5;
       normal_info \<leftarrow> (case fonts draw3 VTE_DRAW_NORMAL of None \<Rightarrow> None | Some n \<Rightarrow> heap w6 n);
       let cw = cell_width_scale (width normal_info);
       let ch = cell_height_scale (height normal_info);
       Some (draw3\<lparr>cell_width := cw,
                   cell_height := ch,
                   char_spacing :=
                     \<lparr>border_left = c_div (cw - width normal_info) 2,
                      border_right = c_div (cw - width normal_info + 1) 2,
                      border_top = c_div (ch - height normal_info + 1) 2,
                      border_bottom = c_div (ch - height normal_info) 2\<rparr>,
                   undercurl_surface := None\<rparr>, w6)
     }"

subsection \<open>Drawing text\<close>

definition vte_draw_unichar_is_local_graphic :: "vteunistr \<Rightarrow> bool" where
  "vte_draw_unichar_is_local_graphic c =
     ((0x2500 \<le> c \<and> c \<le> 0x259f) \<or> (0x25e2 \<le> c \<and> c \<le> 0x25e5) \<or> (0x1fb00 \<le> c \<and> c \<le> 0x1fbff))"

text \<open>\<^verbatim>\<open>font_info_get_unistr_info\<close> through a pointer to the font info.\<close>

definition font_info_get_unistr_info_at ::
  "pango \<Rightarrow> nat option \<Rightarrow> vteunistr \<Rightarrow> world \<Rightarrow> (unistr_info \<times> world) option" where
  "font_info_get_unistr_info_at env info_ptr c w =
     (case info_ptr of
        None \<Rightarrow> None
      | Some p \<Rightarrow>
          (case heap w p of
             None \<Rightarrow> None
           | Some info \<Rightarrow>
               (let (uinfo, info1) = font_info_get_unistr_info env info c
                in Some (uinfo, w\<lparr>heap := (heap w)(p \<mapsto> info1)\<rparr>))))"

text \<open>\<^verbatim>\<open>_vte_draw_get_char_edges\<close> gives the pair (left, right). The array \<^verbatim>\<open>fonts\<close>
  has four elements: a style from 4 on reads outside it.\<close>

definition vte_draw_get_char_edges ::
  "pango \<Rightarrow> vte_draw \<Rightarrow> vteunistr \<Rightarrow> int \<Rightarrow> nat \<Rightarrow> world \<Rightarrow> ((int \<times> int) \<times> world) option" where
  "vte_draw_get_char_edges env draw c columns style w =
     (if vte_draw_unichar_is_local_graphic c then Some ((0, cell_width draw * columns), w)
      else
        (case fonts draw VTE_DRAW_NORMAL of
           None \<Rightarrow> Some ((0, 0), w)
         | Some normal_ptr \<Rightarrow>
             if \<not> style < 4 then None
             else do {
               (uinfo, w1) \<leftarrow> font_info_get_unistr_info_at env (fonts draw style) c w;
               normal_info \<leftarrow> heap w1 normal_ptr;
               let gw = uint (uinfo_width uinfo);
               let normal_width = width normal_info * columns;
               let fits_width = cell_width draw * columns;
               let l = (if gw \<le> normal_width
                        then border_left (char_spacing draw)
                               + (if columns = 2 then border_right (char_spacing draw) else 0)
                        else if gw \<le> fits_width then c_div (fits_width - gw) 2
                        else 0);
               Some ((l, l + gw), w1)
             }))"

text \<open>The state of the loop of \<^verbatim>\<open>_vte_draw_text_internal\<close> is \<^verbatim>\<open>last_scaled_font\<close> and the
  first \<^verbatim>\<open>n_cr_glyphs\<close> elements of \<^verbatim>\<open>cr_glyphs\<close>, as a list.\<close>

definition MAX_RUN_LENGTH :: nat where
  "MAX_RUN_LENGTH = 100"

definition show_glyphs :: "nat option \<Rightarrow> (32 word \<times> int \<times> int) list \<Rightarrow> world \<Rightarrow> world" where
  "show_glyphs last_scaled_font cr_glyphs w =
     w\<lparr>cairo_ops := cairo_ops w @ [Cairo_set_scaled_font last_scaled_font, Cairo_show_glyphs cr_glyphs]\<rparr>"

definition cairo :: "cairo_op list \<Rightarrow> world \<Rightarrow> world" where
  "cairo ops w = w\<lparr>cairo_ops := cairo_ops w @ ops\<rparr>"

fun draw_text_loop ::
  "pango \<Rightarrow> vte_draw \<Rightarrow> 32 word \<Rightarrow> nat \<times> nat \<times> nat \<Rightarrow> nat \<Rightarrow> nat \<Rightarrow> vte_draw_text_request list
     \<Rightarrow> nat option \<Rightarrow> (32 word \<times> int \<times> int) list \<Rightarrow> world
     \<Rightarrow> (nat option \<times> (32 word \<times> int \<times> int) list \<times> world) option" where
  "draw_text_loop env draw attr color style font [] last_scaled_font cr_glyphs w =
     Some (last_scaled_font, cr_glyphs, w)"
| "draw_text_loop env draw attr color style font (request # requests) last_scaled_font cr_glyphs w =
     (let c = (if req_mirror request
               then bidi_get_mirror_char env (req_c request) (req_box_mirror request)
               else req_c request)
      in if vte_draw_unichar_is_local_graphic c
         then do {
           font_info \<leftarrow> heap w font;
           draw_text_loop env draw attr color style font requests last_scaled_font cr_glyphs
             (cairo [Terminal_draw_graphic c attr color (req_x request) (req_y request)
                       (width font_info) (req_columns request) (height font_info)] w)
         }
         else do {
           (uinfo, w1) \<leftarrow> font_info_get_unistr_info_at env (Some font) c w;
           ((left, right), w2) \<leftarrow> vte_draw_get_char_edges env draw c (req_columns request) style w1;
           normal_info \<leftarrow> (case fonts draw VTE_DRAW_NORMAL of None \<Rightarrow> None | Some n \<Rightarrow> heap w2 n);
           let x = left + req_x request;
           let y = req_y request + border_top (char_spacing draw) + ascent normal_info;
           (case ufi uinfo of
              Ufi_unknown \<Rightarrow> None
            | Using_pango_layout_line line \<Rightarrow>
                draw_text_loop env draw attr color style font requests last_scaled_font cr_glyphs
                  (cairo [Cairo_move_to x y, Pango_cairo_show_layout_line line] w2)
            | Using_pango_glyph_string pango_font glyph_string \<Rightarrow>
                draw_text_loop env draw attr color style font requests last_scaled_font cr_glyphs
                  (cairo [Cairo_move_to x y, Pango_cairo_show_glyph_string pango_font glyph_string] w2)
            | Using_cairo_glyph scaled_font glyph_index \<Rightarrow>
                if last_scaled_font \<noteq> Some scaled_font \<or> length cr_glyphs = MAX_RUN_LENGTH
                then draw_text_loop env draw attr color style font requests (Some scaled_font)
                       [(glyph_index, x, y)]
                       (if cr_glyphs \<noteq> [] then show_glyphs last_scaled_font cr_glyphs w2 else w2)
                else draw_text_loop env draw attr color style font requests last_scaled_font
                       (cr_glyphs @ [(glyph_index, x, y)]) w2)
         })"

definition vte_draw_text_internal ::
  "pango \<Rightarrow> vte_draw \<Rightarrow> vte_draw_text_request list \<Rightarrow> 32 word \<Rightarrow> nat \<times> nat \<times> nat \<Rightarrow> nat \<Rightarrow> nat
     \<Rightarrow> world \<Rightarrow> world option" where
  "vte_draw_text_internal env draw requests attr color alpha style w =
     (if \<not> style < 4 then None
      else case fonts draw style of
        None \<Rightarrow> Some w
      | Some font \<Rightarrow>
          if cr draw = None then None
          else do {
            (last_scaled_font, cr_glyphs, w1) \<leftarrow>
              draw_text_loop env draw attr color style font requests None []
                (cairo [Cairo_set_source_rgba color alpha, Cairo_set_operator_over] w);
            Some (if cr_glyphs \<noteq> [] then show_glyphs last_scaled_font cr_glyphs w1 else w1)
          })"

definition vte_draw_text ::
  "pango \<Rightarrow> vte_draw \<Rightarrow> vte_draw_text_request list \<Rightarrow> 32 word \<Rightarrow> nat \<times> nat \<times> nat \<Rightarrow> nat \<Rightarrow> nat
     \<Rightarrow> world \<Rightarrow> world option" where
  "vte_draw_text env draw requests attr color alpha style w =
     (if cr draw = None then None
      else vte_draw_text_internal env draw requests attr color alpha style w)"

definition vte_draw_has_char ::
  "pango \<Rightarrow> vte_draw \<Rightarrow> vteunistr \<Rightarrow> nat \<Rightarrow> world \<Rightarrow> (bool \<times> world) option" where
  "vte_draw_has_char env draw c style w =
     (case fonts draw VTE_DRAW_NORMAL of
        None \<Rightarrow> Some (False, w)
      | Some _ \<Rightarrow>
          if \<not> style < 4 then None
          else do {
            (uinfo, w1) \<leftarrow> font_info_get_unistr_info_at env (fonts draw style) c w;
            Some (\<not> has_unknown_chars uinfo, w1)
          })"

definition vte_draw_char ::
  "pango \<Rightarrow> vte_draw \<Rightarrow> vte_draw_text_request \<Rightarrow> 32 word \<Rightarrow> nat \<times> nat \<times> nat \<Rightarrow> nat \<Rightarrow> nat
     \<Rightarrow> world \<Rightarrow> (bool \<times> world) option" where
  "vte_draw_char env draw request attr color alpha style w =
     do {
       (has_char, w1) \<leftarrow> vte_draw_has_char env draw (req_c request) style w;
       if has_char
       then do {
         w2 \<leftarrow> vte_draw_text env draw [request] attr color alpha style w1;
         Some (True, w2)
       }
       else Some (False, w1)
     }"

subsection \<open>Reading the cache, and the claims' own words\<close>

text \<open>The entry of \<open>c\<close> as the cache holds it: the slot of the array below 128, the hash
  table's entry (if any) from there on.\<close>

definition cached :: "font_info \<Rightarrow> vteunistr \<Rightarrow> unistr_info option" where
  "cached info c =
     (if c < 128 then Some (ascii_unistr_info info (unat c)) else other_unistr_info info c)"

text \<open>A run of further classifications on the same cache.\<close>

definition classify_all :: "pango \<Rightarrow> font_info \<Rightarrow> vteunistr list \<Rightarrow> font_info" where
  "classify_all env info cs = foldl (\<lambda>i c. snd (font_info_get_unistr_info env i c)) info cs"

text \<open>The shape that the specification asks of a single glyph, in its own words: exactly
  one run, of exactly one glyph, with zero offsets and an index that fits 16 bits.\<close>

definition spec_single_glyph_shape :: "shaped \<Rightarrow> bool" where
  "spec_single_glyph_shape sh =
     (case line_runs sh of
        [run] \<Rightarrow> (case glyphs run of
                    [g] \<Rightarrow> x_offset g = 0 \<and> y_offset g = 0 \<and> unat (glyph g) < 2 ^ 16
                  | _ \<Rightarrow> False)
      | _ \<Rightarrow> False)"

text \<open>What Pango answers for the text of \<open>c\<close> in the layout of a font info.\<close>

definition shaped_for :: "pango \<Rightarrow> font_info \<Rightarrow> vteunistr \<Rightarrow> shaped" where
  "shaped_for env info c =
     shape env (layout_context (layout info)) (unistr_append_to_string env c)"

text \<open>The fingerprint of a context: the five fields that \<^verbatim>\<open>context_hash\<close> and
  \<^verbatim>\<open>context_equal\<close> read.\<close>

definition fingerprint ::
  "pango_context \<Rightarrow> rat \<times> font_description \<times> nat option \<times> nat option \<times> 32 word" where
  "fingerprint context =
     (resolution context, ctx_font_description context, ctx_font_options context,
      ctx_language context, fontconfig_timestamp context)"

text \<open>
  The state that the functions of the cache keep up. Every entry of the hash table
  points to a live font info whose layout has the entry's key as its context; every live
  font info is in the table, was allocated (its address is at most \<open>last_address\<close>), has
  a reference count that is not negative, a context with font options, and a width of at
  least 1; no two entries have the same fingerprint; every pending timeout has an id that
  was given out and is not 0, and its data is a live font info without references that
  remembers this id; no two pending timeouts share an id.
\<close>

definition registry_ok :: "world \<Rightarrow> bool" where
  "registry_ok w =
     ((\<forall>entry \<in> set (font_info_for_context w).
         \<exists>info. heap w (snd entry) = Some info \<and> layout_context (layout info) = fst entry)
      \<and> (\<forall>p info. heap w p = Some info \<longrightarrow>
            (layout_context (layout info), p) \<in> set (font_info_for_context w)
            \<and> p \<le> last_address w \<and> 0 \<le> ref_count info
            \<and> ctx_font_options (layout_context (layout info)) \<noteq> None
            \<and> 1 \<le> width info)
      \<and> distinct (map (\<lambda>entry. fingerprint (fst entry)) (font_info_for_context w))
      \<and> (\<forall>t \<in> set (timeouts w).
            fst t \<noteq> 0 \<and> fst t \<le> last_source w
            \<and> (\<exists>info. heap w (snd (snd t)) = Some info \<and> destroy_timeout info = fst t
                        \<and> ref_count info = 0))
      \<and> distinct (map fst (timeouts w)))"

text \<open>The world before anything was allocated.\<close>

definition empty_world :: world where
  "empty_world =
     \<lparr>heap = Map.empty, font_info_for_context = [], timeouts = [], now = 0,
      last_address = 0, last_source = 0, cairo_ops = []\<rparr>"

subsection \<open>The steps of the cache, written out\<close>

text \<open>A reference to a live font info.\<close>

definition referenced :: "nat \<Rightarrow> font_info \<Rightarrow> world \<Rightarrow> world" where
  "referenced p info w =
     (let w1 = (if destroy_timeout info \<noteq> 0 then g_source_remove (destroy_timeout info) w else w)
      in w1\<lparr>heap := (heap w1)(p \<mapsto> info\<lparr>destroy_timeout := 0, ref_count := ref_count info + 1\<rparr>)\<rparr>)"

text \<open>A font info allocated for a context that the table does not have.\<close>

definition allocated :: "pango \<Rightarrow> pango_context \<Rightarrow> world \<Rightarrow> world" where
  "allocated env context w =
     w\<lparr>heap := (heap w)(Suc (last_address w) \<mapsto> (font_info_allocate env context)\<lparr>ref_count := 1\<rparr>),
       last_address := Suc (last_address w),
       font_info_for_context := font_info_for_context w @ [(context, Suc (last_address w))]\<rparr>"

text \<open>Giving up a reference.\<close>

definition released :: "nat \<Rightarrow> font_info \<Rightarrow> world \<Rightarrow> world" where
  "released p info w =
     (if ref_count info = 1
      then w\<lparr>timeouts := timeouts w @ [(Suc (last_source w), now w + FONT_CACHE_TIMEOUT, p)],
             last_source := Suc (last_source w),
             heap := (heap w)(p \<mapsto> info\<lparr>ref_count := 0, destroy_timeout := Suc (last_source w)\<rparr>)\<rparr>
      else if 0 < ref_count info
      then w\<lparr>heap := (heap w)(p \<mapsto> info\<lparr>ref_count := ref_count info - 1\<rparr>)\<rparr>
      else w)"

text \<open>The timeout of a font info fires.\<close>

definition evicted :: "pango \<Rightarrow> nat \<Rightarrow> nat \<Rightarrow> font_info \<Rightarrow> world \<Rightarrow> world" where
  "evicted env tag p info w =
     w\<lparr>timeouts := filter (\<lambda>t. fst t \<noteq> tag) (timeouts w),
       font_info_for_context := g_hash_table_remove env (font_info_for_context w) (layout_context (layout info)),
       heap := (heap w)(p := None)\<rparr>"

subsection \<open>What the drawing loop does with one request\<close>

text \<open>The character that is drawn for a request.\<close>

definition request_char :: "pango \<Rightarrow> vte_draw_text_request \<Rightarrow> vteunistr" where
  "request_char env request =
     (if req_mirror request
      then bidi_get_mirror_char env (req_c request) (req_box_mirror request)
      else req_c request)"

text \<open>The left edge that \<^verbatim>\<open>_vte_draw_get_char_edges\<close> computes for a glyph of width \<open>gw\<close>,
  from the draw and the width of the normal font.\<close>

definition char_left :: "vte_draw \<Rightarrow> int \<Rightarrow> int \<Rightarrow> int \<Rightarrow> int" where
  "char_left draw normal_font_width gw columns =
     (if gw \<le> normal_font_width * columns
      then border_left (char_spacing draw) + (if columns = 2 then border_right (char_spacing draw) else 0)
      else if gw \<le> cell_width draw * columns then (cell_width draw * columns - gw) div 2
      else 0)"

text \<open>
  A request as the loop of \<^verbatim>\<open>_vte_draw_text_internal\<close> sees it, given the font info of
  the style and the normal font info: a local graphic, which is delegated at once; a
  layout line or a glyph string, which is shown at once after a \<^verbatim>\<open>cairo_move_to\<close>; or a
  cairo glyph of a scaled font at a position, which goes into the pending run
  (\<open>Item_unknown\<close> is the entry without coverage, which the cache never returns).
\<close>

datatype draw_item =
  Item_graphic vteunistr "32 word" "nat \<times> nat \<times> nat" int int int int int
| Item_layout_line int int "glyph_item list"
| Item_glyph_string int int "nat option" "pango_glyph_info list"
| Item_glyph nat "32 word \<times> int \<times> int"
| Item_unknown

definition resolve_request ::
  "pango \<Rightarrow> vte_draw \<Rightarrow> 32 word \<Rightarrow> nat \<times> nat \<times> nat \<Rightarrow> font_info \<Rightarrow> font_info
     \<Rightarrow> vte_draw_text_request \<Rightarrow> draw_item" where
  "resolve_request env draw attr color font_info normal_info request =
     (let c = request_char env request
      in if vte_draw_unichar_is_local_graphic c
         then Item_graphic c attr color (req_x request) (req_y request)
                (width font_info) (req_columns request) (height font_info)
         else
           (let uinfo = fst (font_info_get_unistr_info env font_info c);
                x = char_left draw (width normal_info) (uint (uinfo_width uinfo)) (req_columns request)
                      + req_x request;
                y = req_y request + border_top (char_spacing draw) + ascent normal_info
            in case ufi uinfo of
                 Ufi_unknown \<Rightarrow> Item_unknown
               | Using_pango_layout_line line \<Rightarrow> Item_layout_line x y line
               | Using_pango_glyph_string pango_font glyph_string \<Rightarrow>
                   Item_glyph_string x y pango_font glyph_string
               | Using_cairo_glyph scaled_font glyph_index \<Rightarrow>
                   Item_glyph scaled_font (glyph_index, x, y)))"

text \<open>The cairo operations of a list of requests seen so, from a state of the loop
  (\<^verbatim>\<open>last_scaled_font\<close> and the pending glyphs), with the state that it ends in.\<close>

fun emit_items ::
  "draw_item list \<Rightarrow> nat option \<Rightarrow> (32 word \<times> int \<times> int) list
     \<Rightarrow> cairo_op list \<times> nat option \<times> (32 word \<times> int \<times> int) list" where
  "emit_items [] last_scaled_font cr_glyphs = ([], last_scaled_font, cr_glyphs)"
| "emit_items (Item_graphic c attr color x y w columns h # items) last_scaled_font cr_glyphs =
     (case emit_items items last_scaled_font cr_glyphs of
        (ops, st) \<Rightarrow> (Terminal_draw_graphic c attr color x y w columns h # ops, st))"
| "emit_items (Item_layout_line x y line # items) last_scaled_font cr_glyphs =
     (case emit_items items last_scaled_font cr_glyphs of
        (ops, st) \<Rightarrow> (Cairo_move_to x y # Pango_cairo_show_layout_line line # ops, st))"
| "emit_items (Item_glyph_string x y font glyph_string # items) last_scaled_font cr_glyphs =
     (case emit_items items last_scaled_font cr_glyphs of
        (ops, st) \<Rightarrow>
          (Cairo_move_to x y # Pango_cairo_show_glyph_string font glyph_string # ops, st))"
| "emit_items (Item_glyph scaled_font g # items) last_scaled_font cr_glyphs =
     (if last_scaled_font \<noteq> Some scaled_font \<or> length cr_glyphs = MAX_RUN_LENGTH
      then (case emit_items items (Some scaled_font) [g] of
              (ops, st) \<Rightarrow>
                ((if cr_glyphs \<noteq> []
                  then [Cairo_set_scaled_font last_scaled_font, Cairo_show_glyphs cr_glyphs]
                  else []) @ ops, st))
      else emit_items items last_scaled_font (cr_glyphs @ [g]))"
| "emit_items (Item_unknown # items) last_scaled_font cr_glyphs = ([], last_scaled_font, cr_glyphs)"

text \<open>All the operations of \<^verbatim>\<open>_vte_draw_text_internal\<close> after the two that set the colour
  and the operator: those of the loop, and the pending glyphs at its end.\<close>

definition emit_all :: "draw_item list \<Rightarrow> cairo_op list" where
  "emit_all items =
     (case emit_items items None [] of
        (ops, last_scaled_font, cr_glyphs) \<Rightarrow>
          ops @ (if cr_glyphs \<noteq> []
                 then [Cairo_set_scaled_font last_scaled_font, Cairo_show_glyphs cr_glyphs]
                 else []))"

text \<open>The font info of the style after the requests were drawn: the characters that are
  not local graphics were classified, in order.\<close>

definition drawn_chars :: "pango \<Rightarrow> vte_draw_text_request list \<Rightarrow> vteunistr list" where
  "drawn_chars env requests =
     filter (\<lambda>c. \<not> vte_draw_unichar_is_local_graphic c) (map (request_char env) requests)"

text \<open>A list cut into runs of \<open>n\<close> elements, the last one shorter when the length is not a
  multiple of \<open>n\<close>.\<close>

function batches :: "nat \<Rightarrow> 'a list \<Rightarrow> 'a list list" where
  "batches n xs = (if n = 0 \<or> xs = [] then [] else take n xs # batches n (drop n xs))"
  by pat_completeness auto
termination
  by (relation "measure (\<lambda>(n, xs). length xs)") auto

text \<open>The operations that show a list of runs of glyphs of one scaled font.\<close>

definition show_batches :: "nat \<Rightarrow> (32 word \<times> int \<times> int) list list \<Rightarrow> cairo_op list" where
  "show_batches scaled_font bs =
     concat (map (\<lambda>b. [Cairo_set_scaled_font (Some scaled_font), Cairo_show_glyphs b]) bs)"

text \<open>The draw calls among cairo operations: those that are issued for one request, and
  the glyphs of the batched ones.\<close>

fun single_draw_calls :: "cairo_op list \<Rightarrow> cairo_op list" where
  "single_draw_calls [] = []"
| "single_draw_calls (Pango_cairo_show_layout_line line # ops) =
     Pango_cairo_show_layout_line line # single_draw_calls ops"
| "single_draw_calls (Pango_cairo_show_glyph_string font glyph_string # ops) =
     Pango_cairo_show_glyph_string font glyph_string # single_draw_calls ops"
| "single_draw_calls (Terminal_draw_graphic c attr color x y w columns h # ops) =
     Terminal_draw_graphic c attr color x y w columns h # single_draw_calls ops"
| "single_draw_calls (op # ops) = single_draw_calls ops"

fun batched_glyphs :: "cairo_op list \<Rightarrow> (32 word \<times> int \<times> int) list" where
  "batched_glyphs [] = []"
| "batched_glyphs (Cairo_show_glyphs gs # ops) = gs @ batched_glyphs ops"
| "batched_glyphs (op # ops) = batched_glyphs ops"

fun item_single_draw_call :: "draw_item \<Rightarrow> cairo_op list" where
  "item_single_draw_call (Item_graphic c attr color x y w columns h) =
     [Terminal_draw_graphic c attr color x y w columns h]"
| "item_single_draw_call (Item_layout_line x y line) = [Pango_cairo_show_layout_line line]"
| "item_single_draw_call (Item_glyph_string x y font glyph_string) =
     [Pango_cairo_show_glyph_string font glyph_string]"
| "item_single_draw_call item = []"

fun item_glyph :: "draw_item \<Rightarrow> (32 word \<times> int \<times> int) list" where
  "item_glyph (Item_glyph scaled_font g) = [g]"
| "item_glyph item = []"

text \<open>The positioned glyph that the loop puts into the pending run for a request whose
  character is a cairo glyph: the cached glyph index, the left edge of the character plus
  the request's x, and the request's y plus the top spacing and the normal font's ascent.\<close>

definition glyph_of_request ::
  "pango \<Rightarrow> vte_draw \<Rightarrow> font_info \<Rightarrow> font_info \<Rightarrow> vte_draw_text_request \<Rightarrow> 32 word \<times> int \<times> int" where
  "glyph_of_request env draw font_info normal_info request =
     (let uinfo = fst (font_info_get_unistr_info env font_info (request_char env request))
      in ((case ufi uinfo of Using_cairo_glyph scaled_font glyph_index \<Rightarrow> glyph_index | _ \<Rightarrow> 0),
          char_left draw (width normal_info) (uint (uinfo_width uinfo)) (req_columns request)
            + req_x request,
          req_y request + border_top (char_spacing draw) + ascent normal_info))"

text \<open>The operations that show the pending glyphs, if there are any.\<close>

definition flush_ops :: "nat option \<times> (32 word \<times> int \<times> int) list \<Rightarrow> cairo_op list" where
  "flush_ops st = (if snd st \<noteq> [] then [Cairo_set_scaled_font (fst st), Cairo_show_glyphs (snd st)] else [])"

subsection \<open>The fonts of a draw, written out\<close>

text \<open>The number of references to the font info at an address; none when it is not live.\<close>

definition refs :: "world \<Rightarrow> nat \<Rightarrow> int" where
  "refs w p = (case heap w p of None \<Rightarrow> 0 | Some info \<Rightarrow> ref_count info)"

text \<open>The context that \<^verbatim>\<open>font_info_create_for_widget\<close> looks up for a font description.\<close>

definition widget_context :: "pango \<Rightarrow> gtk_widget \<Rightarrow> font_description \<Rightarrow> pango_context" where
  "widget_context env widget desc =
     (let context = screen_pango_context (widget_screen widget);
          context1 = (if \<not> font_map_is_cairo context then default_font_map_context env else context);
          context4 = context1\<lparr>fontconfig_timestamp := gtk_fontconfig_timestamp (widget_screen widget),
                              ctx_font_description := desc,
                              ctx_language := widget_language widget\<rparr>
      in if ctx_font_options context4 = None
         then context4\<lparr>ctx_font_options := Some (default_font_options env)\<rparr>
         else context4)"

text \<open>The test of \<^verbatim>\<open>_vte_draw_set_text_font\<close> on the widths of a bold font and its normal
  one.\<close>

definition bold_rejected :: "font_info \<Rightarrow> font_info \<Rightarrow> bool" where
  "bold_rejected bold_info normal_info =
     (\<bar>c_div (width bold_info * 100) (width normal_info) - 100\<bar> > 10)"

text \<open>The font infos of a world are still live in another, with their layouts and widths.\<close>

definition same_fonts :: "world \<Rightarrow> world \<Rightarrow> bool" where
  "same_fonts w w1 =
     (\<forall>q info. heap w q = Some info \<longrightarrow>
        (\<exists>info1. heap w1 q = Some info1 \<and> layout info1 = layout info \<and> width info1 = width info
                   \<and> height info1 = height info))"

text \<open>The four fonts of a draw, and their widths, in the order of the styles.\<close>

definition slot_fonts :: "vte_draw \<Rightarrow> nat option list" where
  "slot_fonts draw =
     map (fonts draw) [VTE_DRAW_NORMAL, VTE_DRAW_BOLD, VTE_DRAW_ITALIC, VTE_DRAW_ITALIC OR VTE_DRAW_BOLD]"

definition slot_widths :: "vte_draw \<Rightarrow> world \<Rightarrow> int option list" where
  "slot_widths draw w =
     map (\<lambda>slot. case slot of None \<Rightarrow> None | Some p \<Rightarrow> map_option width (heap w p)) (slot_fonts draw)"

subsection \<open>Concrete inputs\<close>

definition demo_context :: pango_context where
  "demo_context =
     \<lparr>resolution = 96,
      ctx_font_description =
        \<lparr>desc_family = Some ''monospace'', desc_style = Some PANGO_STYLE_NORMAL,
         desc_weight = Some 400, desc_size = Some 12288\<rparr>,
      ctx_font_options = Some 3, ctx_language = Some 1, fontconfig_timestamp = 0,
      font_map_is_cairo = True\<rparr>"

definition demo_glyph :: "32 word \<Rightarrow> pango_glyph_info" where
  "demo_glyph g = \<lparr>glyph = g, geometry_width = 8192, x_offset = 0, y_offset = 0\<rparr>"

text \<open>A shaper for an 8 by 16 pixel font: \<open>Z\<close> takes two glyphs of one font, \<open>W\<close> takes two
  fonts, \<open>B\<close> is one glyph of font 2, every other text is one glyph of font 1.\<close>

definition demo_shape :: "pango_context \<Rightarrow> string \<Rightarrow> shaped" where
  "demo_shape context text =
     \<lparr>logical_width = 8192, logical_height = 16384, baseline = 12288,
      line_runs =
        (if text = ''Z'' then [\<lparr>analysis_font = Some 1, glyphs = [demo_glyph 90, demo_glyph 91]\<rparr>]
         else if text = ''W''
         then [\<lparr>analysis_font = Some 1, glyphs = [demo_glyph 87]\<rparr>,
               \<lparr>analysis_font = Some 2, glyphs = [demo_glyph 88]\<rparr>]
         else if text = ''B'' then [\<lparr>analysis_font = Some 2, glyphs = [demo_glyph 66]\<rparr>]
         else [\<lparr>analysis_font = Some 1, glyphs = [demo_glyph (of_nat (length text))]\<rparr>]),
      unknown_glyphs_count = 0\<rparr>"

definition demo_pango :: pango where
  "demo_pango =
     \<lparr>shape = demo_shape,
      glyph_item_iter_clusters = (\<lambda>glyph_item text. []),
      get_scaled_font = (\<lambda>font. Some (font + 10)),
      unistr_append_to_string = (\<lambda>c. [char_of (unat c)]),
      language_get_default = 1,
      language_includes_latin = (\<lambda>l. True),
      script_upto_inherited = (\<lambda>c. False),
      font_description_hash = (\<lambda>d. 0),
      font_options_hash = (\<lambda>options. of_nat options),
      default_font_map_context = demo_context,
      default_font_options = 0,
      bidi_get_mirror_char = (\<lambda>c box_mirror. c)\<rparr>"

text \<open>A Pango whose fonts have no scaled font, and one that reports an unknown glyph.\<close>

definition demo_pango_no_scaled_font :: pango where
  "demo_pango_no_scaled_font = demo_pango\<lparr>get_scaled_font := (\<lambda>font. None)\<rparr>"

definition demo_pango_unknown :: pango where
  "demo_pango_unknown =
     demo_pango\<lparr>shape := (\<lambda>context text. (demo_shape context text)\<lparr>unknown_glyphs_count := 1\<rparr>)\<rparr>"

definition demo_font_info :: font_info where
  "demo_font_info =
     \<lparr>ref_count = 1, destroy_timeout = 0,
      layout = \<lparr>layout_context = demo_context, layout_text = [], layout_set_text_calls = 0\<rparr>,
      ascii_unistr_info = (\<lambda>_. unistr_info_create), other_unistr_info = Map.empty,
      width = 8, height = 16, ascent = 12, info_string = []\<rparr>"

text \<open>A world with the demo font info at address 1, and a draw whose four fonts are this
  one, with cells of 8 by 16 pixels and a cairo context.\<close>

definition demo_world :: world where
  "demo_world = empty_world\<lparr>heap := [1 \<mapsto> demo_font_info], last_address := 1\<rparr>"

definition demo_draw :: vte_draw where
  "demo_draw =
     \<lparr>fonts = (\<lambda>style. if style < 4 then Some 1 else None), cell_width = 8, cell_height = 16,
      char_spacing = \<lparr>border_left = 0, border_right = 0, border_top = 0, border_bottom = 0\<rparr>,
      cr = Some 0, undercurl_surface = None\<rparr>"

definition demo_request :: "vteunistr \<Rightarrow> int \<Rightarrow> vte_draw_text_request" where
  "demo_request c x =
     \<lparr>req_c = c, req_x = x, req_y = 0, req_columns = 1, req_mirror = False, req_box_mirror = False\<rparr>"

text \<open>A Pango that mirrors \<open>(\<close> to \<open>)\<close> and whose font has no glyph for \<open>)\<close>: the text \<open>)\<close> is
  shaped to the one glyph 41, reported as unknown.\<close>

definition demo_pango_mirror :: pango where
  "demo_pango_mirror =
     demo_pango\<lparr>shape := (\<lambda>context text.
                    if text = '')''
                    then (demo_shape context text)
                           \<lparr>line_runs := [\<lparr>analysis_font = Some 1, glyphs = [demo_glyph 41]\<rparr>],
                            unknown_glyphs_count := 1\<rparr>
                    else demo_shape context text),
                bidi_get_mirror_char := (\<lambda>c box_mirror. if c = 0x28 then 0x29 else c)\<rparr>"

text \<open>A widget on a screen with the demo context, the font description of the demo context
  (weight 400, not italic), the same description in bold, and a Pango whose bold fonts are
  10 pixels wide where the others are 8 pixels wide.\<close>

definition demo_widget :: gtk_widget where
  "demo_widget =
     \<lparr>widget_screen = \<lparr>screen_pango_context = demo_context, gtk_fontconfig_timestamp = 0\<rparr>,
      widget_language = Some 1\<rparr>"

definition demo_desc :: font_description where
  "demo_desc = ctx_font_description demo_context"

definition demo_bold_desc :: font_description where
  "demo_bold_desc = demo_desc\<lparr>desc_weight := Some 700\<rparr>"

definition demo_pango_wide_bold :: pango where
  "demo_pango_wide_bold =
     demo_pango\<lparr>shape := (\<lambda>context text.
        (demo_shape context text)
          \<lparr>logical_width := (if desc_weight (ctx_font_description context) = Some 700
                              then 10240 else 8192)\<rparr>)\<rparr>"

section \<open>Properties\<close>

subsection \<open>Classification\<close>

lemma one_real_glyph_at_origin_iff:
  "one_real_glyph_at_origin gs \<longleftrightarrow>
     (\<exists>g. gs = [g] \<and> x_offset g = 0 \<and> y_offset g = 0 \<and> unat (glyph g) < 2 ^ 16)"
proof -
  have le: "(w \<le> (0xFFFF :: 32 word)) = (unat w < 2 ^ 16)" for w :: "32 word"
    by (auto simp: word_le_nat_alt)
  show ?thesis
    by (cases gs; cases "tl gs")
       (auto simp: one_real_glyph_at_origin_def le or_eq_0_iff split: list.splits)
qed

lemma coverage_classify_shaped:
  "coverage (classify_shaped env sh) = COVERAGE_USE_CAIRO_GLYPH \<longleftrightarrow>
     spec_single_glyph_shape sh \<and> unknown_glyphs_count sh = 0 \<and>
     pango_cairo_font_get_scaled_font env (analysis_font (hd (line_runs sh))) \<noteq> None"
  by (auto simp: classify_shaped_def spec_single_glyph_shape_def Let_def coverage_def
      one_real_glyph_at_origin_iff split: list.splits option.splits if_splits)

lemma coverage_classify_shaped_cases:
  "coverage (classify_shaped env sh) =
     (if length (line_runs sh) \<noteq> 1 then COVERAGE_USE_PANGO_LAYOUT_LINE
      else if spec_single_glyph_shape sh \<and> unknown_glyphs_count sh = 0 \<and>
              pango_cairo_font_get_scaled_font env (analysis_font (hd (line_runs sh))) \<noteq> None
      then COVERAGE_USE_CAIRO_GLYPH else COVERAGE_USE_PANGO_GLYPH_STRING)"
  by (auto simp: classify_shaped_def spec_single_glyph_shape_def Let_def coverage_def
      one_real_glyph_at_origin_iff split: list.splits option.splits if_splits)

lemma has_unknown_classify_shaped:
  "has_unknown_chars (classify_shaped env sh) \<longleftrightarrow> unknown_glyphs_count sh \<noteq> 0"
  by (auto simp: classify_shaped_def Let_def split: list.splits option.splits)

lemma classify_shaped_known: "coverage (classify_shaped env sh) \<noteq> COVERAGE_UNKNOWN"
  by (auto simp: classify_shaped_def Let_def coverage_def split: list.splits option.splits)

lemma find_cached:
  "fst (font_info_find_unistr_info info c) =
     (case cached info c of Some u \<Rightarrow> u | None \<Rightarrow> unistr_info_create)"
  by (auto simp: font_info_find_unistr_info_def cached_def split: option.splits)

lemma coverage_create [simp]: "coverage unistr_info_create = COVERAGE_UNKNOWN"
  by (simp add: coverage_def unistr_info_create_def)

lemma get_fresh:
  "coverage (fst (font_info_find_unistr_info info c)) = COVERAGE_UNKNOWN \<Longrightarrow>
   fst (font_info_get_unistr_info env info c) = classify_shaped env (shaped_for env info c)"
  by (auto simp: shaped_for_def font_info_get_unistr_info_def font_info_find_unistr_info_def Let_def
      layout_shaped_def pango_layout_set_text_def split: prod.splits option.splits if_splits)

lemma get_known: "coverage (fst (font_info_get_unistr_info env info c)) \<noteq> COVERAGE_UNKNOWN"
  by (auto simp: font_info_get_unistr_info_def Let_def classify_shaped_known split: prod.splits)

lemma get_hit:
  "cached info c = Some u \<Longrightarrow> coverage u \<noteq> COVERAGE_UNKNOWN \<Longrightarrow>
   font_info_get_unistr_info env info c = (u, info)"
  by (auto simp: font_info_get_unistr_info_def font_info_find_unistr_info_def cached_def
      split: if_splits)

lemma cached_after_get:
  "cached (snd (font_info_get_unistr_info env info c)) c = Some (fst (font_info_get_unistr_info env info c))"
  by (auto simp: font_info_get_unistr_info_def font_info_find_unistr_info_def Let_def
      store_unistr_info_def cached_def split: prod.splits option.splits if_splits)

lemma unat_neq: "c \<noteq> c' \<Longrightarrow> unat c \<noteq> unat (c' :: 32 word)"
  by (simp add: word_unat_eq_iff)

lemma cached_other:
  "c' \<noteq> c \<Longrightarrow> cached info c = Some u \<Longrightarrow>
   cached (snd (font_info_get_unistr_info env info c')) c = Some u"
  by (auto simp: font_info_get_unistr_info_def font_info_find_unistr_info_def Let_def
      store_unistr_info_def cached_def unat_neq split: prod.splits option.splits if_splits)

lemma cached_kept:
  assumes "cached info c = Some u" "coverage u \<noteq> COVERAGE_UNKNOWN"
  shows "cached (snd (font_info_get_unistr_info env info c')) c = Some u"
proof (cases "c' = c")
  case True
  then show ?thesis using get_hit[OF assms] assms by simp
next
  case False
  then show ?thesis using cached_other assms by simp
qed

lemma cached_classify_all:
  "cached info c = Some u \<Longrightarrow> coverage u \<noteq> COVERAGE_UNKNOWN \<Longrightarrow>
   cached (classify_all env info cs) c = Some u"
proof (induction cs arbitrary: info)
  case Nil
  then show ?case by (simp add: classify_all_def)
next
  case (Cons c' cs)
  have "cached (snd (font_info_get_unistr_info env info c')) c = Some u"
    using Cons.prems by (rule cached_kept)
  from Cons.IH[OF this Cons.prems(2)] show ?case by (simp add: classify_all_def)
qed

lemmas classify_eval = font_info_get_unistr_info_def font_info_find_unistr_info_def demo_font_info_def
     demo_pango_def Let_def classify_shaped_def layout_shaped_def pango_layout_set_text_def 
     demo_shape_def demo_glyph_def one_real_glyph_at_origin_def pango_cairo_font_get_scaled_font_def
     coverage_def unistr_info_create_def PANGO_PIXELS_CEIL_def char_of_def store_unistr_info_def
     demo_pango_no_scaled_font_def demo_pango_unknown_def spec_single_glyph_shape_def demo_context_def


text \<open>
  Claim C4, as the code has it. For a code point that is not classified yet,
  \<^verbatim>\<open>font_info_get_unistr_info\<close> chooses \<^verbatim>\<open>COVERAGE_USE_CAIRO_GLYPH\<close> exactly when Pango's
  answer for the one text is one run of one glyph at zero offsets with an index that fits
  16 bits, and moreover Pango reports no unknown glyph and the run's font has a scaled
  font. The flag \<open>has_unknown_chars\<close> is set exactly when Pango reports an unknown
  glyph, so that a code point with the flag is never a cairo glyph. In every other case
  the choice is the glyph string when line 0 has exactly one run, the layout line
  otherwise.
\<close>

theorem classify_single_glyph_iff:
  assumes "coverage (fst (font_info_find_unistr_info info c)) = COVERAGE_UNKNOWN"
  shows "(coverage (fst (font_info_get_unistr_info env info c)) = COVERAGE_USE_CAIRO_GLYPH \<longleftrightarrow>
            spec_single_glyph_shape (shaped_for env info c)
            \<and> unknown_glyphs_count (shaped_for env info c) = 0
            \<and> pango_cairo_font_get_scaled_font env
                 (analysis_font (hd (line_runs (shaped_for env info c)))) \<noteq> None)
       \<and> (has_unknown_chars (fst (font_info_get_unistr_info env info c)) \<longleftrightarrow>
            unknown_glyphs_count (shaped_for env info c) \<noteq> 0)
       \<and> (coverage (fst (font_info_get_unistr_info env info c)) =
            (if length (line_runs (shaped_for env info c)) \<noteq> 1 then COVERAGE_USE_PANGO_LAYOUT_LINE
             else if spec_single_glyph_shape (shaped_for env info c)
                     \<and> unknown_glyphs_count (shaped_for env info c) = 0
                     \<and> pango_cairo_font_get_scaled_font env
                          (analysis_font (hd (line_runs (shaped_for env info c)))) \<noteq> None
             then COVERAGE_USE_CAIRO_GLYPH else COVERAGE_USE_PANGO_GLYPH_STRING))"
proof -
  have "fst (font_info_get_unistr_info env info c) = classify_shaped env (shaped_for env info c)"
    using assms by (rule get_fresh)
  then show ?thesis
    using coverage_classify_shaped[of env "shaped_for env info c"]
          has_unknown_classify_shaped[of env "shaped_for env info c"]
          coverage_classify_shaped_cases[of env "shaped_for env info c"]
    by (simp only:)
qed


text \<open>The theorem at the letters \<open>A\<close> (one glyph), \<open>Z\<close> (two glyphs of one font) and \<open>W\<close>
  (two fonts), and at \<open>A\<close> when Pango reports an unknown glyph.\<close>

theorem classify_single_glyph_iff_witness:
  "coverage (fst (font_info_find_unistr_info demo_font_info 0x41)) = COVERAGE_UNKNOWN
   \<and> coverage (fst (font_info_get_unistr_info demo_pango demo_font_info 0x41)) = COVERAGE_USE_CAIRO_GLYPH
   \<and> coverage (fst (font_info_get_unistr_info demo_pango demo_font_info 0x5a)) = COVERAGE_USE_PANGO_GLYPH_STRING
   \<and> coverage (fst (font_info_get_unistr_info demo_pango demo_font_info 0x57)) = COVERAGE_USE_PANGO_LAYOUT_LINE
   \<and> coverage (fst (font_info_get_unistr_info demo_pango_unknown demo_font_info 0x41)) = COVERAGE_USE_PANGO_GLYPH_STRING"
proof -
  have h: "coverage (fst (font_info_find_unistr_info demo_font_info c)) = COVERAGE_UNKNOWN" for c
    by (simp add: classify_eval)
  have sh: "shaped_for demo_pango demo_font_info 0x41 = demo_shape demo_context ''A''"
    "shaped_for demo_pango demo_font_info 0x5a = demo_shape demo_context ''Z''"
    "shaped_for demo_pango demo_font_info 0x57 = demo_shape demo_context ''W''"
    "shaped_for demo_pango_unknown demo_font_info 0x41 =
       (demo_shape demo_context ''A'')\<lparr>unknown_glyphs_count := 1\<rparr>"
    by (simp_all add: shaped_for_def demo_pango_def demo_pango_unknown_def demo_font_info_def char_of_def bit_Suc_0_iff)
  show ?thesis
    using classify_single_glyph_iff[OF h, of demo_pango "0x41"]
          classify_single_glyph_iff[OF h, of demo_pango "0x5a"]
          classify_single_glyph_iff[OF h, of demo_pango "0x57"]
          classify_single_glyph_iff[OF h, of demo_pango_unknown "0x41"] h[of "0x41"]
    unfolding sh
    by (simp add: demo_shape_def demo_glyph_def spec_single_glyph_shape_def
        pango_cairo_font_get_scaled_font_def demo_pango_def demo_pango_unknown_def)
qed


text \<open>
  Claim C4 as it is written fails: the shape alone does not decide. With a font that has
  no scaled font, and with a Pango that reports an unknown glyph, the shape of \<open>A\<close> is the
  one the claim asks for and yet the classification is not the cairo glyph.
\<close>

theorem classify_single_glyph_counterexample:
  "\<not> (coverage (fst (font_info_get_unistr_info demo_pango_no_scaled_font demo_font_info 0x41))
         = COVERAGE_USE_CAIRO_GLYPH
       \<longleftrightarrow> spec_single_glyph_shape (shaped_for demo_pango_no_scaled_font demo_font_info 0x41))
   \<and> \<not> (coverage (fst (font_info_get_unistr_info demo_pango_unknown demo_font_info 0x41))
         = COVERAGE_USE_CAIRO_GLYPH
       \<longleftrightarrow> spec_single_glyph_shape (shaped_for demo_pango_unknown demo_font_info 0x41))"
  by (simp add: classify_eval shaped_for_def)


text \<open>
  Claim C5. Once \<open>c\<close> is classified, and whatever else is classified on the same cache
  afterwards (the list \<open>cs\<close>, which may be empty), asking for \<open>c\<close> again gives the very
  same entry (kind, width, glyph and flag) and leaves the font info as it was: the layout's
  text is not set again, so Pango is not asked, and the answer does not depend on what
  Pango (here \<open>env'\<close>) would say.
\<close>

theorem classify_idempotent:
  "font_info_get_unistr_info env'
       (classify_all env'' (snd (font_info_get_unistr_info env info c)) cs) c =
     (fst (font_info_get_unistr_info env info c),
      classify_all env'' (snd (font_info_get_unistr_info env info c)) cs)"
  by (rule get_hit[OF cached_classify_all[OF cached_after_get get_known] get_known])

text \<open>The theorem on the demo cache: \<open>A\<close> is classified, then \<open>Z\<close> and \<open>W\<close>, and \<open>A\<close> is
  still the cairo glyph 1 of the scaled font 11, 8 pixels wide.\<close>

theorem classify_idempotent_witness:
  "font_info_get_unistr_info demo_pango_unknown
       (classify_all demo_pango (snd (font_info_get_unistr_info demo_pango demo_font_info 0x41))
          [0x5a, 0x57]) 0x41 =
     (\<lparr>has_unknown_chars = False, uinfo_width = 8, ufi = Using_cairo_glyph 11 1\<rparr>,
      classify_all demo_pango (snd (font_info_get_unistr_info demo_pango demo_font_info 0x41))
          [0x5a, 0x57])"
proof -
  have "fst (font_info_get_unistr_info demo_pango demo_font_info 0x41) =
          \<lparr>has_unknown_chars = False, uinfo_width = 8, ufi = Using_cairo_glyph 11 1\<rparr>"
    by (simp add: classify_eval)
  then show ?thesis
    using classify_idempotent[of demo_pango_unknown demo_pango demo_pango demo_font_info "0x41"
            "[0x5a, 0x57]"]
    by simp
qed

subsection \<open>The hash table\<close>

lemma context_equal_iff:
  "context_equal a b \<longleftrightarrow> fingerprint a = fingerprint b \<and> ctx_font_options a \<noteq> None"
  by (auto simp: context_equal_def vte_double_equal_def fingerprint_def cairo_font_options_equal_def
        split: option.splits)

lemma context_hash_fingerprint:
  "fingerprint a = fingerprint b \<Longrightarrow> context_hash env a = context_hash env b"
  by (simp add: context_hash_def fingerprint_def)

lemma key_matches_iff:
  "key_matches env key entry \<longleftrightarrow>
     fingerprint (fst entry) = fingerprint key \<and> ctx_font_options key \<noteq> None"
proof -
  have "fingerprint (fst entry) = fingerprint key \<Longrightarrow>
        ctx_font_options (fst entry) = ctx_font_options key"
    by (simp add: fingerprint_def)
  then show ?thesis
    using context_hash_fingerprint[of "fst entry" key env]
    by (cases "ctx_font_options key") (auto simp: key_matches_def context_equal_iff)
qed

lemma lookup_None_iff:
  "ctx_font_options key \<noteq> None \<Longrightarrow>
   g_hash_table_lookup env table key = None \<longleftrightarrow>
     fingerprint key \<notin> set (map (\<lambda>entry. fingerprint (fst entry)) table)"
  by (induction table) (auto simp: g_hash_table_lookup_def key_matches_iff)

lemma lookup_Some_D:
  "g_hash_table_lookup env table key = Some p \<Longrightarrow>
   \<exists>k. (k, p) \<in> set table \<and> fingerprint k = fingerprint key"
  by (induction table) (auto simp: g_hash_table_lookup_def key_matches_iff split: if_splits)

lemma lookup_member:
  "distinct (map (\<lambda>entry. fingerprint (fst entry)) table) \<Longrightarrow> (k, p) \<in> set table \<Longrightarrow>
   fingerprint k = fingerprint key \<Longrightarrow> ctx_font_options key \<noteq> None \<Longrightarrow>
   g_hash_table_lookup env table key = Some p"
  by (induction table) (force simp: g_hash_table_lookup_def key_matches_iff)+

lemma insert_new:
  "g_hash_table_lookup env table key = None \<Longrightarrow>
   g_hash_table_insert env table key p = table @ [(key, p)]"
  by (induction table) (auto simp: g_hash_table_lookup_def split: if_splits)

lemma remove_set:
  "distinct (map (\<lambda>entry. fingerprint (fst entry)) table) \<Longrightarrow> ctx_font_options key \<noteq> None \<Longrightarrow>
   set (g_hash_table_remove env table key) =
     {entry \<in> set table. fingerprint (fst entry) \<noteq> fingerprint key}"
  by (induction table) (force simp: key_matches_iff)+

lemma remove_distinct:
  "distinct (map (\<lambda>entry. fingerprint (fst entry)) table) \<Longrightarrow>
   distinct (map (\<lambda>entry. fingerprint (fst entry)) (g_hash_table_remove env table key))"
proof (induction table)
  case Nil
  then show ?case by simp
next
  case (Cons e table)
  have sub: "set (g_hash_table_remove env t key) \<subseteq> set t" for t
    by (induction t) auto
  from Cons show ?case using sub[of table] by auto
qed


subsection \<open>What allocation keeps\<close>

lemma store_keeps [simp]:
  "layout (store_unistr_info info c u) = layout info"
  "ref_count (store_unistr_info info c u) = ref_count info"
  "destroy_timeout (store_unistr_info info c u) = destroy_timeout info"
  "width (store_unistr_info info c u) = width info"
  "height (store_unistr_info info c u) = height info"
  "ascent (store_unistr_info info c u) = ascent info"
  by (simp_all add: store_unistr_info_def)

lemma find_keeps [simp]:
  "layout (snd (font_info_find_unistr_info info c)) = layout info"
  "ref_count (snd (font_info_find_unistr_info info c)) = ref_count info"
  "destroy_timeout (snd (font_info_find_unistr_info info c)) = destroy_timeout info"
  "width (snd (font_info_find_unistr_info info c)) = width info"
  "height (snd (font_info_find_unistr_info info c)) = height info"
  "ascent (snd (font_info_find_unistr_info info c)) = ascent info"
  by (simp_all add: font_info_find_unistr_info_def split: option.splits)

lemma set_text_context [simp]:
  "layout_context (pango_layout_set_text l t) = layout_context l"
  by (simp add: pango_layout_set_text_def)

lemma get_keeps [simp]:
  "layout_context (layout (snd (font_info_get_unistr_info env info c))) = layout_context (layout info)"
  "ref_count (snd (font_info_get_unistr_info env info c)) = ref_count info"
  "destroy_timeout (snd (font_info_get_unistr_info env info c)) = destroy_timeout info"
  "width (snd (font_info_get_unistr_info env info c)) = width info"
  "height (snd (font_info_get_unistr_info env info c)) = height info"
  "ascent (snd (font_info_get_unistr_info env info c)) = ascent info"
  by (simp_all add: font_info_get_unistr_info_def Let_def split_beta)

lemma cluster_keeps [simp]:
  "layout (cache_ascii_cluster env text gs sf latin info iter) = layout info"
  "ref_count (cache_ascii_cluster env text gs sf latin info iter) = ref_count info"
  "destroy_timeout (cache_ascii_cluster env text gs sf latin info iter) = destroy_timeout info"
  "width (cache_ascii_cluster env text gs sf latin info iter) = width info"
  "height (cache_ascii_cluster env text gs sf latin info iter) = height info"
  "ascent (cache_ascii_cluster env text gs sf latin info iter) = ascent info"
  by (simp_all add: cache_ascii_cluster_def Let_def split_beta)

lemma clusters_keep:
  "layout (foldl (cache_ascii_cluster env text gs sf latin) info iters) = layout info
   \<and> ref_count (foldl (cache_ascii_cluster env text gs sf latin) info iters) = ref_count info
   \<and> destroy_timeout (foldl (cache_ascii_cluster env text gs sf latin) info iters) = destroy_timeout info
   \<and> width (foldl (cache_ascii_cluster env text gs sf latin) info iters) = width info
   \<and> height (foldl (cache_ascii_cluster env text gs sf latin) info iters) = height info
   \<and> ascent (foldl (cache_ascii_cluster env text gs sf latin) info iters) = ascent info"
  by (induction iters arbitrary: info) simp_all

lemma cache_ascii_keeps [simp]:
  "layout (font_info_cache_ascii env info) = layout info"
  "ref_count (font_info_cache_ascii env info) = ref_count info"
  "destroy_timeout (font_info_cache_ascii env info) = destroy_timeout info"
  "width (font_info_cache_ascii env info) = width info"
  "height (font_info_cache_ascii env info) = height info"
  "ascent (font_info_cache_ascii env info) = ascent info"
  by (simp_all add: font_info_cache_ascii_def Let_def clusters_keep split: list.splits option.splits)

lemma measure_chars:
  "foldl (measure_char env) (l, mw, mh) ns = (l', mw', mh') \<Longrightarrow>
   layout_context l' = layout_context l \<and> mw \<le> mw' \<and> mh \<le> mh'"
proof (induction ns arbitrary: l mw mh)
  case Nil
  then show ?case by simp
next
  case (Cons n ns)
  obtain l1 mw1 mh1 where step: "measure_char env (l, mw, mh) n = (l1, mw1, mh1)"
    by (cases "measure_char env (l, mw, mh) n") auto
  then have "layout_context l1 = layout_context l" "mw \<le> mw1" "mh \<le> mh1"
    by (auto simp: measure_char_def Let_def)
  moreover have "layout_context l' = layout_context l1 \<and> mw1 \<le> mw' \<and> mh1 \<le> mh'"
    using Cons.prems step by (intro Cons.IH) simp
  ultimately show ?case by simp
qed

lemma measure_font_keeps:
  "layout_context (layout (font_info_measure_font env info)) = layout_context (layout info)"
  "ref_count (font_info_measure_font env info) = ref_count info"
  "destroy_timeout (font_info_measure_font env info) = destroy_timeout info"
  "1 \<le> width (font_info_measure_font env info)"
  "1 \<le> height (font_info_measure_font env info)"
proof -
  obtain l1 mw mh where f: "foldl (measure_char env) (layout info, 1, 1) [0x21 ..< 0x7f] = (l1, mw, mh)"
    by (cases "foldl (measure_char env) (layout info, 1, 1) [0x21 ..< 0x7f]") auto
  note m = measure_chars[OF f]
  show "layout_context (layout (font_info_measure_font env info)) = layout_context (layout info)"
    "ref_count (font_info_measure_font env info) = ref_count info"
    "destroy_timeout (font_info_measure_font env info) = destroy_timeout info"
    "1 \<le> width (font_info_measure_font env info)"
    "1 \<le> height (font_info_measure_font env info)"
    unfolding font_info_measure_font_def f using m by (simp_all add: Let_def)
qed

lemma allocate_props:
  "layout_context (layout (font_info_allocate env context)) = context"
  "ref_count (font_info_allocate env context) = 0"
  "destroy_timeout (font_info_allocate env context) = 0"
  "1 \<le> width (font_info_allocate env context)"
  "1 \<le> height (font_info_allocate env context)"
  by (simp_all add: font_info_allocate_def measure_font_keeps)


subsection \<open>The invariant of the cache\<close>

lemma ok_entry:
  "registry_ok w \<Longrightarrow> (k, p) \<in> set (font_info_for_context w) \<Longrightarrow>
   \<exists>info. heap w p = Some info \<and> layout_context (layout info) = k"
  by (force simp: registry_ok_def)

lemma ok_live:
  "registry_ok w \<Longrightarrow> heap w p = Some info \<Longrightarrow>
   (layout_context (layout info), p) \<in> set (font_info_for_context w)
   \<and> p \<le> last_address w \<and> 0 \<le> ref_count info
   \<and> ctx_font_options (layout_context (layout info)) \<noteq> None \<and> 1 \<le> width info"
  by (simp add: registry_ok_def)

lemma ok_distinct:
  "registry_ok w \<Longrightarrow> distinct (map (\<lambda>entry. fingerprint (fst entry)) (font_info_for_context w))"
  by (simp add: registry_ok_def)

lemma ok_timeout:
  "registry_ok w \<Longrightarrow> (tag, due, p) \<in> set (timeouts w) \<Longrightarrow>
   tag \<noteq> 0 \<and> tag \<le> last_source w
   \<and> (\<exists>info. heap w p = Some info \<and> destroy_timeout info = tag \<and> ref_count info = 0)"
  by (force simp: registry_ok_def)

lemma ok_tags: "registry_ok w \<Longrightarrow> distinct (map fst (timeouts w))"
  by (simp add: registry_ok_def)

lemma ok_lookup:
  assumes "registry_ok w" "g_hash_table_lookup env (font_info_for_context w) context = Some p"
  shows "\<exists>info. heap w p = Some info
           \<and> fingerprint (layout_context (layout info)) = fingerprint context"
proof -
  obtain k where "(k, p) \<in> set (font_info_for_context w)" "fingerprint k = fingerprint context"
    using lookup_Some_D[OF assms(2)] by blast
  then show ?thesis using ok_entry[OF assms(1)] by blast
qed

lemma reference_live:
  "heap w p = Some info \<Longrightarrow> 0 \<le> ref_count info \<Longrightarrow>
   font_info_reference (Some p) w = Some (Some p, referenced p info w)"
  by (simp add: font_info_reference_def referenced_def Let_def)

lemma referenced_fields [simp]:
  "font_info_for_context (referenced p info w) = font_info_for_context w"
  "last_address (referenced p info w) = last_address w"
  "last_source (referenced p info w) = last_source w"
  "now (referenced p info w) = now w"
  "cairo_ops (referenced p info w) = cairo_ops w"
  "heap (referenced p info w) = (heap w)(p \<mapsto> info\<lparr>destroy_timeout := 0, ref_count := ref_count info + 1\<rparr>)"
  "timeouts (referenced p info w) = filter (\<lambda>t. fst t \<noteq> destroy_timeout info \<or> destroy_timeout info = 0) (timeouts w)"
  by (auto simp: referenced_def g_source_remove_def Let_def intro: filter_cong)

lemma referenced_ok:
  assumes ok: "registry_ok w" and live: "heap w p = Some info"
  shows "registry_ok (referenced p info w)"
proof -
  have no_timer: "snd (snd t) \<noteq> p"
    if "t \<in> set (timeouts w)" "fst t \<noteq> destroy_timeout info \<or> destroy_timeout info = 0" for t
    using ok_timeout[OF ok, of "fst t" "fst (snd t)" "snd (snd t)"] that live by auto
  show ?thesis
    unfolding registry_ok_def
  proof (intro conjI ballI allI impI)
    fix entry assume "entry \<in> set (font_info_for_context (referenced p info w))"
    then show "\<exists>i. heap (referenced p info w) (snd entry) = Some i \<and> layout_context (layout i) = fst entry"
      using ok_entry[OF ok, of "fst entry" "snd entry"] live by auto
  next
    fix q i assume "heap (referenced p info w) q = Some i"
    then show "(layout_context (layout i), q) \<in> set (font_info_for_context (referenced p info w))"
       "q \<le> last_address (referenced p info w)" "0 \<le> ref_count i"
       "ctx_font_options (layout_context (layout i)) \<noteq> None" "1 \<le> width i"
      using ok_live[OF ok, of q] ok_live[OF ok live] by (auto split: if_splits)
  next
    show "distinct (map (\<lambda>entry. fingerprint (fst entry)) (font_info_for_context (referenced p info w)))"
      using ok_distinct[OF ok] by simp
  next
    fix t assume t: "t \<in> set (timeouts (referenced p info w))"
    then have "t \<in> set (timeouts w)" and "snd (snd t) \<noteq> p"
      using no_timer by auto
    then show "fst t \<noteq> 0" "fst t \<le> last_source (referenced p info w)"
      "\<exists>i. heap (referenced p info w) (snd (snd t)) = Some i \<and> destroy_timeout i = fst t \<and> ref_count i = 0"
      using ok_timeout[OF ok, of "fst t" "fst (snd t)" "snd (snd t)"] by auto
  next
    show "distinct (map fst (timeouts (referenced p info w)))"
      using ok_tags[OF ok] by (simp add: distinct_map_filter)
  qed
qed


lemma find_miss:
  "g_hash_table_lookup env (font_info_for_context w) context = None \<Longrightarrow>
   font_info_find_for_context env context w = Some (Suc (last_address w), allocated env context w)"
  by (simp add: font_info_find_for_context_def Let_def font_info_register_def allocated_def
      allocate_props insert_new)

lemma find_hit:
  assumes "registry_ok w" "g_hash_table_lookup env (font_info_for_context w) context = Some p"
    "heap w p = Some info"
  shows "font_info_find_for_context env context w = Some (p, referenced p info w)"
  using assms reference_live[OF assms(3)] ok_live[OF assms(1,3)]
  by (simp add: font_info_find_for_context_def)

lemma allocated_ok:
  assumes ok: "registry_ok w" and opts: "ctx_font_options context \<noteq> None"
    and miss: "g_hash_table_lookup env (font_info_for_context w) context = None"
  shows "registry_ok (allocated env context w)"
proof -
  let ?p = "Suc (last_address w)"
  have fresh: "heap w ?p = None"
    using ok_live[OF ok, of ?p] by (cases "heap w ?p") auto
  have new_fp: "fingerprint context \<notin> set (map (\<lambda>entry. fingerprint (fst entry)) (font_info_for_context w))"
    using lookup_None_iff[OF opts] miss by blast
  show ?thesis
    unfolding registry_ok_def
  proof (intro conjI ballI allI impI)
    fix entry assume "entry \<in> set (font_info_for_context (allocated env context w))"
    then show "\<exists>i. heap (allocated env context w) (snd entry) = Some i \<and> layout_context (layout i) = fst entry"
      using ok_entry[OF ok, of "fst entry" "snd entry"] fresh
      by (auto simp: allocated_def allocate_props)
  next
    fix q i assume "heap (allocated env context w) q = Some i"
    then show "(layout_context (layout i), q) \<in> set (font_info_for_context (allocated env context w))"
       "q \<le> last_address (allocated env context w)" "0 \<le> ref_count i"
       "ctx_font_options (layout_context (layout i)) \<noteq> None" "1 \<le> width i"
      using ok_live[OF ok, of q] opts
      by (auto simp: allocated_def allocate_props split: if_splits)
  next
    show "distinct (map (\<lambda>entry. fingerprint (fst entry)) (font_info_for_context (allocated env context w)))"
      using ok_distinct[OF ok] new_fp by (simp add: allocated_def)
  next
    fix t assume t: "t \<in> set (timeouts (allocated env context w))"
    then have t': "t \<in> set (timeouts w)" by (simp add: allocated_def)
    then have "snd (snd t) \<noteq> ?p"
      using ok_timeout[OF ok, of "fst t" "fst (snd t)" "snd (snd t)"] fresh by auto
    then show "fst t \<noteq> 0" "fst t \<le> last_source (allocated env context w)"
      "\<exists>i. heap (allocated env context w) (snd (snd t)) = Some i \<and> destroy_timeout i = fst t \<and> ref_count i = 0"
      using ok_timeout[OF ok, of "fst t" "fst (snd t)" "snd (snd t)"] t'
      by (auto simp: allocated_def)
  next
    show "distinct (map fst (timeouts (allocated env context w)))"
      using ok_tags[OF ok] by (simp add: allocated_def)
  qed
qed

lemma find_for_context_total:
  assumes ok: "registry_ok w" and opts: "ctx_font_options context \<noteq> None"
  shows "\<exists>p w1. font_info_find_for_context env context w = Some (p, w1) \<and> registry_ok w1
           \<and> (\<exists>info. heap w1 p = Some info \<and> 0 < ref_count info
                 \<and> fingerprint (layout_context (layout info)) = fingerprint context)"
proof (cases "g_hash_table_lookup env (font_info_for_context w) context")
  case None
  show ?thesis
    using find_miss[OF None] allocated_ok[OF ok opts None]
    by (simp add: allocated_def allocate_props)
next
  case (Some p)
  obtain info where live: "heap w p = Some info"
      "fingerprint (layout_context (layout info)) = fingerprint context"
    using ok_lookup[OF ok Some] by blast
  show ?thesis
    using find_hit[OF ok Some live(1)] referenced_ok[OF ok live(1)] live(2) ok_live[OF ok live(1)]
    by simp
qed


lemma destroy_live:
  "heap w p = Some info \<Longrightarrow> font_info_destroy (Some p) w = Some (released p info w)"
  by (auto simp: font_info_destroy_def released_def Let_def gdk_threads_add_timeout_seconds_def)

lemma distinct_map_eq:
  "distinct (map f xs) \<Longrightarrow> x \<in> set xs \<Longrightarrow> y \<in> set xs \<Longrightarrow> f x = f y \<Longrightarrow> x = y"
  by (auto simp: distinct_map dest: inj_onD)

lemma registry_okI:
  assumes "\<And>k p. (k, p) \<in> set (font_info_for_context w) \<Longrightarrow>
             \<exists>info. heap w p = Some info \<and> layout_context (layout info) = k"
    and "\<And>p info. heap w p = Some info \<Longrightarrow>
             (layout_context (layout info), p) \<in> set (font_info_for_context w)
             \<and> p \<le> last_address w \<and> 0 \<le> ref_count info
             \<and> ctx_font_options (layout_context (layout info)) \<noteq> None \<and> 1 \<le> width info"
    and "distinct (map (\<lambda>entry. fingerprint (fst entry)) (font_info_for_context w))"
    and "\<And>tag due p. (tag, due, p) \<in> set (timeouts w) \<Longrightarrow>
             tag \<noteq> 0 \<and> tag \<le> last_source w
             \<and> (\<exists>info. heap w p = Some info \<and> destroy_timeout info = tag \<and> ref_count info = 0)"
    and "distinct (map fst (timeouts w))"
  shows "registry_ok w"
  unfolding registry_ok_def using assms by (intro conjI ballI allI impI) force+

lemma released_ok:
  assumes ok: "registry_ok w" and live: "heap w p = Some info"
  shows "registry_ok (released p info w)"
proof -
  consider (last) "ref_count info = 1" | (more) "1 < ref_count info" | (none) "ref_count info \<le> 0"
    by linarith
  then show ?thesis
  proof cases
    case none
    then show ?thesis using ok by (simp add: released_def)
  next
    case more
    have no_timer: "q \<noteq> p" if "(tag, due, q) \<in> set (timeouts w)" for tag due q
      using ok_timeout[OF ok that] live more by auto
    from more have r: "released p info w = w\<lparr>heap := (heap w)(p \<mapsto> info\<lparr>ref_count := ref_count info - 1\<rparr>)\<rparr>"
      by (simp add: released_def)
    show ?thesis
      unfolding r
      apply (rule registry_okI)
      subgoal for k q using ok_entry[OF ok, of k q] live by auto
      subgoal for q i using ok_live[OF ok, of q] ok_live[OF ok live] more by (cases "q = p") auto
      subgoal using ok_distinct[OF ok] by simp
      subgoal for tag due q using ok_timeout[OF ok, of tag due q] no_timer[of tag due q] by auto
      subgoal using ok_tags[OF ok] by simp
      done
  next
    case last
    have no_timer: "q \<noteq> p" if "(tag, due, q) \<in> set (timeouts w)" for tag due q
      using ok_timeout[OF ok that] live last by auto
    have tag_new: "Suc (last_source w) \<notin> fst ` set (timeouts w)"
      using ok_timeout[OF ok] by fastforce
    from last have r: "released p info w =
        w\<lparr>timeouts := timeouts w @ [(Suc (last_source w), now w + FONT_CACHE_TIMEOUT, p)],
          last_source := Suc (last_source w),
          heap := (heap w)(p \<mapsto> info\<lparr>ref_count := 0, destroy_timeout := Suc (last_source w)\<rparr>)\<rparr>"
      by (simp add: released_def)
    show ?thesis
      unfolding r
      apply (rule registry_okI)
      subgoal for k q using ok_entry[OF ok, of k q] live by auto
      subgoal for q i using ok_live[OF ok, of q] ok_live[OF ok live] by (cases "q = p") auto
      subgoal using ok_distinct[OF ok] by simp
      subgoal for tag due q using ok_timeout[OF ok, of tag due q] no_timer[of tag due q] by auto
      subgoal using ok_tags[OF ok] tag_new by simp
      done
  qed
qed

lemma find_tag:
  "distinct (map fst ts) \<Longrightarrow> (tag, due, p) \<in> set ts \<Longrightarrow> find (\<lambda>t. fst t = tag) ts = Some (tag, due, p)"
  by (induction ts) (auto simp: rev_image_eqI)

lemma find_tag_None: "tag \<notin> fst ` set ts \<Longrightarrow> find (\<lambda>t. fst t = tag) ts = None"
  by (induction ts) auto

lemma dispatch_due:
  assumes ok: "registry_ok w" and t: "(tag, due, p) \<in> set (timeouts w)" and due: "due \<le> now w"
    and live: "heap w p = Some info"
  shows "g_main_dispatch env tag w = Some (evicted env tag p info w)"
  using find_tag[OF ok_tags[OF ok] t] due live
  by (simp add: g_main_dispatch_def font_info_destroy_delayed_def g_source_remove_def
      font_info_unregister_def evicted_def Let_def)

lemma dispatch_early:
  assumes ok: "registry_ok w" and t: "(tag, due, p) \<in> set (timeouts w)" and due: "now w < due"
  shows "g_main_dispatch env tag w = Some w"
  using find_tag[OF ok_tags[OF ok] t] due by (simp add: g_main_dispatch_def)

lemma dispatch_gone:
  "tag \<notin> fst ` set (timeouts w) \<Longrightarrow> g_main_dispatch env tag w = Some w"
  by (simp add: g_main_dispatch_def find_tag_None)

lemma evicted_ok:
  assumes ok: "registry_ok w" and t: "(tag, due, p) \<in> set (timeouts w)"
    and live: "heap w p = Some info"
  shows "registry_ok (evicted env tag p info w)"
proof -
  let ?key = "layout_context (layout info)"
  let ?table = "g_hash_table_remove env (font_info_for_context w) ?key"
  note l = ok_live[OF ok live]
  have rm: "set ?table =
      {entry \<in> set (font_info_for_context w). fingerprint (fst entry) \<noteq> fingerprint ?key}"
    using remove_set[OF ok_distinct[OF ok]] l by blast
  have own: "q = p" if "(k, q) \<in> set (font_info_for_context w)" "fingerprint k = fingerprint ?key" for k q
  proof -
    have "(k, q) = (?key, p)"
      using distinct_map_eq[OF ok_distinct[OF ok], of "(k, q)" "(?key, p)"] that l by simp
    then show ?thesis by simp
  qed
  have own_tag: "tag' = tag" if "(tag', due', p) \<in> set (timeouts w)" for tag' due'
    using ok_timeout[OF ok that] ok_timeout[OF ok t] live by auto
  have fields: "font_info_for_context (evicted env tag p info w) = ?table"
    "heap (evicted env tag p info w) = (heap w)(p := None)"
    "timeouts (evicted env tag p info w) = filter (\<lambda>t. fst t \<noteq> tag) (timeouts w)"
    "last_address (evicted env tag p info w) = last_address w"
    "last_source (evicted env tag p info w) = last_source w"
    by (simp_all add: evicted_def)
  show ?thesis
  proof (rule registry_okI; unfold fields)
    fix k q assume "(k, q) \<in> set ?table"
    then have in_t: "(k, q) \<in> set (font_info_for_context w)" and fp: "fingerprint k \<noteq> fingerprint ?key"
      by (simp_all add: rm)
    obtain i where i: "heap w q = Some i" "layout_context (layout i) = k"
      using ok_entry[OF ok in_t] by blast
    have "q \<noteq> p" using i live fp by auto
    then show "\<exists>info. ((heap w)(p := None)) q = Some info \<and> layout_context (layout info) = k"
      using i by simp
  next
    fix q i assume "((heap w)(p := None)) q = Some i"
    then have qp: "q \<noteq> p" and i: "heap w q = Some i"
      by (simp_all split: if_splits)
    note li = ok_live[OF ok i]
    have "fingerprint (layout_context (layout i)) \<noteq> fingerprint ?key"
      using own[of "layout_context (layout i)" q] li qp by blast
    then have "(layout_context (layout i), q) \<in> set ?table"
      using li by (simp add: rm)
    then show "(layout_context (layout i), q) \<in> set ?table \<and> q \<le> last_address w
        \<and> 0 \<le> ref_count i \<and> ctx_font_options (layout_context (layout i)) \<noteq> None \<and> 1 \<le> width i"
      using li by simp
  next
    show "distinct (map (\<lambda>entry. fingerprint (fst entry)) ?table)"
      by (rule remove_distinct[OF ok_distinct[OF ok]])
  next
    fix tag' due' q assume "(tag', due', q) \<in> set (filter (\<lambda>t. fst t \<noteq> tag) (timeouts w))"
    then have in_t: "(tag', due', q) \<in> set (timeouts w)" and ne: "tag' \<noteq> tag"
      by simp_all
    note lt = ok_timeout[OF ok in_t]
    have "q \<noteq> p" using own_tag[of tag' due'] in_t ne by blast
    then show "tag' \<noteq> 0 \<and> tag' \<le> last_source w
        \<and> (\<exists>info. ((heap w)(p := None)) q = Some info \<and> destroy_timeout info = tag' \<and> ref_count info = 0)"
      using lt by simp
  next
    show "distinct (map fst (filter (\<lambda>t. fst t \<noteq> tag) (timeouts w)))"
      using ok_tags[OF ok] by (simp add: distinct_map_filter)
  qed
qed

lemma time_passes_ok: "registry_ok w \<Longrightarrow> registry_ok (time_passes d w)"
  by (simp add: registry_ok_def time_passes_def)


lemma ok_unique:
  assumes ok: "registry_ok w" and "heap w p1 = Some i1" "heap w p2 = Some i2"
    and "fingerprint (layout_context (layout i1)) = fingerprint (layout_context (layout i2))"
  shows "p1 = p2"
  using distinct_map_eq[OF ok_distinct[OF ok],
          of "(layout_context (layout i1), p1)" "(layout_context (layout i2), p2)"]
        ok_live[OF ok assms(2)] ok_live[OF ok assms(3)] assms(4)
  by simp

lemma ok_lookup_live:
  assumes ok: "registry_ok w" and live: "heap w p = Some info"
    and fp: "fingerprint (layout_context (layout info)) = fingerprint context"
    and opts: "ctx_font_options context \<noteq> None"
  shows "g_hash_table_lookup env (font_info_for_context w) context = Some p"
  using lookup_member[OF ok_distinct[OF ok] _ fp opts] ok_live[OF ok live] by blast

lemma find_again:
  assumes ok: "registry_ok w" and live: "heap w p = Some info"
    and fp: "fingerprint (layout_context (layout info)) = fingerprint context"
    and opts: "ctx_font_options context \<noteq> None"
  shows "font_info_find_for_context env context w = Some (p, referenced p info w)"
  by (rule find_hit[OF ok ok_lookup_live[OF ok live fp opts] live])

lemma find_first:
  assumes ok: "registry_ok w" and opts: "ctx_font_options context \<noteq> None"
  shows "\<exists>p w1 info. font_info_find_for_context env context w = Some (p, w1) \<and> registry_ok w1
           \<and> heap w1 p = Some info \<and> 0 < ref_count info \<and> destroy_timeout info = 0
           \<and> fingerprint (layout_context (layout info)) = fingerprint context"
proof (cases "g_hash_table_lookup env (font_info_for_context w) context")
  case None
  show ?thesis
    using find_miss[OF None] allocated_ok[OF ok opts None]
    by (simp add: allocated_def allocate_props)
next
  case (Some p)
  obtain info where live: "heap w p = Some info"
      "fingerprint (layout_context (layout info)) = fingerprint context"
    using ok_lookup[OF ok Some] by blast
  show ?thesis
    using find_hit[OF ok Some live(1)] referenced_ok[OF ok live(1)] live(2) ok_live[OF ok live(1)]
    by simp
qed

text \<open>
  Claim C3. Two lookups in a row, for contexts that have font options (as every context
  that \<^verbatim>\<open>font_info_create_for_context\<close> passes on has): both return; when the two contexts
  agree in the five fields of the fingerprint the second lookup returns the font info of
  the first, changed only in its reference count, which is one more, and nothing is
  allocated; when they differ in a field the second returns another font info and the
  first one is untouched. Afterwards no two live font infos have the same fingerprint,
  and the invariant of the cache holds again. \<^verbatim>\<open>context_equal\<close> holds exactly when the
  fingerprints are equal, the resolutions being compared as the numbers they are, and
  equal fingerprints have equal hashes; the hash rounds the resolution to Pango units, so
  that contexts with different fingerprints may have the same hash.
\<close>

theorem registry_sharing:
  assumes ok: "registry_ok w"
    and opts: "ctx_font_options a \<noteq> None" "ctx_font_options b \<noteq> None"
  shows "\<exists>p w1 q w2 info1 info2.
           font_info_find_for_context env a w = Some (p, w1)
         \<and> font_info_find_for_context env b w1 = Some (q, w2)
         \<and> heap w1 p = Some info1 \<and> heap w2 q = Some info2
         \<and> (if fingerprint a = fingerprint b
            then q = p \<and> info2 = info1\<lparr>ref_count := ref_count info1 + 1\<rparr>
                 \<and> last_address w2 = last_address w1
            else q \<noteq> p \<and> heap w2 p = Some info1)
         \<and> (\<forall>p1 p2 i1 i2. heap w2 p1 = Some i1 \<and> heap w2 p2 = Some i2
               \<and> fingerprint (layout_context (layout i1)) = fingerprint (layout_context (layout i2))
               \<longrightarrow> p1 = p2)
         \<and> registry_ok w2
         \<and> (context_equal a b \<longleftrightarrow> fingerprint a = fingerprint b)
         \<and> (fingerprint a = fingerprint b \<longrightarrow> context_hash env a = context_hash env b)"
proof -
  obtain p w1 info1 where first: "font_info_find_for_context env a w = Some (p, w1)"
      and ok1: "registry_ok w1" and live1: "heap w1 p = Some info1"
      and rc1: "0 < ref_count info1" and dt1: "destroy_timeout info1 = 0"
      and fp1: "fingerprint (layout_context (layout info1)) = fingerprint a"
    using find_first[OF ok opts(1)] by blast
  have eq: "context_equal a b \<longleftrightarrow> fingerprint a = fingerprint b"
    using opts by (simp add: context_equal_iff)
  have hash: "fingerprint a = fingerprint b \<longrightarrow> context_hash env a = context_hash env b"
    using context_hash_fingerprint by blast
  have "\<exists>q w2 info2.
           font_info_find_for_context env b w1 = Some (q, w2) \<and> heap w2 q = Some info2
         \<and> (if fingerprint a = fingerprint b
            then q = p \<and> info2 = info1\<lparr>ref_count := ref_count info1 + 1\<rparr>
                 \<and> last_address w2 = last_address w1
            else q \<noteq> p \<and> heap w2 p = Some info1)
         \<and> registry_ok w2"
  proof (cases "fingerprint a = fingerprint b")
    case True
    have second: "font_info_find_for_context env b w1 = Some (p, referenced p info1 w1)"
      using find_again[OF ok1 live1 _ opts(2)] fp1 True by simp
    have ok2: "registry_ok (referenced p info1 w1)"
      by (rule referenced_ok[OF ok1 live1])
    have "info1\<lparr>destroy_timeout := 0, ref_count := ref_count info1 + 1\<rparr> =
          info1\<lparr>ref_count := ref_count info1 + 1\<rparr>"
      using dt1 by simp
    then have live2: "heap (referenced p info1 w1) p = Some (info1\<lparr>ref_count := ref_count info1 + 1\<rparr>)"
      by simp
    have la: "last_address (referenced p info1 w1) = last_address w1" by simp
    show ?thesis
      unfolding if_P[OF True] using second live2 la ok2 by blast
  next
    case False
    obtain q w2 info2 where second: "font_info_find_for_context env b w1 = Some (q, w2)"
      and ok2: "registry_ok w2" and live2: "heap w2 q = Some info2"
      using find_first[OF ok1 opts(2)] by blast
    have keep: "q \<noteq> p \<and> heap w2 p = Some info1"
    proof (cases "g_hash_table_lookup env (font_info_for_context w1) b")
      case None
      have "q = Suc (last_address w1)" "w2 = allocated env b w1"
        using find_miss[OF None] second by simp_all
      moreover have "p \<le> last_address w1" using ok_live[OF ok1 live1] by simp
      ultimately show ?thesis using live1 by (simp add: allocated_def)
    next
      case (Some q')
      obtain i where li: "heap w1 q' = Some i" "fingerprint (layout_context (layout i)) = fingerprint b"
        using ok_lookup[OF ok1 Some] by blast
      have ne: "q' \<noteq> p" using li live1 fp1 False by auto
      have "q = q'" "w2 = referenced q' i w1"
        using find_hit[OF ok1 Some li(1)] second by simp_all
      then show ?thesis using ne live1 by simp
    qed
    show ?thesis
      unfolding if_not_P[OF False] using second live2 keep ok2 by blast
  qed
  then obtain q w2 info2 where
      second: "font_info_find_for_context env b w1 = Some (q, w2)" and live2: "heap w2 q = Some info2"
      and choice: "if fingerprint a = fingerprint b
            then q = p \<and> info2 = info1\<lparr>ref_count := ref_count info1 + 1\<rparr>
                 \<and> last_address w2 = last_address w1
            else q \<noteq> p \<and> heap w2 p = Some info1"
      and ok2: "registry_ok w2"
    by blast
  have unique: "\<forall>p1 p2 i1 i2. heap w2 p1 = Some i1 \<and> heap w2 p2 = Some i2
               \<and> fingerprint (layout_context (layout i1)) = fingerprint (layout_context (layout i2))
               \<longrightarrow> p1 = p2"
    using ok_unique[OF ok2] by blast
  show ?thesis
    apply (rule exI[of _ p], rule exI[of _ w1], rule exI[of _ q], rule exI[of _ w2],
           rule exI[of _ info1], rule exI[of _ info2])
    apply (intro conjI)
    subgoal by (rule first)
    subgoal by (rule second)
    subgoal by (rule live1)
    subgoal by (rule live2)
    subgoal by (rule choice)
    subgoal by (rule unique)
    subgoal by (rule ok2)
    subgoal by (rule eq)
    subgoal by (rule hash)
    done
qed

lemma lookup_after_remove:
  assumes "distinct (map (\<lambda>entry. fingerprint (fst entry)) table)"
    and "ctx_font_options key \<noteq> None" "ctx_font_options context \<noteq> None"
    and "fingerprint key = fingerprint context"
  shows "g_hash_table_lookup env (g_hash_table_remove env table key) context = None"
  using remove_set[OF assms(1,2), of env] assms(4)
  by (subst lookup_None_iff[OF assms(3)]) auto

text \<open>
  Claim C2. A font info is acquired and then released, and the release brings its count
  to zero. The release returns; the font info is still there and still in the hash table,
  with the count 0 and the id of a timeout that is due \<^verbatim>\<open>FONT_CACHE_TIMEOUT\<close> = 30 seconds
  after the release. As long as the timeout has not been dispatched, however much time has
  passed, a lookup of the same context returns the same address and the font info as it
  was before the release (nothing is allocated), and the timeout is no longer pending:
  dispatching it later does nothing. The main loop does not dispatch the timeout before
  30 seconds have passed. Once it has dispatched it, the font info is gone from the heap
  and from the hash table, and a lookup of the context returns a font info at an address
  that was not live before, as \<^verbatim>\<open>font_info_allocate\<close> makes it.
\<close>

theorem eviction_and_reuse:
  assumes ok: "registry_ok w" and opts: "ctx_font_options F \<noteq> None"
    and acq: "font_info_find_for_context env F w = Some (p, w1)"
    and one: "heap w1 p = Some info1" "ref_count info1 = 1"
  shows "\<exists>w2 tag.
           font_info_destroy (Some p) w1 = Some w2
         \<and> tag \<noteq> 0
         \<and> heap w2 p = Some (info1\<lparr>ref_count := 0, destroy_timeout := tag\<rparr>)
         \<and> (tag, now w1 + 30, p) \<in> set (timeouts w2)
         \<and> g_hash_table_lookup env (font_info_for_context w2) F = Some p
         \<and> (\<forall>d. \<exists>w3. font_info_find_for_context env F (time_passes d w2) = Some (p, w3)
                  \<and> heap w3 p = Some info1
                  \<and> tag \<notin> fst ` set (timeouts w3)
                  \<and> last_address w3 = last_address w2
                  \<and> g_main_dispatch env tag w3 = Some w3)
         \<and> (\<forall>d. d < 30 \<longrightarrow>
                g_main_dispatch env tag (time_passes d w2) = Some (time_passes d w2))
         \<and> (\<forall>d. 30 \<le> d \<longrightarrow>
                (\<exists>w4 p' w5. g_main_dispatch env tag (time_passes d w2) = Some w4
                  \<and> heap w4 p = None
                  \<and> g_hash_table_lookup env (font_info_for_context w4) F = None
                  \<and> font_info_find_for_context env F w4 = Some (p', w5)
                  \<and> p' \<noteq> p \<and> heap w2 p' = None
                  \<and> heap w5 p' = Some ((font_info_allocate env F)\<lparr>ref_count := 1\<rparr>)))"
proof -
  obtain p0 w0 info0 where first: "font_info_find_for_context env F w = Some (p0, w0)"
      and ok1': "registry_ok w0" and live0: "heap w0 p0 = Some info0"
      and dt0: "destroy_timeout info0 = 0"
      and fp0: "fingerprint (layout_context (layout info0)) = fingerprint F"
    using find_first[OF ok opts] by blast
  from first acq live0 one have same: "p0 = p" "w0 = w1" "info0 = info1" by auto
  note ok1 = ok1'[unfolded same] and dt1 = dt0[unfolded same] and fp1 = fp0[unfolded same]
  let ?tag = "Suc (last_source w1)"
  let ?info2 = "info1\<lparr>ref_count := 0, destroy_timeout := ?tag\<rparr>"
  let ?w2 = "released p info1 w1"
  have w2: "?w2 = w1\<lparr>timeouts := timeouts w1 @ [(?tag, now w1 + 30, p)], last_source := ?tag,
               heap := (heap w1)(p \<mapsto> ?info2)\<rparr>"
    using one by (simp add: released_def FONT_CACHE_TIMEOUT_def)
  have ok2: "registry_ok ?w2" by (rule released_ok[OF ok1 one(1)])
  have rel: "font_info_destroy (Some p) w1 = Some ?w2" by (rule destroy_live[OF one(1)])
  have live2: "heap ?w2 p = Some ?info2" by (simp add: w2)
  have timer: "(?tag, now w1 + 30, p) \<in> set (timeouts ?w2)" by (simp add: w2)
  have fp2: "fingerprint (layout_context (layout ?info2)) = fingerprint F" using fp1 by simp
  have look: "g_hash_table_lookup env (font_info_for_context ?w2) F = Some p"
    by (rule ok_lookup_live[OF ok2 live2 fp2 opts])
  have restore: "(?info2)\<lparr>destroy_timeout := 0, ref_count := ref_count ?info2 + 1\<rparr> = info1"
    using one(2) dt1 by simp
  have reuse: "\<exists>w3. font_info_find_for_context env F (time_passes d ?w2) = Some (p, w3)
                  \<and> heap w3 p = Some info1 \<and> ?tag \<notin> fst ` set (timeouts w3)
                  \<and> last_address w3 = last_address ?w2
                  \<and> g_main_dispatch env ?tag w3 = Some w3" for d
  proof -
    let ?wt = "time_passes d ?w2"
    have okt: "registry_ok ?wt" by (rule time_passes_ok[OF ok2])
    have livet: "heap ?wt p = Some ?info2" using live2 by (simp add: time_passes_def)
    let ?w3 = "referenced p ?info2 ?wt"
    have f: "font_info_find_for_context env F ?wt = Some (p, ?w3)"
      by (rule find_again[OF okt livet fp2 opts])
    have h3: "heap ?w3 p = Some info1" using restore by simp
    have t3: "?tag \<notin> fst ` set (timeouts ?w3)" by auto
    have a3: "last_address ?w3 = last_address ?w2" by (simp add: time_passes_def)
    show ?thesis
      using f h3 t3 a3 dispatch_gone[OF t3, of env] by blast
  qed
  have early: "g_main_dispatch env ?tag (time_passes d ?w2) = Some (time_passes d ?w2)"
    if "d < 30" for d
  proof -
    have "(?tag, now w1 + 30, p) \<in> set (timeouts (time_passes d ?w2))"
      using timer by (simp add: time_passes_def)
    moreover have "now (time_passes d ?w2) < now w1 + 30"
      using that by (simp add: time_passes_def w2)
    ultimately show ?thesis
      using dispatch_early[OF time_passes_ok[OF ok2]] by blast
  qed
  have late: "\<exists>w4 p' w5. g_main_dispatch env ?tag (time_passes d ?w2) = Some w4
                  \<and> heap w4 p = None
                  \<and> g_hash_table_lookup env (font_info_for_context w4) F = None
                  \<and> font_info_find_for_context env F w4 = Some (p', w5)
                  \<and> p' \<noteq> p \<and> heap ?w2 p' = None
                  \<and> heap w5 p' = Some ((font_info_allocate env F)\<lparr>ref_count := 1\<rparr>)"
    if "30 \<le> d" for d
  proof -
    let ?wt = "time_passes d ?w2"
    have okt: "registry_ok ?wt" by (rule time_passes_ok[OF ok2])
    have livet: "heap ?wt p = Some ?info2" using live2 by (simp add: time_passes_def)
    have tt: "(?tag, now w1 + 30, p) \<in> set (timeouts ?wt)"
      using timer by (simp add: time_passes_def)
    have due: "now w1 + 30 \<le> now ?wt" using that by (simp add: time_passes_def w2)
    let ?w4 = "evicted env ?tag p ?info2 ?wt"
    have d4: "g_main_dispatch env ?tag ?wt = Some ?w4"
      by (rule dispatch_due[OF okt tt due livet])
    have h4: "heap ?w4 p = None" by (simp add: evicted_def)
    have l4: "g_hash_table_lookup env (font_info_for_context ?w4) F = None"
      using lookup_after_remove[OF ok_distinct[OF okt] _ opts fp2, of env] ok_live[OF okt livet]
      by (simp add: evicted_def)
    have a4: "last_address ?w4 = last_address w1"
      by (simp add: evicted_def time_passes_def w2)
    have le: "p \<le> last_address w1" using ok_live[OF ok1 one(1)] by simp
    have fresh: "heap ?w2 (Suc (last_address w1)) = None"
      using ok_live[OF ok2, of "Suc (last_address w1)"] by (cases "heap ?w2 (Suc (last_address w1))") (auto simp: w2)
    show ?thesis
      using d4 h4 l4 find_miss[OF l4] a4 le fresh
      by (intro exI[of _ ?w4] exI[of _ "Suc (last_address w1)"] exI[of _ "allocated env F ?w4"])
         (simp add: allocated_def)
  qed
  show ?thesis
    using rel live2 timer look reuse early late
    by (intro exI[of _ ?w2] exI[of _ ?tag]) blast
qed


lemma empty_world_ok: "registry_ok empty_world"
  by (simp add: registry_ok_def empty_world_def)

lemma demo_context_options: "ctx_font_options demo_context \<noteq> None"
  "ctx_font_options (demo_context\<lparr>resolution := 120\<rparr>) \<noteq> None"
  "ctx_font_options (demo_context\<lparr>resolution := 960001 / 10000\<rparr>) \<noteq> None"
  by (simp_all add: demo_context_def)

lemma demo_context_hash:
  "context_hash demo_pango (demo_context\<lparr>resolution := 960001 / 10000\<rparr>)
     = context_hash demo_pango demo_context"
proof -
  have "pango_units_from_double (960001 / 10000) = 98304" "pango_units_from_double 96 = 98304"
    unfolding pango_units_from_double_def PANGO_SCALE_def floor_eq_iff by simp_all
  then show ?thesis
    by (simp add: context_hash_def demo_context_def)
qed

text \<open>The theorem in the empty world: the demo context (96 dpi) twice, the demo context
  followed by the same context at the resolution 120 dpi, and the demo context followed by
  the same context at 96.0001 dpi, which has the same hash: the resolutions are compared as
  they are, and the second lookup allocates.\<close>

theorem registry_sharing_witness:
  "registry_ok empty_world
   \<and> ctx_font_options demo_context \<noteq> None
   \<and> ctx_font_options (demo_context\<lparr>resolution := 120\<rparr>) \<noteq> None
   \<and> (\<exists>p w1 w2 info1.
         font_info_find_for_context demo_pango demo_context empty_world = Some (p, w1)
       \<and> font_info_find_for_context demo_pango demo_context w1 = Some (p, w2)
       \<and> heap w1 p = Some info1
       \<and> heap w2 p = Some (info1\<lparr>ref_count := ref_count info1 + 1\<rparr>))
   \<and> (\<exists>p w1 q w2.
         font_info_find_for_context demo_pango demo_context empty_world = Some (p, w1)
       \<and> font_info_find_for_context demo_pango (demo_context\<lparr>resolution := 120\<rparr>) w1 = Some (q, w2)
       \<and> q \<noteq> p)
   \<and> ctx_font_options (demo_context\<lparr>resolution := 960001 / 10000\<rparr>) \<noteq> None
   \<and> context_hash demo_pango (demo_context\<lparr>resolution := 960001 / 10000\<rparr>)
       = context_hash demo_pango demo_context
   \<and> (\<exists>p w1 q w2.
         font_info_find_for_context demo_pango demo_context empty_world = Some (p, w1)
       \<and> font_info_find_for_context demo_pango (demo_context\<lparr>resolution := 960001 / 10000\<rparr>) w1
           = Some (q, w2)
       \<and> q \<noteq> p \<and> last_address w2 \<noteq> last_address w1
       \<and> \<not> context_equal demo_context (demo_context\<lparr>resolution := 960001 / 10000\<rparr>))"
proof -
  have near: "fingerprint demo_context \<noteq> fingerprint (demo_context\<lparr>resolution := 960001 / 10000\<rparr>)"
    by (simp add: fingerprint_def demo_context_def)
  have ne: "fingerprint demo_context \<noteq> fingerprint (demo_context\<lparr>resolution := 120\<rparr>)"
    by (simp add: fingerprint_def demo_context_def)
  have same: "\<exists>p w1 w2 info1.
         font_info_find_for_context demo_pango demo_context empty_world = Some (p, w1)
       \<and> font_info_find_for_context demo_pango demo_context w1 = Some (p, w2)
       \<and> heap w1 p = Some info1
       \<and> heap w2 p = Some (info1\<lparr>ref_count := ref_count info1 + 1\<rparr>)"
    using registry_sharing[OF empty_world_ok demo_context_options(1) demo_context_options(1),
            of demo_pango]
    by (simp only: simp_thms if_True) blast
  have other: "\<exists>p w1 q w2.
         font_info_find_for_context demo_pango demo_context empty_world = Some (p, w1)
       \<and> font_info_find_for_context demo_pango (demo_context\<lparr>resolution := 120\<rparr>) w1 = Some (q, w2)
       \<and> q \<noteq> p"
    using registry_sharing[OF empty_world_ok demo_context_options(1) demo_context_options(2),
            of demo_pango]
    by (simp only: ne simp_thms if_False) blast
  have close: "\<exists>p w1 q w2.
         font_info_find_for_context demo_pango demo_context empty_world = Some (p, w1)
       \<and> font_info_find_for_context demo_pango (demo_context\<lparr>resolution := 960001 / 10000\<rparr>) w1
           = Some (q, w2)
       \<and> q \<noteq> p \<and> last_address w2 \<noteq> last_address w1
       \<and> \<not> context_equal demo_context (demo_context\<lparr>resolution := 960001 / 10000\<rparr>)"
  proof -
    from registry_sharing[OF empty_world_ok demo_context_options(1) demo_context_options(3),
            of demo_pango]
    obtain p w1 q w2 info1 info2 where r:
      "font_info_find_for_context demo_pango demo_context empty_world = Some (p, w1)"
      "font_info_find_for_context demo_pango (demo_context\<lparr>resolution := 960001 / 10000\<rparr>) w1
         = Some (q, w2)"
      "heap w1 p = Some info1" "heap w2 q = Some info2"
      "q \<noteq> p" "heap w2 p = Some info1" "registry_ok w2"
      "\<not> context_equal demo_context (demo_context\<lparr>resolution := 960001 / 10000\<rparr>)"
      unfolding if_not_P[OF near] using near by blast
    have miss: "g_hash_table_lookup demo_pango (font_info_for_context w1)
                  (demo_context\<lparr>resolution := 960001 / 10000\<rparr>) = None"
    proof (cases "g_hash_table_lookup demo_pango (font_info_for_context w1)
                  (demo_context\<lparr>resolution := 960001 / 10000\<rparr>)")
      case (Some a)
      have first: "font_info_find_for_context demo_pango demo_context empty_world
                     = Some (Suc (last_address empty_world), allocated demo_pango demo_context empty_world)"
        by (rule find_miss) (simp add: empty_world_def g_hash_table_lookup_def)
      then have "font_info_for_context w1 = [(demo_context, Suc 0)]"
        using r(1) by (auto simp: allocated_def empty_world_def)
      then show ?thesis
        using near demo_context_options(3) by (simp add: lookup_None_iff)
    qed simp
    have "last_address w2 = Suc (last_address w1)"
      using find_miss[OF miss] r(2) by (auto simp: allocated_def)
    then show ?thesis using r by auto
  qed
  show ?thesis
    using empty_world_ok demo_context_options demo_context_hash same other close by blast
qed

text \<open>The theorem in the empty world, with the demo context: a lookup 29 seconds after the
  release, and a dispatch after 30 seconds followed by a lookup.\<close>

theorem eviction_and_reuse_witness:
  "registry_ok empty_world
   \<and> ctx_font_options demo_context \<noteq> None
   \<and> (\<exists>w1 info1 w2 tag.
         font_info_find_for_context demo_pango demo_context empty_world = Some (1, w1)
       \<and> heap w1 1 = Some info1 \<and> ref_count info1 = 1
       \<and> font_info_destroy (Some 1) w1 = Some w2
       \<and> (tag, 30, 1) \<in> set (timeouts w2)
       \<and> (\<exists>w3. font_info_find_for_context demo_pango demo_context (time_passes 29 w2) = Some (1, w3)
                \<and> heap w3 1 = Some info1)
       \<and> g_main_dispatch demo_pango tag (time_passes 29 w2) = Some (time_passes 29 w2)
       \<and> (\<exists>w4 p' w5. g_main_dispatch demo_pango tag (time_passes 30 w2) = Some w4
                \<and> heap w4 1 = None
                \<and> font_info_find_for_context demo_pango demo_context w4 = Some (p', w5)
                \<and> p' \<noteq> 1))"
proof -
  let ?w1 = "allocated demo_pango demo_context empty_world"
  let ?info1 = "(font_info_allocate demo_pango demo_context)\<lparr>ref_count := 1\<rparr>"
  have miss: "g_hash_table_lookup demo_pango (font_info_for_context empty_world) demo_context = None"
    by (simp add: g_hash_table_lookup_def empty_world_def)
  have acq: "font_info_find_for_context demo_pango demo_context empty_world = Some (1, ?w1)"
    using find_miss[OF miss] by (simp add: empty_world_def)
  have one: "heap ?w1 1 = Some ?info1" "ref_count ?info1 = 1"
    by (simp_all add: allocated_def empty_world_def)
  have t: "now ?w1 + 30 = 30" by (simp add: allocated_def empty_world_def)
  obtain w2 tag where r: "font_info_destroy (Some 1) ?w1 = Some w2"
      "(tag, 30, 1) \<in> set (timeouts w2)"
      "\<forall>d. \<exists>w3. font_info_find_for_context demo_pango demo_context (time_passes d w2) = Some (1, w3)
                  \<and> heap w3 1 = Some ?info1
                  \<and> tag \<notin> fst ` set (timeouts w3)
                  \<and> last_address w3 = last_address w2
                  \<and> g_main_dispatch demo_pango tag w3 = Some w3"
      "\<forall>d. d < 30 \<longrightarrow>
                g_main_dispatch demo_pango tag (time_passes d w2) = Some (time_passes d w2)"
      "\<forall>d. 30 \<le> d \<longrightarrow>
                (\<exists>w4 p' w5. g_main_dispatch demo_pango tag (time_passes d w2) = Some w4
                  \<and> heap w4 1 = None
                  \<and> g_hash_table_lookup demo_pango (font_info_for_context w4) demo_context = None
                  \<and> font_info_find_for_context demo_pango demo_context w4 = Some (p', w5)
                  \<and> p' \<noteq> 1 \<and> heap w2 p' = None
                  \<and> heap w5 p' = Some ((font_info_allocate demo_pango demo_context)\<lparr>ref_count := 1\<rparr>))"
    using eviction_and_reuse[OF empty_world_ok demo_context_options(1) acq one] unfolding t
    by blast
  have a: "\<exists>w3. font_info_find_for_context demo_pango demo_context (time_passes 29 w2) = Some (1, w3)
                \<and> heap w3 1 = Some ?info1"
    using r(3) by blast
  have b: "g_main_dispatch demo_pango tag (time_passes 29 w2) = Some (time_passes 29 w2)"
    using r(4) by simp
  have c: "\<exists>w4 p' w5. g_main_dispatch demo_pango tag (time_passes 30 w2) = Some w4
                \<and> heap w4 1 = None
                \<and> font_info_find_for_context demo_pango demo_context w4 = Some (p', w5)
                \<and> p' \<noteq> 1"
    using r(5) by (meson order_refl)
  show ?thesis
    using empty_world_ok demo_context_options(1) acq one r(1,2) a b c by blast
qed

subsection \<open>The drawing loop\<close>

lemma get_fst:
  "fst (font_info_get_unistr_info env info c) =
     (case cached info c of
        Some u \<Rightarrow> if coverage u \<noteq> COVERAGE_UNKNOWN then u
                  else classify_shaped env (shaped_for env info c)
      | None \<Rightarrow> classify_shaped env (shaped_for env info c))"
  by (auto simp: font_info_get_unistr_info_def font_info_find_unistr_info_def cached_def Let_def
      shaped_for_def layout_shaped_def pango_layout_set_text_def split: option.splits)

lemma cached_other_eq:
  "c' \<noteq> c \<Longrightarrow> cached (snd (font_info_get_unistr_info env info c')) c = cached info c"
  by (auto simp: font_info_get_unistr_info_def font_info_find_unistr_info_def Let_def
      store_unistr_info_def cached_def unat_neq split: prod.splits option.splits if_splits)

lemma shaped_for_get [simp]:
  "shaped_for env (snd (font_info_get_unistr_info env' info c')) c = shaped_for env info c"
  by (simp add: shaped_for_def)

lemma get_stable:
  "fst (font_info_get_unistr_info env (snd (font_info_get_unistr_info env info c')) c) =
     fst (font_info_get_unistr_info env info c)"
proof (cases "c' = c")
  case True
  then show ?thesis
    using get_hit[OF cached_after_get get_known, of env env info c] by simp
next
  case False
  have ne: "c' \<noteq> c" using False .
  show ?thesis
    unfolding get_fst cached_other_eq[OF ne] shaped_for_get ..
qed

lemma get_twice:
  "font_info_get_unistr_info env (snd (font_info_get_unistr_info env info c)) c =
     font_info_get_unistr_info env info c"
  using get_hit[OF cached_after_get get_known, of env env info c] by simp

lemma get_at_live:
  "heap w p = Some info \<Longrightarrow>
   font_info_get_unistr_info_at env (Some p) c w =
     Some (fst (font_info_get_unistr_info env info c),
           w\<lparr>heap := (heap w)(p \<mapsto> snd (font_info_get_unistr_info env info c))\<rparr>)"
  by (simp add: font_info_get_unistr_info_at_def split_beta)

lemma c_div_2: "0 \<le> a \<Longrightarrow> c_div a 2 = a div 2"
  by (cases "a = 0") (simp_all add: c_div_def)

lemma char_edges_text:
  assumes "\<not> vte_draw_unichar_is_local_graphic c"
    and "fonts draw VTE_DRAW_NORMAL = Some n" "style < 4" "fonts draw style = Some p"
    and "heap w p = Some info" "heap w n = Some normal_info"
  shows "vte_draw_get_char_edges env draw c columns style w =
     Some ((char_left draw (width normal_info)
              (uint (uinfo_width (fst (font_info_get_unistr_info env info c)))) columns,
            char_left draw (width normal_info)
              (uint (uinfo_width (fst (font_info_get_unistr_info env info c)))) columns
            + uint (uinfo_width (fst (font_info_get_unistr_info env info c)))),
           w\<lparr>heap := (heap w)(p \<mapsto> snd (font_info_get_unistr_info env info c))\<rparr>)"
proof -
  have nw: "width (if n = p then snd (font_info_get_unistr_info env info c) else normal_info)
            = width normal_info"
    using assms(5,6) by auto
  show ?thesis
    using assms nw
    by (auto simp: vte_draw_get_char_edges_def get_at_live char_left_def c_div_2 Let_def)
qed


lemma resolve_stable:
  "width normal_info' = width normal_info \<Longrightarrow> ascent normal_info' = ascent normal_info \<Longrightarrow>
   resolve_request env draw attr color (snd (font_info_get_unistr_info env info c')) normal_info' r =
     resolve_request env draw attr color info normal_info r"
  by (simp add: resolve_request_def get_stable Let_def)

lemma heap_same: "heap w p = Some info \<Longrightarrow> w\<lparr>heap := (heap w)(p \<mapsto> info)\<rparr> = w"
  by (simp add: fun_upd_idem)

lemma loop_Cons:
  assumes n: "fonts draw VTE_DRAW_NORMAL = Some n" and st: "style < 4" "fonts draw style = Some p"
    and live: "heap w p = Some info" "heap w n = Some normal_info"
  shows "draw_text_loop env draw attr color style p (r # rs) lsf g w =
     (case resolve_request env draw attr color info normal_info r of
        Item_graphic c a co x y wd cols h \<Rightarrow>
          draw_text_loop env draw attr color style p rs lsf g
            (cairo [Terminal_draw_graphic c a co x y wd cols h] w)
      | Item_layout_line x y line \<Rightarrow>
          draw_text_loop env draw attr color style p rs lsf g
            (cairo [Cairo_move_to x y, Pango_cairo_show_layout_line line]
               (w\<lparr>heap := (heap w)(p \<mapsto> snd (font_info_get_unistr_info env info (request_char env r)))\<rparr>))
      | Item_glyph_string x y font glyph_string \<Rightarrow>
          draw_text_loop env draw attr color style p rs lsf g
            (cairo [Cairo_move_to x y, Pango_cairo_show_glyph_string font glyph_string]
               (w\<lparr>heap := (heap w)(p \<mapsto> snd (font_info_get_unistr_info env info (request_char env r)))\<rparr>))
      | Item_glyph scaled_font gl \<Rightarrow>
          (if lsf \<noteq> Some scaled_font \<or> length g = MAX_RUN_LENGTH
           then draw_text_loop env draw attr color style p rs (Some scaled_font) [gl]
                  (if g \<noteq> []
                   then show_glyphs lsf g
                          (w\<lparr>heap := (heap w)(p \<mapsto> snd (font_info_get_unistr_info env info (request_char env r)))\<rparr>)
                   else w\<lparr>heap := (heap w)(p \<mapsto> snd (font_info_get_unistr_info env info (request_char env r)))\<rparr>)
           else draw_text_loop env draw attr color style p rs lsf (g @ [gl])
                  (w\<lparr>heap := (heap w)(p \<mapsto> snd (font_info_get_unistr_info env info (request_char env r)))\<rparr>))
      | Item_unknown \<Rightarrow> None)"
proof (cases "vte_draw_unichar_is_local_graphic (request_char env r)")
  case True
  then show ?thesis
    using live by (simp add: resolve_request_def request_char_def Let_def)
next
  case False
  let ?c = "request_char env r"
  let ?info1 = "snd (font_info_get_unistr_info env info ?c)"
  let ?u = "fst (font_info_get_unistr_info env info ?c)"
  let ?w1 = "w\<lparr>heap := (heap w)(p \<mapsto> ?info1)\<rparr>"
  let ?n1 = "if n = p then ?info1 else normal_info"
  have l1: "heap ?w1 p = Some ?info1" "heap ?w1 n = Some ?n1" using live by auto
  have nw: "width ?n1 = width normal_info" "ascent ?n1 = ascent normal_info"
    using live by auto
  have ga: "font_info_get_unistr_info_at env (Some p) ?c w = Some (?u, ?w1)"
    by (rule get_at_live[OF live(1)])
  have same: "?w1\<lparr>heap := (heap ?w1)(p \<mapsto> snd (font_info_get_unistr_info env ?info1 ?c))\<rparr> = ?w1"
    unfolding get_twice by (rule heap_same[OF l1(1)])
  have ce: "vte_draw_get_char_edges env draw ?c (req_columns r) style ?w1 =
      Some ((char_left draw (width normal_info) (uint (uinfo_width ?u)) (req_columns r),
             char_left draw (width normal_info) (uint (uinfo_width ?u)) (req_columns r)
               + uint (uinfo_width ?u)), ?w1)"
    using char_edges_text[OF False n st l1, of env "req_columns r"] nw
    by (simp add: get_twice heap_same[OF l1(1)] del: get_keeps)
  have c: "(if req_mirror r then bidi_get_mirror_char env (req_c r) (req_box_mirror r) else req_c r) = ?c"
    by (simp add: request_char_def)
  show ?thesis
  proof (cases "n = p")
    case True
    with live have e: "normal_info = info" by simp
    show ?thesis
      unfolding draw_text_loop.simps Let_def c
      using False ga ce n live(1) True unfolding e
      by (simp add: resolve_request_def Let_def split: unistr_font_info.splits)
  next
    case ne: False
    show ?thesis
      unfolding draw_text_loop.simps Let_def c
      using False ga ce n live ne
      by (simp add: resolve_request_def Let_def split: unistr_font_info.splits)
  qed
qed

lemma loop_emit:
  assumes n: "fonts draw VTE_DRAW_NORMAL = Some n" and st: "style < 4" "fonts draw style = Some p"
  shows "heap w p = Some info \<Longrightarrow> heap w n = Some normal_info \<Longrightarrow>
   draw_text_loop env draw attr color style p reqs lsf g w =
     (case emit_items (map (resolve_request env draw attr color info normal_info) reqs) lsf g of
        (ops, lsf', g') \<Rightarrow>
          (if Item_unknown \<in> set (map (resolve_request env draw attr color info normal_info) reqs)
           then None
           else Some (lsf', g',
                 w\<lparr>heap := (heap w)(p \<mapsto> classify_all env info (drawn_chars env reqs)),
                   cairo_ops := cairo_ops w @ ops\<rparr>)))"
proof (induction reqs arbitrary: w info normal_info lsf g)
  case Nil
  then show ?case by (simp add: classify_all_def drawn_chars_def heap_same)
next
  case (Cons r rs)
  let ?c = "request_char env r"
  let ?info1 = "snd (font_info_get_unistr_info env info ?c)"
  let ?w1 = "w\<lparr>heap := (heap w)(p \<mapsto> ?info1)\<rparr>"
  let ?n1 = "if n = p then ?info1 else normal_info"
  let ?item = "resolve_request env draw attr color info normal_info r"
  have nw: "width ?n1 = width normal_info" "ascent ?n1 = ascent normal_info"
    using Cons.prems by auto
  have items: "map (resolve_request env draw attr color ?info1 ?n1) rs =
               map (resolve_request env draw attr color info normal_info) rs"
    using resolve_stable[OF nw] by simp
  note step = loop_Cons[OF n st Cons.prems, of env attr color r rs lsf g]
  show ?case
  proof (cases ?item)
    case (Item_graphic c a co x y wd cols h)
    then have gr: "vte_draw_unichar_is_local_graphic ?c"
      by (auto simp: resolve_request_def Let_def split: if_splits unistr_font_info.splits)
    let ?op = "Terminal_draw_graphic c a co x y wd cols h"
    have l: "heap (cairo [?op] w) p = Some info" "heap (cairo [?op] w) n = Some normal_info"
      using Cons.prems by (simp_all add: cairo_def)
    show ?thesis
      unfolding step Item_graphic draw_item.case Cons.IH[OF l]
      using gr Item_graphic
      by (simp add: drawn_chars_def cairo_def split: prod.splits)
  next
    case (Item_layout_line x y line)
    then have gr: "\<not> vte_draw_unichar_is_local_graphic ?c"
      by (auto simp: resolve_request_def Let_def split: if_splits)
    let ?w2 = "cairo [Cairo_move_to x y, Pango_cairo_show_layout_line line] ?w1"
    have l: "heap ?w2 p = Some ?info1" "heap ?w2 n = Some ?n1"
      using Cons.prems by (auto simp: cairo_def)
    show ?thesis
      unfolding step Item_layout_line draw_item.case Cons.IH[OF l] items
      using gr Item_layout_line
      by (simp add: drawn_chars_def cairo_def classify_all_def split: prod.splits)
  next
    case (Item_glyph_string x y font glyph_string)
    then have gr: "\<not> vte_draw_unichar_is_local_graphic ?c"
      by (auto simp: resolve_request_def Let_def split: if_splits)
    let ?w2 = "cairo [Cairo_move_to x y, Pango_cairo_show_glyph_string font glyph_string] ?w1"
    have l: "heap ?w2 p = Some ?info1" "heap ?w2 n = Some ?n1"
      using Cons.prems by (auto simp: cairo_def)
    show ?thesis
      unfolding step Item_glyph_string draw_item.case Cons.IH[OF l] items
      using gr Item_glyph_string
      by (simp add: drawn_chars_def cairo_def classify_all_def split: prod.splits)
  next
    case (Item_glyph sf gl)
    then have gr: "\<not> vte_draw_unichar_is_local_graphic ?c"
      by (auto simp: resolve_request_def Let_def split: if_splits)
    have l1: "heap ?w1 p = Some ?info1" "heap ?w1 n = Some ?n1"
      using Cons.prems by auto
    have l2: "heap (show_glyphs lsf g ?w1) p = Some ?info1" "heap (show_glyphs lsf g ?w1) n = Some ?n1"
      using Cons.prems by (auto simp: show_glyphs_def)
    show ?thesis
      unfolding step Item_glyph draw_item.case
      using gr Item_glyph Cons.IH[OF l1] Cons.IH[OF l2]
      by (simp add: items drawn_chars_def show_glyphs_def classify_all_def split: prod.splits)
  next
    case Item_unknown
    then show ?thesis
      unfolding step by (simp split: prod.splits)
  qed
qed

lemma resolve_known: "resolve_request env draw attr color info normal_info r \<noteq> Item_unknown"
  using get_known[of env info "request_char env r"]
  by (auto simp: resolve_request_def Let_def coverage_def split: unistr_font_info.splits)

lemma text_internal:
  assumes n: "fonts draw VTE_DRAW_NORMAL = Some n" and st: "style < 4" "fonts draw style = Some p"
    and live: "heap w p = Some info" "heap w n = Some normal_info" and cr: "cr draw \<noteq> None"
  shows "vte_draw_text_internal env draw reqs attr color alpha style w =
     Some (w\<lparr>heap := (heap w)(p \<mapsto> classify_all env info (drawn_chars env reqs)),
             cairo_ops := cairo_ops w @ [Cairo_set_source_rgba color alpha, Cairo_set_operator_over]
                @ emit_all (map (resolve_request env draw attr color info normal_info) reqs)\<rparr>)"
proof -
  let ?w0 = "cairo [Cairo_set_source_rgba color alpha, Cairo_set_operator_over] w"
  have l: "heap ?w0 p = Some info" "heap ?w0 n = Some normal_info"
    using live by (simp_all add: cairo_def)
  have nu: "Item_unknown \<notin> set (map (resolve_request env draw attr color info normal_info) reqs)"
    using resolve_known[of env draw attr color info normal_info] by (auto dest: sym)
  obtain ops lsf' g' where
    e: "emit_items (map (resolve_request env draw attr color info normal_info) reqs) None [] = (ops, lsf', g')"
    by (cases "emit_items (map (resolve_request env draw attr color info normal_info) reqs) None []") auto
  have loop: "draw_text_loop env draw attr color style p reqs None [] ?w0 =
      Some (lsf', g', ?w0\<lparr>heap := (heap ?w0)(p \<mapsto> classify_all env info (drawn_chars env reqs)),
                          cairo_ops := cairo_ops ?w0 @ ops\<rparr>)"
    using loop_emit[OF n st l, of env attr color reqs None "[]"] nu e by simp
  have "vte_draw_text_internal env draw reqs attr color alpha style w =
      draw_text_loop env draw attr color style p reqs None [] ?w0 \<bind>
        (\<lambda>(last_scaled_font, cr_glyphs, w1).
            Some (if cr_glyphs \<noteq> [] then show_glyphs last_scaled_font cr_glyphs w1 else w1))"
    using st cr by (auto simp: vte_draw_text_internal_def)
  then show ?thesis
    unfolding loop by (auto simp: emit_all_def e show_glyphs_def cairo_def)
qed

subsection \<open>Runs of glyphs\<close>

declare batches.simps [simp del]

lemma batches_Nil [simp]: "batches n [] = []"
  by (simp add: batches.simps)

lemma batches_step: "0 < n \<Longrightarrow> xs \<noteq> [] \<Longrightarrow> batches n xs = take n xs # batches n (drop n xs)"
  by (subst batches.simps) simp

lemma concat_batches: "0 < n \<Longrightarrow> concat (batches n xs) = xs"
proof (induction n xs rule: batches.induct)
  case (1 n xs)
  then show ?case
    by (cases "xs = []") (simp_all add: batches_step)
qed

lemma ceil_small: assumes "0 < m" "m \<le> n" shows "(m + n - 1) div n = (1::nat)"
proof -
  have e: "m + n - 1 = n + (m - 1)" using assms by arith
  have l: "m - 1 < n" using assms by arith
  have n0: "n \<noteq> 0" using assms by arith
  show ?thesis unfolding e using l n0 by (simp add: div_add_self1)
qed

lemma ceil_step: assumes "0 < n" "n < m" shows "(m + n - 1) div n = Suc ((m - n + n - 1) div n)"
proof -
  have e: "m + n - 1 = n + (m - n + n - 1)" using assms by arith
  have n0: "n \<noteq> 0" using assms by arith
  show ?thesis by (subst e) (simp only: div_add_self1[OF n0] Suc_eq_plus1)
qed

lemma length_batches: "0 < n \<Longrightarrow> length (batches n xs) = (length xs + n - 1) div n"
proof (induction n xs rule: batches.induct)
  case (1 n xs)
  show ?case
  proof (cases "xs = []")
    case True
    then show ?thesis using 1 by simp
  next
    case False
    then have len: "0 < length xs" by simp
    have IH: "length (batches n (drop n xs)) = (length xs - n + n - 1) div n"
      using 1 False by simp
    have st: "length (batches n xs) = Suc (length (batches n (drop n xs)))"
      using 1(2) False by (simp add: batches_step)
    show ?thesis
    proof (cases "length xs \<le> n")
      case True
      then have "drop n xs = []" by simp
      then show ?thesis unfolding st ceil_small[OF len True] by simp
    next
      case gt: False
      then have "n < length xs" by simp
      then show ?thesis unfolding st IH using ceil_step[OF 1(2)] by simp
    qed
  qed
qed

lemma batch_sizes: "b \<in> set (batches n xs) \<Longrightarrow> 0 < length b \<and> length b \<le> n"
proof (induction n xs rule: batches.induct)
  case (1 n xs)
  show ?case
  proof (cases "n = 0 \<or> xs = []")
    case True
    then show ?thesis using 1(2) by (auto simp: batches.simps)
  next
    case False
    then show ?thesis using 1 by (auto simp: batches_step)
  qed
qed


lemma single_draw_calls_append:
  "single_draw_calls (a @ b) = single_draw_calls a @ single_draw_calls b"
  by (induction a rule: single_draw_calls.induct) simp_all

lemma batched_glyphs_append: "batched_glyphs (a @ b) = batched_glyphs a @ batched_glyphs b"
  by (induction a rule: batched_glyphs.induct) simp_all

lemma emit_calls:
  "Item_unknown \<notin> set items \<Longrightarrow>
   single_draw_calls (fst (emit_items items lsf g)) = concat (map item_single_draw_call items)"
  by (induction items lsf g rule: emit_items.induct)
     (auto simp: single_draw_calls_append split: prod.splits)

lemma emit_glyphs:
  "Item_unknown \<notin> set items \<Longrightarrow>
   (case emit_items items lsf g of (ops, lsf', g') \<Rightarrow> batched_glyphs ops @ g') =
     g @ concat (map item_glyph items)"
  by (induction items lsf g rule: emit_items.induct)
     (auto simp: batched_glyphs_append split: prod.splits)

lemma emit_all_calls:
  "Item_unknown \<notin> set items \<Longrightarrow>
   single_draw_calls (emit_all items) = concat (map item_single_draw_call items)"
  using emit_calls[of items None "[]"]
  by (auto simp: emit_all_def single_draw_calls_append split: prod.splits)

lemma emit_all_glyphs:
  "Item_unknown \<notin> set items \<Longrightarrow> batched_glyphs (emit_all items) = concat (map item_glyph items)"
  using emit_glyphs[of items None "[]"]
  by (auto simp: emit_all_def batched_glyphs_append split: prod.splits)

lemma emit_run:
  "length g \<le> MAX_RUN_LENGTH \<Longrightarrow> lsf = Some sf \<or> g = [] \<Longrightarrow>
   fst (emit_items (map (Item_glyph sf) xs) lsf g)
     @ flush_ops (snd (emit_items (map (Item_glyph sf) xs) lsf g)) =
     show_batches sf (batches MAX_RUN_LENGTH (g @ xs))"
proof (induction xs arbitrary: g lsf)
  case Nil
  have m: "0 < MAX_RUN_LENGTH" by (simp add: MAX_RUN_LENGTH_def)
  show ?case
  proof (cases "g = []")
    case True
    then show ?thesis by (simp add: show_batches_def flush_ops_def)
  next
    case False
    then have "batches MAX_RUN_LENGTH g = [g]"
      using Nil(1) m by (simp add: batches_step)
    then show ?thesis using False Nil(2) by (simp add: show_batches_def flush_ops_def)
  qed
next
  case (Cons x xs)
  have m: "0 < MAX_RUN_LENGTH" by (simp add: MAX_RUN_LENGTH_def)
  show ?case
  proof (cases "lsf \<noteq> Some sf \<or> length g = MAX_RUN_LENGTH")
    case True
    have IH: "fst (emit_items (map (Item_glyph sf) xs) (Some sf) [x])
         @ flush_ops (snd (emit_items (map (Item_glyph sf) xs) (Some sf) [x])) =
       show_batches sf (batches MAX_RUN_LENGTH ([x] @ xs))"
      by (rule Cons.IH) (simp_all add: MAX_RUN_LENGTH_def)
    show ?thesis
    proof (cases "g = []")
      case g: True
      show ?thesis using True IH g by (simp add: split_beta)
    next
      case g: False
      then have l: "lsf = Some sf" "length g = MAX_RUN_LENGTH" using Cons.prems True by auto
      have "batches MAX_RUN_LENGTH (g @ x # xs) = g # batches MAX_RUN_LENGTH (x # xs)"
        using l m by (simp add: batches_step)
      then show ?thesis using True IH g l by (simp add: show_batches_def split_beta)
    qed
  next
    case False
    then have l: "lsf = Some sf" "length g < MAX_RUN_LENGTH" using Cons.prems by auto
    have IH: "fst (emit_items (map (Item_glyph sf) xs) lsf (g @ [x]))
         @ flush_ops (snd (emit_items (map (Item_glyph sf) xs) lsf (g @ [x]))) =
       show_batches sf (batches MAX_RUN_LENGTH ((g @ [x]) @ xs))"
      using l by (intro Cons.IH) simp_all
    show ?thesis using False IH by simp
  qed
qed

lemma emit_all_run:
  "emit_all (map (Item_glyph sf) xs) = show_batches sf (batches MAX_RUN_LENGTH xs)"
  using emit_run[of "[]" None sf xs] by (simp add: emit_all_def flush_ops_def split_beta)

lemma emit_append:
  "Item_unknown \<notin> set a \<Longrightarrow>
   emit_items (a @ b) lsf g =
     (fst (emit_items a lsf g)
        @ fst (emit_items b (fst (snd (emit_items a lsf g))) (snd (snd (emit_items a lsf g)))),
      snd (emit_items b (fst (snd (emit_items a lsf g))) (snd (snd (emit_items a lsf g)))))"
  by (induction a lsf g rule: emit_items.induct) (auto simp: split_beta)

lemma emit_run_font:
  "fst (snd (emit_items (map (Item_glyph sf) xs) lsf g)) = (if xs = [] then lsf else Some sf)"
  by (induction xs arbitrary: lsf g) (auto simp: split_beta)

lemma emit_other_font:
  assumes "lsf \<noteq> Some sf"
  shows "emit_items (map (Item_glyph sf) ys) lsf g =
     ((if ys = [] then [] else flush_ops (lsf, g)) @ fst (emit_items (map (Item_glyph sf) ys) None []),
      (if ys = [] then (lsf, g) else snd (emit_items (map (Item_glyph sf) ys) None [])))"
  using assms by (cases ys) (auto simp: split_beta flush_ops_def)

lemma emit_all_two_runs:
  assumes "sf1 \<noteq> sf2"
  shows "emit_all (map (Item_glyph sf1) xs @ map (Item_glyph sf2) ys) =
     show_batches sf1 (batches MAX_RUN_LENGTH xs) @ show_batches sf2 (batches MAX_RUN_LENGTH ys)"
proof -
  let ?a = "emit_items (map (Item_glyph sf1) xs) None []"
  have nu: "Item_unknown \<notin> set (map (Item_glyph sf1) xs)" by auto
  have r1: "fst ?a @ flush_ops (snd ?a) = show_batches sf1 (batches MAX_RUN_LENGTH xs)"
    using emit_run[of "[]" None sf1 xs] by simp
  have r2: "fst (emit_items (map (Item_glyph sf2) ys) None [])
              @ flush_ops (snd (emit_items (map (Item_glyph sf2) ys) None [])) =
            show_batches sf2 (batches MAX_RUN_LENGTH ys)"
    using emit_run[of "[]" None sf2 ys] by simp
  have f: "fst (snd ?a) \<noteq> Some sf2"
    using assms by (simp add: emit_run_font)
  have all: "emit_all (map (Item_glyph sf1) xs @ map (Item_glyph sf2) ys) =
      fst (emit_items (map (Item_glyph sf1) xs @ map (Item_glyph sf2) ys) None [])
      @ flush_ops (snd (emit_items (map (Item_glyph sf1) xs @ map (Item_glyph sf2) ys) None []))"
    by (simp add: emit_all_def flush_ops_def split_beta)
  show ?thesis
  proof (cases "ys = []")
    case True
    then show ?thesis using emit_all_run[of sf1 xs] by (simp add: show_batches_def)
  next
    case False
    have "emit_items (map (Item_glyph sf2) ys) (fst (snd ?a)) (snd (snd ?a)) =
       (flush_ops (snd ?a) @ fst (emit_items (map (Item_glyph sf2) ys) None []),
        snd (emit_items (map (Item_glyph sf2) ys) None []))"
      using emit_other_font[OF f, of ys "snd (snd ?a)"] False by simp
    then have "emit_all (map (Item_glyph sf1) xs @ map (Item_glyph sf2) ys) =
        (fst ?a @ flush_ops (snd ?a))
        @ (fst (emit_items (map (Item_glyph sf2) ys) None [])
           @ flush_ops (snd (emit_items (map (Item_glyph sf2) ys) None [])))"
      unfolding all emit_append[OF nu] by simp
    then show ?thesis unfolding r1 r2 .
  qed
qed

lemma resolve_glyph:
  assumes "\<not> vte_draw_unichar_is_local_graphic (request_char env r)"
    and "ufi (fst (font_info_get_unistr_info env info (request_char env r))) = Using_cairo_glyph sf gi"
  shows "resolve_request env draw attr color info normal_info r =
           Item_glyph sf (glyph_of_request env draw info normal_info r)"
  using assms by (simp add: resolve_request_def glyph_of_request_def Let_def)


lemma demo_live:
  "fonts demo_draw VTE_DRAW_NORMAL = Some 1" "fonts demo_draw 0 = Some 1" "(0::nat) < 4"
  "heap demo_world 1 = Some demo_font_info" "cr demo_draw \<noteq> None"
  by (simp_all add: demo_draw_def demo_world_def VTE_DRAW_NORMAL_def)

lemmas draw_eval = classify_eval resolve_request_def request_char_def demo_request_def
  vte_draw_unichar_is_local_graphic_def char_left_def demo_draw_def glyph_of_request_def
  bit_Suc_0_iff

text \<open>
  Claim C10. With the normal font and the font of the style loaded:
  for a character outside the ranges of the local graphics, \<^verbatim>\<open>_vte_draw_get_char_edges\<close>
  returns right = left + w, where w is the width that the cache of the style's font has
  (or now gets) for the character, and left is the left spacing (plus the right spacing
  when the cell has 2 columns) when w is at most the normal font's width times the
  columns, half of what is left of the cell's width times the columns when w is at most
  that, and 0 otherwise. For a character inside the ranges it returns 0 and the cell's
  width times the columns, and this for every draw, style and world, which it leaves as
  they are: the cache is not asked.
\<close>

theorem char_edges:
  assumes "fonts draw VTE_DRAW_NORMAL = Some n" "style < 4" "fonts draw style = Some p"
    and "heap w p = Some info" "heap w n = Some normal_info"
  shows "vte_draw_get_char_edges env draw c columns style w =
     (if vte_draw_unichar_is_local_graphic c then Some ((0, cell_width draw * columns), w)
      else
        (let gw = uint (uinfo_width (fst (font_info_get_unistr_info env info c)));
             left = (if gw \<le> width normal_info * columns
                     then border_left (char_spacing draw)
                            + (if columns = 2 then border_right (char_spacing draw) else 0)
                     else if gw \<le> cell_width draw * columns
                     then (cell_width draw * columns - gw) div 2
                     else 0)
         in Some ((left, left + gw),
                  w\<lparr>heap := (heap w)(p \<mapsto> snd (font_info_get_unistr_info env info c))\<rparr>)))
   \<and> (if vte_draw_unichar_is_local_graphic c
      then \<forall>draw' style' w'. vte_draw_get_char_edges env draw' c columns style' w' =
             Some ((0, cell_width draw' * columns), w')
      else True)"
proof (cases "vte_draw_unichar_is_local_graphic c")
  case True
  then show ?thesis by (simp add: vte_draw_get_char_edges_def)
next
  case False
  show ?thesis
    using char_edges_text[OF False assms, of env columns] False
    by (simp add: char_left_def Let_def)
qed

text \<open>The theorem for \<open>A\<close> in one column and for the box drawing character U+2500 in two
  columns, on the demo draw.\<close>

theorem char_edges_witness:
  "fonts demo_draw VTE_DRAW_NORMAL = Some 1 \<and> heap demo_world 1 = Some demo_font_info
   \<and> map_option fst (vte_draw_get_char_edges demo_pango demo_draw 0x41 1 0 demo_world) = Some (0, 8)
   \<and> vte_draw_get_char_edges demo_pango demo_draw 0x2500 2 0 demo_world = Some ((0, 16), demo_world)"
  using char_edges[OF demo_live(1,3,2,4,4), of demo_pango "0x41" 1]
        char_edges[OF demo_live(1,3,2,4,4), of demo_pango "0x2500" 2] demo_live(1,4)
  by (simp add: draw_eval)


lemma emit_all_single:
  "item \<noteq> Item_unknown \<Longrightarrow>
   length (single_draw_calls (emit_all [item])) + length (batched_glyphs (emit_all [item])) = 1"
  by (cases item) (simp_all add: emit_all_def)

lemma has_char_live:
  assumes "fonts draw VTE_DRAW_NORMAL = Some n" "style < 4" "fonts draw style = Some p"
    and "heap w p = Some info"
  shows "vte_draw_has_char env draw c style w =
     Some (\<not> has_unknown_chars (fst (font_info_get_unistr_info env info c)),
           w\<lparr>heap := (heap w)(p \<mapsto> snd (font_info_get_unistr_info env info c))\<rparr>)"
  using assms by (simp add: vte_draw_has_char_def get_at_live)

lemma draw_text_live:
  assumes n: "fonts draw VTE_DRAW_NORMAL = Some n" and st: "style < 4" "fonts draw style = Some p"
    and live: "heap w p = Some info" "heap w n = Some normal_info" and cr: "cr draw \<noteq> None"
  shows "vte_draw_text env draw reqs attr color alpha style w =
     Some (w\<lparr>heap := (heap w)(p \<mapsto> classify_all env info (drawn_chars env reqs)),
             cairo_ops := cairo_ops w @ [Cairo_set_source_rgba color alpha, Cairo_set_operator_over]
                @ emit_all (map (resolve_request env draw attr color info normal_info) reqs)\<rparr>)"
  using cr text_internal[OF n st live cr] by (simp add: vte_draw_text_def)

lemma resolve_mirrored:
  "resolve_request env draw attr color info normal_info
     (request\<lparr>req_c := request_char env request, req_mirror := False\<rparr>)
   = resolve_request env draw attr color info normal_info request"
  "drawn_chars env [request\<lparr>req_c := request_char env request, req_mirror := False\<rparr>]
   = drawn_chars env [request]"
  by (simp_all add: resolve_request_def request_char_def drawn_chars_def Let_def)

text \<open>\<^verbatim>\<open>_vte_draw_char\<close> with the fonts loaded: the flag of the request's own character
  decides, and the operations are those of \<^verbatim>\<open>_vte_draw_text\<close> for the request.\<close>

lemma draw_char_live:
  assumes n: "fonts draw VTE_DRAW_NORMAL = Some n" and st: "style < 4" "fonts draw style = Some p"
    and live: "heap w p = Some info" "heap w n = Some normal_info" and cr: "cr draw \<noteq> None"
  shows "\<exists>w1. vte_draw_char env draw request attr color alpha style w =
             Some (\<not> has_unknown_chars (fst (font_info_get_unistr_info env info (req_c request))), w1)
         \<and> (if has_unknown_chars (fst (font_info_get_unistr_info env info (req_c request)))
            then w1 = w\<lparr>heap := (heap w)(p \<mapsto> snd (font_info_get_unistr_info env info (req_c request)))\<rparr>
            else vte_draw_text env draw [request] attr color alpha style
                   (w\<lparr>heap := (heap w)(p \<mapsto> snd (font_info_get_unistr_info env info (req_c request)))\<rparr>)
                 = Some w1)
         \<and> cairo_ops w1 =
             (if has_unknown_chars (fst (font_info_get_unistr_info env info (req_c request)))
              then cairo_ops w
              else cairo_ops w @ [Cairo_set_source_rgba color alpha, Cairo_set_operator_over]
                     @ emit_all [resolve_request env draw attr color info normal_info request])"
proof -
  let ?c = "req_c request"
  let ?info1 = "snd (font_info_get_unistr_info env info ?c)"
  let ?w1 = "w\<lparr>heap := (heap w)(p \<mapsto> ?info1)\<rparr>"
  let ?n1 = "if n = p then ?info1 else normal_info"
  let ?item = "resolve_request env draw attr color info normal_info request"
  have hc: "vte_draw_has_char env draw ?c style w =
      Some (\<not> has_unknown_chars (fst (font_info_get_unistr_info env info ?c)), ?w1)"
    by (rule has_char_live[OF n st live(1)])
  have l1: "heap ?w1 p = Some ?info1" "heap ?w1 n = Some ?n1" using live by auto
  have nw: "width ?n1 = width normal_info" "ascent ?n1 = ascent normal_info"
    using live by auto
  have item1: "resolve_request env draw attr color ?info1 ?n1 request = ?item"
    by (rule resolve_stable[OF nw])
  note dt1 = draw_text_live[OF n st l1 cr, of env "[request]" attr color alpha, simplified item1 list.map]
  show ?thesis
  proof (cases "has_unknown_chars (fst (font_info_get_unistr_info env info ?c))")
    case True
    have "vte_draw_char env draw request attr color alpha style w = Some (False, ?w1)"
      using True by (simp add: vte_draw_char_def hc)
    then show ?thesis using True by simp
  next
    case False
    obtain w1 where w1: "vte_draw_text env draw [request] attr color alpha style ?w1 = Some w1"
      "cairo_ops w1 = cairo_ops w @ [Cairo_set_source_rgba color alpha, Cairo_set_operator_over]
                     @ emit_all [?item]"
      using dt1 by simp
    have "vte_draw_char env draw request attr color alpha style w = Some (True, w1)"
      using False w1(1) by (simp add: vte_draw_char_def hc)
    then show ?thesis using False w1 by simp
  qed
qed

text \<open>
  Claim C9, as the code has it. With the fonts loaded and a cairo context set,
  \<^verbatim>\<open>_vte_draw_char\<close> returns, and what it returns is what \<^verbatim>\<open>_vte_draw_has_char\<close> returns for
  the request's own character \<open>c\<close>: the negation of the flag \<open>has_unknown_chars\<close> that the
  cache of the style's font has (or now gets) for \<open>c\<close>. When the flag is set nothing is
  added to the cairo operations; when it is not, \<^verbatim>\<open>_vte_draw_text\<close> is called for the one
  request and its operations are added: so operations are added exactly when the flag of
  \<open>c\<close> is not set. \<^verbatim>\<open>_vte_draw_text\<close> itself adds these operations whatever the flag is.
  They are the operations for the character that the request is drawn as, which is \<open>c\<close>
  when the request asks for no mirroring and the mirror image of \<open>c\<close> when it does:
  drawing the request is drawing the request for that character without mirroring. They
  draw exactly one character: they hold one draw call of its own or one batched glyph.
\<close>

theorem draw_char_has_char:
  assumes n: "fonts draw VTE_DRAW_NORMAL = Some n" and st: "style < 4" "fonts draw style = Some p"
    and live: "heap w p = Some info" "heap w n = Some normal_info" and cr: "cr draw \<noteq> None"
  shows "\<exists>w1 w2 w3.
           vte_draw_has_char env draw (req_c request) style w =
             Some (\<not> has_unknown_chars (fst (font_info_get_unistr_info env info (req_c request))), w3)
         \<and> cairo_ops w3 = cairo_ops w
         \<and> vte_draw_char env draw request attr color alpha style w =
             Some (\<not> has_unknown_chars (fst (font_info_get_unistr_info env info (req_c request))), w1)
         \<and> (if has_unknown_chars (fst (font_info_get_unistr_info env info (req_c request)))
            then w1 = w3
            else vte_draw_text env draw [request] attr color alpha style w3 = Some w1)
         \<and> cairo_ops w1 =
             (if has_unknown_chars (fst (font_info_get_unistr_info env info (req_c request)))
              then cairo_ops w
              else cairo_ops w @ [Cairo_set_source_rgba color alpha, Cairo_set_operator_over]
                     @ emit_all [resolve_request env draw attr color info normal_info request])
         \<and> (cairo_ops w1 = cairo_ops w \<longleftrightarrow>
              has_unknown_chars (fst (font_info_get_unistr_info env info (req_c request))))
         \<and> vte_draw_text env draw [request] attr color alpha style w = Some w2
         \<and> cairo_ops w2 =
              cairo_ops w @ [Cairo_set_source_rgba color alpha, Cairo_set_operator_over]
                @ emit_all [resolve_request env draw attr color info normal_info request]
         \<and> vte_draw_text env draw [request\<lparr>req_c := request_char env request, req_mirror := False\<rparr>]
              attr color alpha style w = Some w2
         \<and> length (single_draw_calls (emit_all [resolve_request env draw attr color info normal_info request]))
             + length (batched_glyphs (emit_all [resolve_request env draw attr color info normal_info request]))
             = 1"
proof -
  let ?c = "req_c request"
  let ?flag = "has_unknown_chars (fst (font_info_get_unistr_info env info ?c))"
  let ?w3 = "w\<lparr>heap := (heap w)(p \<mapsto> snd (font_info_get_unistr_info env info ?c))\<rparr>"
  let ?item = "resolve_request env draw attr color info normal_info request"
  let ?w2 = "w\<lparr>heap := (heap w)(p \<mapsto> classify_all env info (drawn_chars env [request])),
             cairo_ops := cairo_ops w @ [Cairo_set_source_rgba color alpha, Cairo_set_operator_over]
                @ emit_all [?item]\<rparr>"
  have hc: "vte_draw_has_char env draw ?c style w = Some (\<not> ?flag, ?w3)"
    by (rule has_char_live[OF n st live(1)])
  have ops3: "cairo_ops ?w3 = cairo_ops w" by simp
  from draw_char_live[OF n st live cr, of env request attr color alpha] obtain w1 where
    dc: "vte_draw_char env draw request attr color alpha style w = Some (\<not> ?flag, w1)"
    and call: "if ?flag then w1 = ?w3
               else vte_draw_text env draw [request] attr color alpha style ?w3 = Some w1"
    and ops1: "cairo_ops w1 =
             (if ?flag then cairo_ops w
              else cairo_ops w @ [Cairo_set_source_rgba color alpha, Cairo_set_operator_over]
                     @ emit_all [?item])"
    by blast
  have painted: "cairo_ops w1 = cairo_ops w \<longleftrightarrow> ?flag"
    unfolding ops1 by simp
  have dt: "vte_draw_text env draw [request] attr color alpha style w = Some ?w2"
    using draw_text_live[OF n st live cr, of env "[request]" attr color alpha] by simp
  have ops2: "cairo_ops ?w2 = cairo_ops w @ [Cairo_set_source_rgba color alpha, Cairo_set_operator_over]
                @ emit_all [?item]" by simp
  have dm: "vte_draw_text env draw [request\<lparr>req_c := request_char env request, req_mirror := False\<rparr>]
              attr color alpha style w = Some ?w2"
    using draw_text_live[OF n st live cr, of env
            "[request\<lparr>req_c := request_char env request, req_mirror := False\<rparr>]" attr color alpha]
    by (simp only: list.map resolve_mirrored)
  have one: "length (single_draw_calls (emit_all [?item])) + length (batched_glyphs (emit_all [?item])) = 1"
    by (rule emit_all_single[OF resolve_known])
  show ?thesis
    apply (rule exI[of _ w1])
    apply (rule exI[of _ ?w2])
    apply (rule exI[of _ ?w3])
    apply (intro conjI)
    apply (rule hc)
    apply (rule ops3)
    apply (rule dc)
    apply (rule call)
    apply (rule ops1)
    apply (rule painted)
    apply (rule dt)
    apply (rule ops2)
    apply (rule dm)
    apply (rule one)
    done
qed

text \<open>
  Claim C9 as it is written fails for a request that asks for mirroring: the flag that
  decides is the one of the request's character, and the character that is painted is its
  mirror image. For \<open>(\<close>, mirrored to \<open>)\<close>, with a font that has \<open>(\<close> and has no glyph for
  \<open>)\<close>: \<^verbatim>\<open>_vte_draw_char\<close> returns true and paints the glyph string of \<open>)\<close>, whose flag is set;
  \<open>(\<close> is not painted.
\<close>

theorem draw_char_has_char_counterexample:
  "map_option (\<lambda>r. (fst r, cairo_ops (snd r)))
     (vte_draw_char demo_pango_mirror demo_draw ((demo_request 0x28 0)\<lparr>req_mirror := True\<rparr>)
        0 (0, 0, 0) 1 0 demo_world)
   = Some (True, [Cairo_set_source_rgba (0, 0, 0) 1, Cairo_set_operator_over,
                  Cairo_move_to 0 12,
                  Pango_cairo_show_glyph_string (Some 1) [demo_glyph 41]])
   \<and> bidi_get_mirror_char demo_pango_mirror 0x28 False = 0x29
   \<and> has_unknown_chars (fst (font_info_get_unistr_info demo_pango_mirror demo_font_info 0x29))
   \<and> \<not> has_unknown_chars (fst (font_info_get_unistr_info demo_pango_mirror demo_font_info 0x28))"
proof -
  have u: "\<not> has_unknown_chars (fst (font_info_get_unistr_info demo_pango_mirror demo_font_info
             (req_c ((demo_request 0x28 0)\<lparr>req_mirror := True\<rparr>))))"
    "has_unknown_chars (fst (font_info_get_unistr_info demo_pango_mirror demo_font_info 0x29))"
    "\<not> has_unknown_chars (fst (font_info_get_unistr_info demo_pango_mirror demo_font_info 0x28))"
    "bidi_get_mirror_char demo_pango_mirror 0x28 False = 0x29"
    by (simp_all add: draw_eval demo_pango_mirror_def)
  have i: "resolve_request demo_pango_mirror demo_draw 0 (0, 0, 0) demo_font_info demo_font_info
             ((demo_request 0x28 0)\<lparr>req_mirror := True\<rparr>)
           = Item_glyph_string 0 12 (Some 1) [demo_glyph 41]"
    by (simp add: draw_eval demo_pango_mirror_def)
  have ops: "cairo_ops demo_world = []" by (simp add: demo_world_def empty_world_def)
  from draw_char_live[OF demo_live(1,3,2,4,4,5), of demo_pango_mirror
         "(demo_request 0x28 0)\<lparr>req_mirror := True\<rparr>" 0 "(0, 0, 0)" 1]
  obtain w1 where r:
    "vte_draw_char demo_pango_mirror demo_draw ((demo_request 0x28 0)\<lparr>req_mirror := True\<rparr>)
        0 (0, 0, 0) 1 0 demo_world = Some (True, w1)"
    "cairo_ops w1 = [Cairo_set_source_rgba (0, 0, 0) 1, Cairo_set_operator_over]
                     @ emit_all [Item_glyph_string 0 12 (Some 1) [demo_glyph 41]]"
    unfolding i ops by (simp only: u if_False simp_thms append_Nil) blast
  show ?thesis
    unfolding r(1) using u(2,3,4) r(2) by (simp add: emit_all_def)
qed

text \<open>The theorem for \<open>A\<close> on the demo draw, with the demo Pango and with the one that
  reports an unknown glyph, and for \<open>(\<close> with the Pango that mirrors it to \<open>)\<close>.\<close>

theorem draw_char_has_char_witness:
  "fonts demo_draw VTE_DRAW_NORMAL = Some 1 \<and> heap demo_world 1 = Some demo_font_info
   \<and> cr demo_draw \<noteq> None
   \<and> (\<exists>w1. vte_draw_char demo_pango demo_draw (demo_request 0x41 0) 0 (0, 0, 0) 1 0 demo_world
               = Some (True, w1)
            \<and> cairo_ops w1 = [Cairo_set_source_rgba (0, 0, 0) 1, Cairo_set_operator_over,
                               Cairo_set_scaled_font (Some 11), Cairo_show_glyphs [(1, 0, 12)]])
   \<and> (\<exists>w1. vte_draw_char demo_pango_unknown demo_draw (demo_request 0x41 0) 0 (0, 0, 0) 1 0 demo_world
               = Some (False, w1)
            \<and> cairo_ops w1 = [])
   \<and> (\<exists>w2. vte_draw_text demo_pango_unknown demo_draw [demo_request 0x41 0] 0 (0, 0, 0) 1 0 demo_world
               = Some w2
            \<and> cairo_ops w2 = [Cairo_set_source_rgba (0, 0, 0) 1, Cairo_set_operator_over,
                               Cairo_move_to 0 12,
                               Pango_cairo_show_glyph_string (Some 1) [demo_glyph 1]])
   \<and> (\<exists>w2. vte_draw_text demo_pango_mirror demo_draw [(demo_request 0x28 0)\<lparr>req_mirror := True\<rparr>]
               0 (0, 0, 0) 1 0 demo_world = Some w2
            \<and> vte_draw_text demo_pango_mirror demo_draw [demo_request 0x29 0]
               0 (0, 0, 0) 1 0 demo_world = Some w2)"
proof -
  have u: "has_unknown_chars (fst (font_info_get_unistr_info demo_pango_unknown demo_font_info
             (req_c (demo_request 0x41 0))))"
    "\<not> has_unknown_chars (fst (font_info_get_unistr_info demo_pango demo_font_info
             (req_c (demo_request 0x41 0))))"
    by (simp_all add: draw_eval)
  have i: "resolve_request demo_pango demo_draw 0 (0, 0, 0) demo_font_info demo_font_info
             (demo_request 0x41 0) = Item_glyph 11 (1, 0, 12)"
    "resolve_request demo_pango_unknown demo_draw 0 (0, 0, 0) demo_font_info demo_font_info
             (demo_request 0x41 0) = Item_glyph_string 0 12 (Some 1) [demo_glyph 1]"
    by (simp_all add: draw_eval)
  have ops: "cairo_ops demo_world = []" by (simp add: demo_world_def empty_world_def)
  have m: "(demo_request 0x28 0)\<lparr>req_mirror := True,
              req_c := request_char demo_pango_mirror ((demo_request 0x28 0)\<lparr>req_mirror := True\<rparr>),
              req_mirror := False\<rparr> = demo_request 0x29 0"
    by (simp add: demo_request_def request_char_def demo_pango_mirror_def demo_pango_def)
  from draw_char_has_char[OF demo_live(1,3,2,4,4,5), of demo_pango "demo_request 0x41 0" 0 "(0, 0, 0)" 1]
  obtain w1 where a: "vte_draw_char demo_pango demo_draw (demo_request 0x41 0) 0 (0, 0, 0) 1 0 demo_world
               = Some (True, w1)"
    "cairo_ops w1 = [Cairo_set_source_rgba (0, 0, 0) 1, Cairo_set_operator_over]
                      @ emit_all [Item_glyph 11 (1, 0, 12)]"
    unfolding i ops by (simp only: u if_False simp_thms append_Nil) (elim exE conjE, rule that)
  from draw_char_has_char[OF demo_live(1,3,2,4,4,5), of demo_pango_unknown "demo_request 0x41 0" 0 "(0, 0, 0)" 1]
  obtain w1' w2 where b: "vte_draw_char demo_pango_unknown demo_draw (demo_request 0x41 0) 0 (0, 0, 0) 1 0 demo_world
               = Some (False, w1')"
    "cairo_ops w1' = []"
    "vte_draw_text demo_pango_unknown demo_draw [demo_request 0x41 0] 0 (0, 0, 0) 1 0 demo_world = Some w2"
    "cairo_ops w2 = [Cairo_set_source_rgba (0, 0, 0) 1, Cairo_set_operator_over]
                      @ emit_all [Item_glyph_string 0 12 (Some 1) [demo_glyph 1]]"
    unfolding i ops by (simp only: u if_True simp_thms append_Nil) (elim exE conjE, rule that)
  from draw_char_has_char[OF demo_live(1,3,2,4,4,5), of demo_pango_mirror
         "(demo_request 0x28 0)\<lparr>req_mirror := True\<rparr>" 0 "(0, 0, 0)" 1]
  obtain w3 where c:
    "vte_draw_text demo_pango_mirror demo_draw [(demo_request 0x28 0)\<lparr>req_mirror := True\<rparr>]
               0 (0, 0, 0) 1 0 demo_world = Some w3"
    "vte_draw_text demo_pango_mirror demo_draw [demo_request 0x29 0]
               0 (0, 0, 0) 1 0 demo_world = Some w3"
    unfolding m by (elim exE conjE) (rule that)
  have a2: "cairo_ops w1 = [Cairo_set_source_rgba (0, 0, 0) 1, Cairo_set_operator_over,
                               Cairo_set_scaled_font (Some 11), Cairo_show_glyphs [(1, 0, 12)]]"
    unfolding a(2) by (simp add: emit_all_def)
  have b2: "cairo_ops w2 = [Cairo_set_source_rgba (0, 0, 0) 1, Cairo_set_operator_over,
                               Cairo_move_to 0 12,
                               Pango_cairo_show_glyph_string (Some 1) [demo_glyph 1]]"
    unfolding b(4) by (simp add: emit_all_def)
  show ?thesis
    using demo_live(1,4,5) a(1) a2 b(1,2,3) b2 c by blast
qed

text \<open>
  Claim C1, as the code has it. With the fonts loaded and a cairo context set,
  \<^verbatim>\<open>_vte_draw_text_internal\<close> returns for every list of requests. One round of its loop,
  from any \<^verbatim>\<open>last_scaled_font\<close> and any pending glyphs: at a request whose character is a
  local graphic, a layout line or a glyph string the loop paints the request at once (for
  the last two, \<^verbatim>\<open>cairo_move_to\<close> and then the draw call) and goes on with the same
  \<^verbatim>\<open>last_scaled_font\<close> and the same pending glyphs, which are not shown; at a request whose
  character is a cairo glyph it shows the pending glyphs, if there are any, when the
  scaled font is not \<^verbatim>\<open>last_scaled_font\<close> or when \<^verbatim>\<open>MAX_RUN_LENGTH\<close> glyphs are pending, and
  the glyph of the request starts the next run; otherwise it shows nothing and the glyph
  is added to the pending ones. After the loop the pending glyphs are shown, if there are
  any. Of all the operations, the draw calls of the requests that are not cairo glyphs
  come in the order of the requests, and the glyphs of all the runs, taken together,
  come in the order of the requests.
\<close>

theorem draw_order:
  assumes n: "fonts draw VTE_DRAW_NORMAL = Some n" and st: "style < 4" "fonts draw style = Some p"
    and live: "heap w p = Some info" "heap w n = Some normal_info" and cr: "cr draw \<noteq> None"
  shows "\<exists>w'. vte_draw_text_internal env draw reqs attr color alpha style w = Some w'
         \<and> cairo_ops w' =
              cairo_ops w @ [Cairo_set_source_rgba color alpha, Cairo_set_operator_over]
                @ emit_all (map (resolve_request env draw attr color info normal_info) reqs)
         \<and> single_draw_calls (cairo_ops w')
              = single_draw_calls (cairo_ops w)
                @ concat (map (\<lambda>r. item_single_draw_call
                                       (resolve_request env draw attr color info normal_info r)) reqs)
         \<and> batched_glyphs (cairo_ops w')
              = batched_glyphs (cairo_ops w)
                @ concat (map (\<lambda>r. item_glyph
                                       (resolve_request env draw attr color info normal_info r)) reqs)
         \<and> (\<forall>r rs lsf g c a co x y wd cols h.
               resolve_request env draw attr color info normal_info r
                 = Item_graphic c a co x y wd cols h \<longrightarrow>
               draw_text_loop env draw attr color style p (r # rs) lsf g w =
               draw_text_loop env draw attr color style p rs lsf g
                 (cairo [Terminal_draw_graphic c a co x y wd cols h] w))
         \<and> (\<forall>r rs lsf g x y line.
               resolve_request env draw attr color info normal_info r = Item_layout_line x y line \<longrightarrow>
               draw_text_loop env draw attr color style p (r # rs) lsf g w =
               draw_text_loop env draw attr color style p rs lsf g
                 (cairo [Cairo_move_to x y, Pango_cairo_show_layout_line line]
                    (w\<lparr>heap := (heap w)(p \<mapsto> snd (font_info_get_unistr_info env info
                                                       (request_char env r)))\<rparr>)))
         \<and> (\<forall>r rs lsf g x y font glyph_string.
               resolve_request env draw attr color info normal_info r
                 = Item_glyph_string x y font glyph_string \<longrightarrow>
               draw_text_loop env draw attr color style p (r # rs) lsf g w =
               draw_text_loop env draw attr color style p rs lsf g
                 (cairo [Cairo_move_to x y, Pango_cairo_show_glyph_string font glyph_string]
                    (w\<lparr>heap := (heap w)(p \<mapsto> snd (font_info_get_unistr_info env info
                                                       (request_char env r)))\<rparr>)))
         \<and> (\<forall>r rs lsf g scaled_font gl.
               resolve_request env draw attr color info normal_info r = Item_glyph scaled_font gl \<longrightarrow>
               draw_text_loop env draw attr color style p (r # rs) lsf g w =
               (if lsf \<noteq> Some scaled_font \<or> length g = MAX_RUN_LENGTH
                then draw_text_loop env draw attr color style p rs (Some scaled_font) [gl]
                       (if g \<noteq> []
                        then show_glyphs lsf g
                               (w\<lparr>heap := (heap w)(p \<mapsto> snd (font_info_get_unistr_info env info
                                                                  (request_char env r)))\<rparr>)
                        else w\<lparr>heap := (heap w)(p \<mapsto> snd (font_info_get_unistr_info env info
                                                                (request_char env r)))\<rparr>)
                else draw_text_loop env draw attr color style p rs lsf (g @ [gl])
                       (w\<lparr>heap := (heap w)(p \<mapsto> snd (font_info_get_unistr_info env info
                                                          (request_char env r)))\<rparr>)))
         \<and> (\<forall>lsf g w1.
               draw_text_loop env draw attr color style p reqs None []
                 (cairo [Cairo_set_source_rgba color alpha, Cairo_set_operator_over] w)
                 = Some (lsf, g, w1) \<longrightarrow>
               w' = (if g \<noteq> [] then show_glyphs lsf g w1 else w1))"
proof -
  let ?items = "map (resolve_request env draw attr color info normal_info) reqs"
  let ?w' = "w\<lparr>heap := (heap w)(p \<mapsto> classify_all env info (drawn_chars env reqs)),
             cairo_ops := cairo_ops w @ [Cairo_set_source_rgba color alpha, Cairo_set_operator_over]
                @ emit_all ?items\<rparr>"
  have res: "vte_draw_text_internal env draw reqs attr color alpha style w = Some ?w'"
    by (rule text_internal[OF n st live cr])
  have ops: "cairo_ops ?w' =
      cairo_ops w @ [Cairo_set_source_rgba color alpha, Cairo_set_operator_over] @ emit_all ?items"
    by simp
  have nu: "Item_unknown \<notin> set ?items"
    using resolve_known[of env draw attr color info normal_info] by (auto dest: sym)
  have a: "single_draw_calls (cairo_ops ?w') = single_draw_calls (cairo_ops w)
      @ concat (map (\<lambda>r. item_single_draw_call (resolve_request env draw attr color info normal_info r)) reqs)"
    unfolding ops single_draw_calls_append using emit_all_calls[OF nu] by (simp add: comp_def)
  have b: "batched_glyphs (cairo_ops ?w') = batched_glyphs (cairo_ops w)
      @ concat (map (\<lambda>r. item_glyph (resolve_request env draw attr color info normal_info r)) reqs)"
    unfolding ops batched_glyphs_append using emit_all_glyphs[OF nu] by (simp add: comp_def)
  have g: "\<forall>r rs lsf g c a co x y wd cols h.
               resolve_request env draw attr color info normal_info r
                 = Item_graphic c a co x y wd cols h \<longrightarrow>
               draw_text_loop env draw attr color style p (r # rs) lsf g w =
               draw_text_loop env draw attr color style p rs lsf g
                 (cairo [Terminal_draw_graphic c a co x y wd cols h] w)"
    using loop_Cons[OF n st live, of env attr color] by simp
  have c: "\<forall>r rs lsf g x y line.
               resolve_request env draw attr color info normal_info r = Item_layout_line x y line \<longrightarrow>
               draw_text_loop env draw attr color style p (r # rs) lsf g w =
               draw_text_loop env draw attr color style p rs lsf g
                 (cairo [Cairo_move_to x y, Pango_cairo_show_layout_line line]
                    (w\<lparr>heap := (heap w)(p \<mapsto> snd (font_info_get_unistr_info env info
                                                       (request_char env r)))\<rparr>))"
    using loop_Cons[OF n st live, of env attr color] by simp
  have d: "\<forall>r rs lsf g x y font glyph_string.
               resolve_request env draw attr color info normal_info r
                 = Item_glyph_string x y font glyph_string \<longrightarrow>
               draw_text_loop env draw attr color style p (r # rs) lsf g w =
               draw_text_loop env draw attr color style p rs lsf g
                 (cairo [Cairo_move_to x y, Pango_cairo_show_glyph_string font glyph_string]
                    (w\<lparr>heap := (heap w)(p \<mapsto> snd (font_info_get_unistr_info env info
                                                       (request_char env r)))\<rparr>))"
    using loop_Cons[OF n st live, of env attr color] by simp
  have e: "\<forall>r rs lsf g scaled_font gl.
               resolve_request env draw attr color info normal_info r = Item_glyph scaled_font gl \<longrightarrow>
               draw_text_loop env draw attr color style p (r # rs) lsf g w =
               (if lsf \<noteq> Some scaled_font \<or> length g = MAX_RUN_LENGTH
                then draw_text_loop env draw attr color style p rs (Some scaled_font) [gl]
                       (if g \<noteq> []
                        then show_glyphs lsf g
                               (w\<lparr>heap := (heap w)(p \<mapsto> snd (font_info_get_unistr_info env info
                                                                  (request_char env r)))\<rparr>)
                        else w\<lparr>heap := (heap w)(p \<mapsto> snd (font_info_get_unistr_info env info
                                                                (request_char env r)))\<rparr>)
                else draw_text_loop env draw attr color style p rs lsf (g @ [gl])
                       (w\<lparr>heap := (heap w)(p \<mapsto> snd (font_info_get_unistr_info env info
                                                          (request_char env r)))\<rparr>))"
    using loop_Cons[OF n st live, of env attr color] by simp
  have f: "\<forall>lsf g w1.
               draw_text_loop env draw attr color style p reqs None []
                 (cairo [Cairo_set_source_rgba color alpha, Cairo_set_operator_over] w)
                 = Some (lsf, g, w1) \<longrightarrow>
               ?w' = (if g \<noteq> [] then show_glyphs lsf g w1 else w1)"
  proof (intro allI impI)
    fix lsf g w1
    assume "draw_text_loop env draw attr color style p reqs None []
                 (cairo [Cairo_set_source_rgba color alpha, Cairo_set_operator_over] w)
                 = Some (lsf, g, w1)"
    then have "vte_draw_text_internal env draw reqs attr color alpha style w
                 = Some (if g \<noteq> [] then show_glyphs lsf g w1 else w1)"
      using st cr by (simp add: vte_draw_text_internal_def)
    then show "?w' = (if g \<noteq> [] then show_glyphs lsf g w1 else w1)"
      using res by simp
  qed
  show ?thesis
    apply (rule exI[of _ ?w'])
    apply (intro conjI)
    apply (rule res)
    apply (rule ops)
    apply (rule a)
    apply (rule b)
    apply (rule g)
    apply (rule c)
    apply (rule d)
    apply (rule e)
    apply (rule f)
    done
qed


lemma demo_items:
  "resolve_request demo_pango demo_draw 0 (0, 0, 0) demo_font_info demo_font_info
     (demo_request 0x41 x) = Item_glyph 11 (1, x, 12)"
  "resolve_request demo_pango demo_draw 0 (0, 0, 0) demo_font_info demo_font_info
     (demo_request 0x5a x) = Item_glyph_string x 12 (Some 1) [demo_glyph 90, demo_glyph 91]"
  "resolve_request demo_pango demo_draw 0 (0, 0, 0) demo_font_info demo_font_info
     (demo_request 0x57 x) = Item_layout_line x 12
        [\<lparr>analysis_font = Some 1, glyphs = [demo_glyph 87]\<rparr>,
         \<lparr>analysis_font = Some 2, glyphs = [demo_glyph 88]\<rparr>]"
  by (simp_all add: draw_eval)

lemma demo_item_B:
  "resolve_request demo_pango demo_draw 0 (0, 0, 0) demo_font_info demo_font_info
     (demo_request 0x42 x) = Item_glyph 12 (66, x, 12)"
  by (simp add: draw_eval)

text \<open>
  Claim C1 as it is written fails: the cases of the layout line and of the glyph string
  in \<^verbatim>\<open>_vte_draw_text_internal\<close> do not show the pending glyphs. For the requests \<open>A\<close>
  (a cairo glyph) and then \<open>Z\<close> (a glyph string), the glyph string of the second request
  is shown first and the run that holds the glyph of the first request after it.
\<close>

theorem draw_order_counterexample:
  "map_option cairo_ops
     (vte_draw_text_internal demo_pango demo_draw [demo_request 0x41 0, demo_request 0x5a 8]
        0 (0, 0, 0) 1 0 demo_world) =
   Some [Cairo_set_source_rgba (0, 0, 0) 1, Cairo_set_operator_over,
         Cairo_move_to 8 12,
         Pango_cairo_show_glyph_string (Some 1) [demo_glyph 90, demo_glyph 91],
         Cairo_set_scaled_font (Some 11), Cairo_show_glyphs [(1, 0, 12)]]"
  using text_internal[OF demo_live(1,3,2,4,4,5), of demo_pango
          "[demo_request 0x41 0, demo_request 0x5a 8]" 0 "(0, 0, 0)" 1]
  by (simp add: demo_items emit_all_def demo_world_def empty_world_def)

text \<open>The theorem above for the requests \<open>A\<close>, \<open>Z\<close>, \<open>A\<close>, \<open>W\<close> on the demo draw, and for
  the requests \<open>A\<close>, \<open>B\<close>, \<open>Z\<close>, where \<open>B\<close> has another scaled font than \<open>A\<close>: there the run
  with the glyph of \<open>A\<close> is shown before the glyph string of \<open>Z\<close>, and the run with the glyph
  of \<open>B\<close> after it.\<close>

theorem draw_order_witness:
  "fonts demo_draw VTE_DRAW_NORMAL = Some 1 \<and> heap demo_world 1 = Some demo_font_info
   \<and> cr demo_draw \<noteq> None
   \<and> (\<exists>w'. vte_draw_text_internal demo_pango demo_draw
               [demo_request 0x41 0, demo_request 0x5a 8, demo_request 0x41 16, demo_request 0x57 24]
               0 (0, 0, 0) 1 0 demo_world = Some w'
            \<and> single_draw_calls (cairo_ops w') =
                 [Pango_cairo_show_glyph_string (Some 1) [demo_glyph 90, demo_glyph 91],
                  Pango_cairo_show_layout_line
                    [\<lparr>analysis_font = Some 1, glyphs = [demo_glyph 87]\<rparr>,
                     \<lparr>analysis_font = Some 2, glyphs = [demo_glyph 88]\<rparr>]]
            \<and> batched_glyphs (cairo_ops w') = [(1, 0, 12), (1, 16, 12)])
   \<and> (\<exists>w'. vte_draw_text_internal demo_pango demo_draw
               [demo_request 0x41 0, demo_request 0x42 8, demo_request 0x5a 16]
               0 (0, 0, 0) 1 0 demo_world = Some w'
            \<and> cairo_ops w' =
                 [Cairo_set_source_rgba (0, 0, 0) 1, Cairo_set_operator_over,
                  Cairo_set_scaled_font (Some 11), Cairo_show_glyphs [(1, 0, 12)],
                  Cairo_move_to 16 12,
                  Pango_cairo_show_glyph_string (Some 1) [demo_glyph 90, demo_glyph 91],
                  Cairo_set_scaled_font (Some 12), Cairo_show_glyphs [(66, 8, 12)]])"
proof -
  have ops: "cairo_ops demo_world = []" by (simp add: demo_world_def empty_world_def)
  obtain w' where r: "vte_draw_text_internal demo_pango demo_draw
               [demo_request 0x41 0, demo_request 0x5a 8, demo_request 0x41 16, demo_request 0x57 24]
               0 (0, 0, 0) 1 0 demo_world = Some w'"
     "single_draw_calls (cairo_ops w')
       = single_draw_calls (cairo_ops demo_world)
         @ concat (map (\<lambda>r. item_single_draw_call
                                     (resolve_request demo_pango demo_draw 0 (0, 0, 0) demo_font_info demo_font_info r))
                    [demo_request 0x41 0, demo_request 0x5a 8, demo_request 0x41 16, demo_request 0x57 24])"
     "batched_glyphs (cairo_ops w')
       = batched_glyphs (cairo_ops demo_world)
         @ concat (map (\<lambda>r. item_glyph
                                     (resolve_request demo_pango demo_draw 0 (0, 0, 0) demo_font_info demo_font_info r))
                    [demo_request 0x41 0, demo_request 0x5a 8, demo_request 0x41 16, demo_request 0x57 24])"
    using draw_order[OF demo_live(1,3,2,4,4,5), of demo_pango
        "[demo_request 0x41 0, demo_request 0x5a 8, demo_request 0x41 16, demo_request 0x57 24]"
        0 "(0, 0, 0)" 1]
    by (elim exE conjE) (rule that)
  have s: "single_draw_calls (cairo_ops w') =
                 [Pango_cairo_show_glyph_string (Some 1) [demo_glyph 90, demo_glyph 91],
                  Pango_cairo_show_layout_line
                    [\<lparr>analysis_font = Some 1, glyphs = [demo_glyph 87]\<rparr>,
                     \<lparr>analysis_font = Some 2, glyphs = [demo_glyph 88]\<rparr>]]"
    unfolding r(2) ops by (simp add: demo_items)
  have b: "batched_glyphs (cairo_ops w') = [(1, 0, 12), (1, 16, 12)]"
    unfolding r(3) ops by (simp add: demo_items)
  obtain w2 where r2: "vte_draw_text_internal demo_pango demo_draw
               [demo_request 0x41 0, demo_request 0x42 8, demo_request 0x5a 16]
               0 (0, 0, 0) 1 0 demo_world = Some w2"
     "cairo_ops w2 = cairo_ops demo_world @ [Cairo_set_source_rgba (0, 0, 0) 1, Cairo_set_operator_over]
                @ emit_all (map (resolve_request demo_pango demo_draw 0 (0, 0, 0) demo_font_info demo_font_info)
                    [demo_request 0x41 0, demo_request 0x42 8, demo_request 0x5a 16])"
    using draw_order[OF demo_live(1,3,2,4,4,5), of demo_pango
        "[demo_request 0x41 0, demo_request 0x42 8, demo_request 0x5a 16]"
        0 "(0, 0, 0)" 1]
    by (elim exE conjE) (rule that)
  have t: "cairo_ops w2 =
                 [Cairo_set_source_rgba (0, 0, 0) 1, Cairo_set_operator_over,
                  Cairo_set_scaled_font (Some 11), Cairo_show_glyphs [(1, 0, 12)],
                  Cairo_move_to 16 12,
                  Pango_cairo_show_glyph_string (Some 1) [demo_glyph 90, demo_glyph 91],
                  Cairo_set_scaled_font (Some 12), Cairo_show_glyphs [(66, 8, 12)]]"
    unfolding r2(2) ops by (simp add: demo_items demo_item_B emit_all_def MAX_RUN_LENGTH_def)
  show ?thesis using r(1) s b r2(1) t demo_live(1,4,5) by blast
qed

lemma map_ext_items:
  "(\<And>r. r \<in> set rs \<Longrightarrow> f r = Item_glyph sf (h r)) \<Longrightarrow> map f rs = map (Item_glyph sf) (map h rs)"
  by (induction rs) simp_all

text \<open>
  Claim C6. With the fonts loaded and a cairo context set: for requests whose characters
  are all cairo glyphs of one scaled font, followed by requests (there may be none)
  whose characters are all cairo glyphs of another scaled font,
  \<^verbatim>\<open>_vte_draw_text_internal\<close> returns and shows the glyphs of the first requests in runs of
  \<^verbatim>\<open>MAX_RUN_LENGTH\<close> = 100 and then the glyphs of the others in such runs. For \<open>n\<close>
  requests of one scaled font that is \<open>(n + 99) div 100\<close> runs, the ceiling of \<open>n / 100\<close>;
  the runs, one after the other, are the glyphs of the requests in their order and at
  their positions, and no run is empty or longer than 100.
\<close>

theorem batching:
  assumes n: "fonts draw VTE_DRAW_NORMAL = Some n" and st: "style < 4" "fonts draw style = Some p"
    and live: "heap w p = Some info" "heap w n = Some normal_info" and cr: "cr draw \<noteq> None"
    and one: "\<forall>r \<in> set reqs1. \<not> vte_draw_unichar_is_local_graphic (request_char env r)
               \<and> (\<exists>gi. ufi (fst (font_info_get_unistr_info env info (request_char env r)))
                          = Using_cairo_glyph sf1 gi)"
    and two: "\<forall>r \<in> set reqs2. \<not> vte_draw_unichar_is_local_graphic (request_char env r)
               \<and> (\<exists>gi. ufi (fst (font_info_get_unistr_info env info (request_char env r)))
                          = Using_cairo_glyph sf2 gi)"
    and ne: "sf1 \<noteq> sf2"
  shows "\<exists>w'. vte_draw_text_internal env draw (reqs1 @ reqs2) attr color alpha style w = Some w'
         \<and> cairo_ops w' =
              cairo_ops w @ [Cairo_set_source_rgba color alpha, Cairo_set_operator_over]
                @ show_batches sf1
                    (batches MAX_RUN_LENGTH (map (glyph_of_request env draw info normal_info) reqs1))
                @ show_batches sf2
                    (batches MAX_RUN_LENGTH (map (glyph_of_request env draw info normal_info) reqs2))
         \<and> length (batches MAX_RUN_LENGTH (map (glyph_of_request env draw info normal_info) reqs1))
              = (length reqs1 + 99) div 100
         \<and> concat (batches MAX_RUN_LENGTH (map (glyph_of_request env draw info normal_info) reqs1))
              = map (glyph_of_request env draw info normal_info) reqs1
         \<and> (\<forall>b \<in> set (batches MAX_RUN_LENGTH (map (glyph_of_request env draw info normal_info) reqs1)).
               0 < length b \<and> length b \<le> 100)
         \<and> length (batches MAX_RUN_LENGTH (map (glyph_of_request env draw info normal_info) reqs2))
              = (length reqs2 + 99) div 100
         \<and> concat (batches MAX_RUN_LENGTH (map (glyph_of_request env draw info normal_info) reqs2))
              = map (glyph_of_request env draw info normal_info) reqs2
         \<and> (\<forall>b \<in> set (batches MAX_RUN_LENGTH (map (glyph_of_request env draw info normal_info) reqs2)).
               0 < length b \<and> length b \<le> 100)"
proof -
  have m: "0 < MAX_RUN_LENGTH" "MAX_RUN_LENGTH = 100" by (simp_all add: MAX_RUN_LENGTH_def)
  have i1: "map (resolve_request env draw attr color info normal_info) reqs1 =
            map (Item_glyph sf1) (map (glyph_of_request env draw info normal_info) reqs1)"
  proof (rule map_ext_items)
    fix r assume "r \<in> set reqs1"
    then obtain gi where "\<not> vte_draw_unichar_is_local_graphic (request_char env r)"
      "ufi (fst (font_info_get_unistr_info env info (request_char env r))) = Using_cairo_glyph sf1 gi"
      using one by blast
    then show "resolve_request env draw attr color info normal_info r =
        Item_glyph sf1 (glyph_of_request env draw info normal_info r)"
      by (rule resolve_glyph)
  qed
  have i2: "map (resolve_request env draw attr color info normal_info) reqs2 =
            map (Item_glyph sf2) (map (glyph_of_request env draw info normal_info) reqs2)"
  proof (rule map_ext_items)
    fix r assume "r \<in> set reqs2"
    then obtain gi where "\<not> vte_draw_unichar_is_local_graphic (request_char env r)"
      "ufi (fst (font_info_get_unistr_info env info (request_char env r))) = Using_cairo_glyph sf2 gi"
      using two by blast
    then show "resolve_request env draw attr color info normal_info r =
        Item_glyph sf2 (glyph_of_request env draw info normal_info r)"
      by (rule resolve_glyph)
  qed
  have e: "emit_all (map (resolve_request env draw attr color info normal_info) (reqs1 @ reqs2)) =
      show_batches sf1 (batches MAX_RUN_LENGTH (map (glyph_of_request env draw info normal_info) reqs1))
      @ show_batches sf2 (batches MAX_RUN_LENGTH (map (glyph_of_request env draw info normal_info) reqs2))"
    unfolding map_append i1 i2 by (rule emit_all_two_runs[OF ne])
  have sz: "0 < length b \<and> length b \<le> 100" if "b \<in> set (batches MAX_RUN_LENGTH xs)"
    for b :: "(32 word \<times> int \<times> int) list" and xs
    using batch_sizes[OF that] m(2) by simp
  have len: "length (batches MAX_RUN_LENGTH (map f xs)) = (length xs + 99) div 100"
    for f :: "vte_draw_text_request \<Rightarrow> 32 word \<times> int \<times> int" and xs
    using length_batches[OF m(1), of "map f xs"] by (simp add: m(2))
  show ?thesis
    using text_internal[OF n st live cr, of env "reqs1 @ reqs2" attr color alpha]
      concat_batches[OF m(1)] sz len
    unfolding e
    by (intro exI[of _ "w\<lparr>heap := (heap w)(p \<mapsto> classify_all env info (drawn_chars env (reqs1 @ reqs2))),
             cairo_ops := cairo_ops w @ [Cairo_set_source_rgba color alpha, Cairo_set_operator_over]
                @ show_batches sf1 (batches MAX_RUN_LENGTH (map (glyph_of_request env draw info normal_info) reqs1))
      @ show_batches sf2 (batches MAX_RUN_LENGTH (map (glyph_of_request env draw info normal_info) reqs2))\<rparr>"]
           conjI ballI) simp_all
qed


lemma length_show_batches: "length (show_batches sf bs) = 2 * length bs"
  by (induction bs) (simp_all add: show_batches_def)

text \<open>The theorem for 150 requests of \<open>A\<close> (scaled font 11) followed by 3 requests of \<open>B\<close>
  (scaled font 12), on the demo draw: two runs and one run, eight cairo operations.\<close>

theorem batching_witness:
  "fonts demo_draw VTE_DRAW_NORMAL = Some 1 \<and> heap demo_world 1 = Some demo_font_info
   \<and> cr demo_draw \<noteq> None
   \<and> list_all (\<lambda>r. ufi (fst (font_info_get_unistr_info demo_pango demo_font_info
                                 (request_char demo_pango r))) = Using_cairo_glyph 11 1)
        (map (\<lambda>i. demo_request 0x41 (8 * int i)) [0 ..< 150])
   \<and> list_all (\<lambda>r. ufi (fst (font_info_get_unistr_info demo_pango demo_font_info
                                 (request_char demo_pango r))) = Using_cairo_glyph 12 66)
        (map (\<lambda>i. demo_request 0x42 (8 * int i)) [150 ..< 153])
   \<and> (\<exists>w'. vte_draw_text_internal demo_pango demo_draw
               (map (\<lambda>i. demo_request 0x41 (8 * int i)) [0 ..< 150]
                @ map (\<lambda>i. demo_request 0x42 (8 * int i)) [150 ..< 153])
               0 (0, 0, 0) 1 0 demo_world = Some w'
            \<and> length (cairo_ops w') = 8
            \<and> length (batches MAX_RUN_LENGTH
                 (map (glyph_of_request demo_pango demo_draw demo_font_info demo_font_info)
                    (map (\<lambda>i. demo_request 0x41 (8 * int i)) [0 ..< 150]))) = 2
            \<and> length (batches MAX_RUN_LENGTH
                 (map (glyph_of_request demo_pango demo_draw demo_font_info demo_font_info)
                    (map (\<lambda>i. demo_request 0x42 (8 * int i)) [150 ..< 153]))) = 1)"
proof -
  let ?r1 = "map (\<lambda>i. demo_request 0x41 (8 * int i)) [0 ..< 150]"
  let ?r2 = "map (\<lambda>i. demo_request 0x42 (8 * int i)) [150 ..< 153]"
  have a: "\<not> vte_draw_unichar_is_local_graphic (request_char demo_pango (demo_request 0x41 x))"
     "ufi (fst (font_info_get_unistr_info demo_pango demo_font_info
                 (request_char demo_pango (demo_request 0x41 x)))) = Using_cairo_glyph 11 1"
     "\<not> vte_draw_unichar_is_local_graphic (request_char demo_pango (demo_request 0x42 x))"
     "ufi (fst (font_info_get_unistr_info demo_pango demo_font_info
                 (request_char demo_pango (demo_request 0x42 x)))) = Using_cairo_glyph 12 66" for x
    by (simp_all add: draw_eval)
  have one: "\<forall>r \<in> set ?r1. \<not> vte_draw_unichar_is_local_graphic (request_char demo_pango r)
               \<and> (\<exists>gi. ufi (fst (font_info_get_unistr_info demo_pango demo_font_info (request_char demo_pango r)))
                          = Using_cairo_glyph 11 gi)"
    using a(1,2) by auto
  have two: "\<forall>r \<in> set ?r2. \<not> vte_draw_unichar_is_local_graphic (request_char demo_pango r)
               \<and> (\<exists>gi. ufi (fst (font_info_get_unistr_info demo_pango demo_font_info (request_char demo_pango r)))
                          = Using_cairo_glyph 12 gi)"
    using a(3,4) by auto
  have h1: "list_all (\<lambda>r. ufi (fst (font_info_get_unistr_info demo_pango demo_font_info
                                 (request_char demo_pango r))) = Using_cairo_glyph 11 1) ?r1"
    unfolding list_all_iff using a(2) by auto
  have h2: "list_all (\<lambda>r. ufi (fst (font_info_get_unistr_info demo_pango demo_font_info
                                 (request_char demo_pango r))) = Using_cairo_glyph 12 66) ?r2"
    unfolding list_all_iff using a(4) by auto
  have ne: "(11::nat) \<noteq> 12" by simp
  have ops: "cairo_ops demo_world = []" by (simp add: demo_world_def empty_world_def)
  obtain w' where r:
    "vte_draw_text_internal demo_pango demo_draw (?r1 @ ?r2) 0 (0, 0, 0) 1 0 demo_world = Some w'"
    "cairo_ops w' =
              cairo_ops demo_world @ [Cairo_set_source_rgba (0, 0, 0) 1, Cairo_set_operator_over]
                @ show_batches 11
                    (batches MAX_RUN_LENGTH (map (glyph_of_request demo_pango demo_draw demo_font_info demo_font_info) ?r1))
                @ show_batches 12
                    (batches MAX_RUN_LENGTH (map (glyph_of_request demo_pango demo_draw demo_font_info demo_font_info) ?r2))"
    "length (batches MAX_RUN_LENGTH (map (glyph_of_request demo_pango demo_draw demo_font_info demo_font_info) ?r1))
              = (length ?r1 + 99) div 100"
    "length (batches MAX_RUN_LENGTH (map (glyph_of_request demo_pango demo_draw demo_font_info demo_font_info) ?r2))
              = (length ?r2 + 99) div 100"
    using batching[OF demo_live(1,3,2,4,4,5) one two ne, of 0 "(0, 0, 0)" 1] by blast
  have l1: "length (batches MAX_RUN_LENGTH (map (glyph_of_request demo_pango demo_draw demo_font_info demo_font_info) ?r1)) = 2"
    using r(3) by simp
  have l2: "length (batches MAX_RUN_LENGTH (map (glyph_of_request demo_pango demo_draw demo_font_info demo_font_info) ?r2)) = 1"
    using r(4) by simp
  have len: "length (cairo_ops w') = 8"
    unfolding r(2) ops length_append length_show_batches l1 l2 by simp
  show ?thesis
    using demo_live(1,4,5) h1 h2 r(1) len l1 l2 by blast
qed

subsection \<open>The fonts of a draw\<close>

lemma create_for_widget_eq:
  "font_info_create_for_widget env widget (Some desc) w =
     font_info_find_for_context env (widget_context env widget desc) w"
  by (simp add: font_info_create_for_widget_def font_info_create_for_screen_def
        font_info_create_for_context_def widget_context_def Let_def)

lemma widget_context_options: "ctx_font_options (widget_context env widget desc) \<noteq> None"
  by (simp add: widget_context_def Let_def)

lemma widget_context_fingerprint:
  "fingerprint (widget_context env widget d1) = fingerprint (widget_context env widget d2) \<longleftrightarrow> d1 = d2"
  by (simp add: widget_context_def fingerprint_def Let_def)

lemma widget_context_description [simp]:
  "ctx_font_description (widget_context env widget desc) = desc"
  by (simp add: widget_context_def Let_def)

lemma same_fonts_refl: "same_fonts w w"
  by (simp add: same_fonts_def)

lemma same_fonts_trans: "same_fonts w w1 \<Longrightarrow> same_fonts w1 w2 \<Longrightarrow> same_fonts w w2"
  unfolding same_fonts_def by (metis)

lemma same_fontsD:
  "same_fonts w w1 \<Longrightarrow> heap w q = Some info \<Longrightarrow>
   \<exists>info1. heap w1 q = Some info1 \<and> layout info1 = layout info \<and> width info1 = width info
            \<and> height info1 = height info"
  by (simp add: same_fonts_def)

lemma refs_live: "heap w p = Some info \<Longrightarrow> refs w p = ref_count info"
  by (simp add: refs_def)

lemma refs_nonneg: "registry_ok w \<Longrightarrow> 0 \<le> refs w p"
  by (auto simp: refs_def dest: ok_live split: option.splits)

lemma referenced_props:
  assumes live: "heap w p = Some info"
  shows "refs (referenced p info w) = (refs w)(p := refs w p + 1)"
    "same_fonts w (referenced p info w)"
  using live by (auto simp: refs_def same_fonts_def fun_eq_iff)

lemma allocated_props:
  assumes ok: "registry_ok w"
  shows "refs (allocated env context w) = (refs w)(Suc (last_address w) := refs w (Suc (last_address w)) + 1)"
    "same_fonts w (allocated env context w)"
    "heap w (Suc (last_address w)) = None"
proof -
  show none: "heap w (Suc (last_address w)) = None"
  proof (cases "heap w (Suc (last_address w))")
    case (Some info)
    from ok_live[OF ok Some] show ?thesis by simp
  qed simp
  show "refs (allocated env context w) = (refs w)(Suc (last_address w) := refs w (Suc (last_address w)) + 1)"
    using none by (auto simp: refs_def allocated_def fun_eq_iff allocate_props)
  show "same_fonts w (allocated env context w)"
    using none by (auto simp: same_fonts_def allocated_def)
qed

lemma released_props:
  assumes live: "heap w p = Some info" and pos: "0 < ref_count info"
  shows "refs (released p info w) = (refs w)(p := refs w p - 1)"
    "same_fonts w (released p info w)"
  using live pos by (auto simp: refs_def same_fonts_def released_def fun_eq_iff)

text \<open>A lookup for a widget: it returns, the font info is live and is the one of the
  context, one reference is added to it, and the other font infos are as before.\<close>

lemma acquire:
  assumes ok: "registry_ok w"
  shows "\<exists>p w1 info. font_info_create_for_widget env widget (Some desc) w = Some (p, w1)
           \<and> registry_ok w1 \<and> heap w1 p = Some info
           \<and> fingerprint (layout_context (layout info)) = fingerprint (widget_context env widget desc)
           \<and> refs w1 = (refs w)(p := refs w p + 1) \<and> same_fonts w w1"
proof (cases "g_hash_table_lookup env (font_info_for_context w) (widget_context env widget desc)")
  case None
  let ?p = "Suc (last_address w)"
  let ?w1 = "allocated env (widget_context env widget desc) w"
  have "font_info_create_for_widget env widget (Some desc) w = Some (?p, ?w1)"
    unfolding create_for_widget_eq by (rule find_miss[OF None])
  moreover have "registry_ok ?w1"
    by (rule allocated_ok[OF ok widget_context_options None])
  moreover have "heap ?w1 ?p = Some ((font_info_allocate env (widget_context env widget desc))\<lparr>ref_count := 1\<rparr>)"
    by (simp add: allocated_def)
  moreover have "fingerprint (layout_context (layout ((font_info_allocate env (widget_context env widget desc))\<lparr>ref_count := 1\<rparr>)))
       = fingerprint (widget_context env widget desc)"
    by (simp add: allocate_props)
  ultimately show ?thesis
    using allocated_props(1,2)[OF ok, of env "widget_context env widget desc"] by blast
next
  case (Some p)
  from lookup_Some_D[OF Some] obtain k where k: "(k, p) \<in> set (font_info_for_context w)"
    "fingerprint k = fingerprint (widget_context env widget desc)" by blast
  from ok_entry[OF ok k(1)] obtain info where live: "heap w p = Some info"
    "layout_context (layout info) = k" by blast
  let ?w1 = "referenced p info w"
  have "font_info_create_for_widget env widget (Some desc) w = Some (p, ?w1)"
    unfolding create_for_widget_eq by (rule find_hit[OF ok Some live(1)])
  moreover have "registry_ok ?w1" by (rule referenced_ok[OF ok live(1)])
  moreover have "heap ?w1 p = Some (info\<lparr>destroy_timeout := 0, ref_count := ref_count info + 1\<rparr>)"
    by simp
  moreover have "fingerprint (layout_context (layout (info\<lparr>destroy_timeout := 0, ref_count := ref_count info + 1\<rparr>)))
       = fingerprint (widget_context env widget desc)"
    using live(2) k(2) by simp
  ultimately show ?thesis
    using referenced_props[OF live(1)] by blast
qed

lemma release:
  assumes ok: "registry_ok w" and live: "heap w p = Some info" and pos: "0 < ref_count info"
  shows "font_info_destroy (Some p) w = Some (released p info w)"
    "registry_ok (released p info w)"
    "refs (released p info w) = (refs w)(p := refs w p - 1)"
    "same_fonts w (released p info w)"
  using destroy_live[OF live] released_ok[OF ok live] released_props[OF live pos] by simp_all


lemma style_values:
  "VTE_DRAW_NORMAL = 0" "VTE_DRAW_BOLD = 1" "VTE_DRAW_ITALIC = 2"
  "VTE_DRAW_NORMAL OR VTE_DRAW_BOLD = 1" "VTE_DRAW_ITALIC OR VTE_DRAW_BOLD = 3"
  by (simp_all add: VTE_DRAW_NORMAL_def VTE_DRAW_BOLD_def VTE_DRAW_ITALIC_def)

lemma reject_bold_step:
  assumes ok: "registry_ok w"
    and slots: "fonts draw bold = Some b" "fonts draw normal = Some n"
    and live: "heap w b = Some bold_info" "heap w n = Some normal_info"
  shows "reject_bold normal bold draw w =
     Some (if bold_rejected bold_info normal_info
           then (draw\<lparr>fonts := (fonts draw)(bold := Some n)\<rparr>, released b bold_info w)
           else (draw, w))"
proof -
  have "width normal_info \<noteq> 0" using ok_live[OF ok live(2)] by simp
  then show ?thesis
    using slots live destroy_live[OF live(1)]
    by (simp add: reject_bold_def bold_rejected_def Let_def)
qed

lemma free_fonts_ok:
  "registry_ok w \<Longrightarrow> free_fonts n draw w = Some (draw1, w1) \<Longrightarrow> registry_ok w1"
proof (induction n arbitrary: draw w)
  case 0
  then show ?case by simp
next
  case (Suc style)
  show ?case
  proof (cases "fonts draw style \<noteq> None \<and> (style = 0 \<or> fonts draw style \<noteq> fonts draw (style - 1))")
    case False
    then have "free_fonts style draw w = Some (draw1, w1)" using Suc.prems(2) by auto
    from Suc.IH[OF Suc.prems(1) this] show ?thesis .
  next
    case True
    then obtain p where p: "fonts draw style = Some p" by auto
    from True Suc.prems(2) p obtain w0 where d: "font_info_destroy (Some p) w = Some w0"
      and f: "free_fonts style (draw\<lparr>fonts := (fonts draw)(style := None)\<rparr>) w0 = Some (draw1, w1)"
      by (auto split: option.splits)
    from d obtain info where live: "heap w p = Some info"
      by (auto simp: font_info_destroy_def split: option.splits)
    have "w0 = released p info w" using d destroy_live[OF live] by simp
    then have "registry_ok w0" using released_ok[OF Suc.prems(1) live] by simp
    from Suc.IH[OF this f] show ?thesis .
  qed
qed


lemma set_text_font_steps:
  assumes "free_fonts 4 draw w = Some (draw0, w0)"
    and "font_info_create_for_widget env widget (Some fontdesc) w0 = Some (p0, w1)"
    and "font_info_create_for_widget env widget
           (Some (pango_font_description_set_weight fontdesc PANGO_WEIGHT_BOLD)) w1 = Some (p1, w2)"
    and "font_info_create_for_widget env widget
           (Some (pango_font_description_set_style fontdesc PANGO_STYLE_ITALIC)) w2 = Some (p2, w3)"
    and "font_info_create_for_widget env widget
           (Some (pango_font_description_set_style
                    (pango_font_description_set_weight fontdesc PANGO_WEIGHT_BOLD) PANGO_STYLE_ITALIC)) w3
           = Some (p3, w4)"
    and "reject_bold VTE_DRAW_NORMAL (VTE_DRAW_NORMAL OR VTE_DRAW_BOLD)
           (draw0\<lparr>fonts := (fonts draw0)
                     (VTE_DRAW_NORMAL := Some p0, VTE_DRAW_BOLD := Some p1, VTE_DRAW_ITALIC := Some p2,
                      VTE_DRAW_ITALIC OR VTE_DRAW_BOLD := Some p3)\<rparr>) w4 = Some (draw2, w5)"
    and "reject_bold VTE_DRAW_ITALIC (VTE_DRAW_ITALIC OR VTE_DRAW_BOLD) draw2 w5 = Some (draw3, w6)"
    and "fonts draw3 VTE_DRAW_NORMAL = Some n" "heap w6 n = Some normal_info"
  shows "\<exists>draw'. vte_draw_set_text_font env draw widget fontdesc cell_width_scale cell_height_scale w
           = Some (draw', w6) \<and> fonts draw' = fonts draw3"
  using assms by (simp add: vte_draw_set_text_font_def Let_def)


lemma reject_bold_props:
  assumes ok: "registry_ok w"
    and slots: "fonts draw bold = Some b" "fonts draw normal = Some n"
    and live: "heap w b = Some bold_info" "heap w n = Some normal_info"
    and pos: "0 < refs w b"
  shows "\<exists>w1. reject_bold normal bold draw w =
           Some (draw\<lparr>fonts := (fonts draw)(bold := Some (if bold_rejected bold_info normal_info then n else b))\<rparr>, w1)
         \<and> registry_ok w1 \<and> same_fonts w w1
         \<and> refs w1 = (refs w)(b := refs w b - (if bold_rejected bold_info normal_info then 1 else 0))"
proof (cases "bold_rejected bold_info normal_info")
  case True
  have pos': "0 < ref_count bold_info" using pos live(1) by (simp add: refs_def)
  have "reject_bold normal bold draw w =
          Some (draw\<lparr>fonts := (fonts draw)(bold := Some n)\<rparr>, released b bold_info w)"
    using reject_bold_step[OF ok slots live] True by simp
  then show ?thesis
    using True release(2,3,4)[OF ok live(1) pos'] by simp
next
  case False
  have same: "draw\<lparr>fonts := (fonts draw)(bold := Some b)\<rparr> = draw"
    using slots(1) by (simp add: fun_upd_idem)
  have "reject_bold normal bold draw w = Some (draw, w)"
    using reject_bold_step[OF ok slots live] False by simp
  then show ?thesis
    using False ok same by (simp add: same_fonts_refl)
qed


text \<open>
  Claim C7, as the code has it. In a world where the invariant of the cache holds,
  \<^verbatim>\<open>_vte_draw_set_text_font\<close> returns (once the old fonts of the draw are freed): the four
  lookups, for the description and its bold, italic and bold italic variants, return font
  infos \<open>p0\<close>, \<open>p1\<close>, \<open>p2\<close>, \<open>p3\<close>. The normal slot holds \<open>p0\<close> and the italic slot \<open>p2\<close>. The
  test is made on the widths of bold and normal, and then on those of bold italic and
  italic, as they are after the four lookups: when
  \<open>\<bar>bold.width * 100 / normal.width - 100\<bar> > 10\<close>, in the division of C, the bold slot
  holds the font info of the normal slot and one reference to the bold font info is
  given back; otherwise the bold slot holds the font info that was looked up for it and
  no reference is given back. The font info that is looked up for the bold description is
  the one of the normal slot exactly when the description has the weight bold already
  (the bold description is then the description itself), and likewise for bold italic
  and italic; the test then does not reject.
\<close>

theorem bold_rejection:
  assumes ok: "registry_ok w" and free: "free_fonts 4 draw w = Some (draw0, w0)"
  shows "\<exists>p0 p1 p2 p3 w1 w2 w3 w4 i0 i1 i2 i3 draw' w'.
       font_info_create_for_widget env widget (Some fontdesc) w0 = Some (p0, w1)
     \<and> font_info_create_for_widget env widget
          (Some (pango_font_description_set_weight fontdesc PANGO_WEIGHT_BOLD)) w1 = Some (p1, w2)
     \<and> font_info_create_for_widget env widget
          (Some (pango_font_description_set_style fontdesc PANGO_STYLE_ITALIC)) w2 = Some (p2, w3)
     \<and> font_info_create_for_widget env widget
          (Some (pango_font_description_set_style
                   (pango_font_description_set_weight fontdesc PANGO_WEIGHT_BOLD) PANGO_STYLE_ITALIC)) w3
          = Some (p3, w4)
     \<and> heap w4 p0 = Some i0 \<and> heap w4 p1 = Some i1 \<and> heap w4 p2 = Some i2 \<and> heap w4 p3 = Some i3
     \<and> vte_draw_set_text_font env draw widget fontdesc cell_width_scale cell_height_scale w
          = Some (draw', w')
     \<and> fonts draw' VTE_DRAW_NORMAL = Some p0
     \<and> fonts draw' VTE_DRAW_BOLD = Some (if bold_rejected i1 i0 then p0 else p1)
     \<and> fonts draw' VTE_DRAW_ITALIC = Some p2
     \<and> fonts draw' (VTE_DRAW_ITALIC OR VTE_DRAW_BOLD) = Some (if bold_rejected i3 i2 then p2 else p3)
     \<and> (\<forall>q. refs w' q = refs w4 q - (if q = p1 \<and> bold_rejected i1 i0 then 1 else 0)
                                    - (if q = p3 \<and> bold_rejected i3 i2 then 1 else 0))
     \<and> (p1 = p0 \<longleftrightarrow> desc_weight fontdesc = Some PANGO_WEIGHT_BOLD)
     \<and> (p3 = p2 \<longleftrightarrow> desc_weight fontdesc = Some PANGO_WEIGHT_BOLD)
     \<and> (desc_weight fontdesc = Some PANGO_WEIGHT_BOLD \<longrightarrow>
          \<not> bold_rejected i1 i0 \<and> \<not> bold_rejected i3 i2)"
proof -
  let ?bold = "pango_font_description_set_weight fontdesc PANGO_WEIGHT_BOLD"
  let ?italic = "pango_font_description_set_style fontdesc PANGO_STYLE_ITALIC"
  let ?bolditalic = "pango_font_description_set_style ?bold PANGO_STYLE_ITALIC"
  have ok0: "registry_ok w0" by (rule free_fonts_ok[OF ok free])
  from acquire[OF ok0, of env widget fontdesc] obtain p0 w1 j0 where
    a0: "font_info_create_for_widget env widget (Some fontdesc) w0 = Some (p0, w1)"
    and ok1: "registry_ok w1" and l0: "heap w1 p0 = Some j0"
    and f0: "fingerprint (layout_context (layout j0)) = fingerprint (widget_context env widget fontdesc)"
    and r0: "refs w1 = (refs w0)(p0 := refs w0 p0 + 1)" and s0: "same_fonts w0 w1" by blast
  from acquire[OF ok1, of env widget ?bold] obtain p1 w2 j1 where
    a1: "font_info_create_for_widget env widget (Some ?bold) w1 = Some (p1, w2)"
    and ok2: "registry_ok w2" and l1: "heap w2 p1 = Some j1"
    and f1: "fingerprint (layout_context (layout j1)) = fingerprint (widget_context env widget ?bold)"
    and r1: "refs w2 = (refs w1)(p1 := refs w1 p1 + 1)" and s1: "same_fonts w1 w2" by blast
  from acquire[OF ok2, of env widget ?italic] obtain p2 w3 j2 where
    a2: "font_info_create_for_widget env widget (Some ?italic) w2 = Some (p2, w3)"
    and ok3: "registry_ok w3" and l2: "heap w3 p2 = Some j2"
    and f2: "fingerprint (layout_context (layout j2)) = fingerprint (widget_context env widget ?italic)"
    and r2: "refs w3 = (refs w2)(p2 := refs w2 p2 + 1)" and s2: "same_fonts w2 w3" by blast
  from acquire[OF ok3, of env widget ?bolditalic] obtain p3 w4 i3 where
    a3: "font_info_create_for_widget env widget (Some ?bolditalic) w3 = Some (p3, w4)"
    and ok4: "registry_ok w4" and l3: "heap w4 p3 = Some i3"
    and f3: "fingerprint (layout_context (layout i3)) = fingerprint (widget_context env widget ?bolditalic)"
    and r3: "refs w4 = (refs w3)(p3 := refs w3 p3 + 1)" and s3: "same_fonts w3 w4" by blast
  txt \<open>The four font infos in the world after the lookups.\<close>
  from same_fontsD[OF s3 l2] obtain i2 where
    i2: "heap w4 p2 = Some i2" "layout i2 = layout j2" by blast
  from same_fontsD[OF same_fonts_trans[OF s2 s3] l1] obtain i1 where
    i1: "heap w4 p1 = Some i1" "layout i1 = layout j1" by blast
  from same_fontsD[OF same_fonts_trans[OF s1 same_fonts_trans[OF s2 s3]] l0] obtain i0 where
    i0: "heap w4 p0 = Some i0" "layout i0 = layout j0" by blast
  have g0: "fingerprint (layout_context (layout i0)) = fingerprint (widget_context env widget fontdesc)"
    using f0 i0(2) by simp
  have g1: "fingerprint (layout_context (layout i1)) = fingerprint (widget_context env widget ?bold)"
    using f1 i1(2) by simp
  have g2: "fingerprint (layout_context (layout i2)) = fingerprint (widget_context env widget ?italic)"
    using f2 i2(2) by simp
  txt \<open>Two of them are one exactly when their descriptions are equal.\<close>
  have same01: "p1 = p0 \<longleftrightarrow> ?bold = fontdesc"
  proof
    assume "p1 = p0"
    then have "i1 = i0" using i0(1) i1(1) by simp
    then show "?bold = fontdesc" using g0 g1 by (simp add: widget_context_fingerprint)
  next
    assume "?bold = fontdesc"
    then have "fingerprint (layout_context (layout i1)) = fingerprint (layout_context (layout i0))"
      using g0 g1 by simp
    from ok_unique[OF ok4 i1(1) i0(1) this] show "p1 = p0" .
  qed
  have same23: "p3 = p2 \<longleftrightarrow> ?bolditalic = ?italic"
  proof
    assume "p3 = p2"
    then have "i3 = i2" using i2(1) l3 by simp
    then show "?bolditalic = ?italic" using g2 f3 by (simp add: widget_context_fingerprint)
  next
    assume "?bolditalic = ?italic"
    then have "fingerprint (layout_context (layout i3)) = fingerprint (layout_context (layout i2))"
      using g2 f3 by simp
    from ok_unique[OF ok4 l3 i2(1) this] show "p3 = p2" .
  qed
  have desc01: "?bold = fontdesc \<longleftrightarrow> desc_weight fontdesc = Some PANGO_WEIGHT_BOLD"
    by (cases fontdesc) (auto simp: pango_font_description_set_weight_def)
  have desc23: "?bolditalic = ?italic \<longleftrightarrow> desc_weight fontdesc = Some PANGO_WEIGHT_BOLD"
    by (cases fontdesc)
       (auto simp: pango_font_description_set_weight_def pango_font_description_set_style_def)
  txt \<open>The references that the lookups gave.\<close>
  have n0: "0 \<le> refs w0 q" for q by (rule refs_nonneg[OF ok0])
  have refs4: "refs w4 q = refs w0 q + (if q = p0 then 1 else 0) + (if q = p1 then 1 else 0)
                 + (if q = p2 then 1 else 0) + (if q = p3 then 1 else 0)" for q
    by (simp add: r0 r1 r2 r3)
  have "refs w0 p1 + 1 \<le> refs w4 p1" by (auto simp: refs4)
  then have pos1: "0 < refs w4 p1" using n0[of p1] by arith
  have more3: "refs w0 p3 + 1 + (if p3 = p1 then 1 else 0) \<le> refs w4 p3" by (auto simp: refs4)
  txt \<open>The test on the bold font.\<close>
  let ?draw1 = "draw0\<lparr>fonts := (fonts draw0)
                     (VTE_DRAW_NORMAL := Some p0, VTE_DRAW_BOLD := Some p1, VTE_DRAW_ITALIC := Some p2,
                      VTE_DRAW_ITALIC OR VTE_DRAW_BOLD := Some p3)\<rparr>"
  let ?r1 = "bold_rejected i1 i0"
  let ?draw2 = "?draw1\<lparr>fonts := (fonts ?draw1)(VTE_DRAW_NORMAL OR VTE_DRAW_BOLD := Some (if ?r1 then p0 else p1))\<rparr>"
  have slots1: "fonts ?draw1 (VTE_DRAW_NORMAL OR VTE_DRAW_BOLD) = Some p1"
    "fonts ?draw1 VTE_DRAW_NORMAL = Some p0"
    by (simp_all add: style_values)
  from reject_bold_props[OF ok4 slots1 i1(1) i0(1) pos1] obtain w5 where
    b1: "reject_bold VTE_DRAW_NORMAL (VTE_DRAW_NORMAL OR VTE_DRAW_BOLD) ?draw1 w4 = Some (?draw2, w5)"
    and ok5: "registry_ok w5" and s4: "same_fonts w4 w5"
    and r4: "refs w5 = (refs w4)(p1 := refs w4 p1 - (if ?r1 then 1 else 0))" by blast
  txt \<open>The test on the bold italic font.\<close>
  from same_fontsD[OF s4 l3] obtain k3 where
    k3: "heap w5 p3 = Some k3" "width k3 = width i3" by blast
  from same_fontsD[OF s4 i2(1)] obtain k2 where
    k2: "heap w5 p2 = Some k2" "width k2 = width i2" by blast
  have rej: "bold_rejected k3 k2 = bold_rejected i3 i2"
    by (simp add: bold_rejected_def k3(2) k2(2))
  let ?r3 = "bold_rejected i3 i2"
  let ?draw3 = "?draw2\<lparr>fonts := (fonts ?draw2)(VTE_DRAW_ITALIC OR VTE_DRAW_BOLD := Some (if ?r3 then p2 else p3))\<rparr>"
  have slots2: "fonts ?draw2 (VTE_DRAW_ITALIC OR VTE_DRAW_BOLD) = Some p3"
    "fonts ?draw2 VTE_DRAW_ITALIC = Some p2"
    by (simp_all add: style_values)
  have "refs w5 p3 = refs w4 p3 - (if p3 = p1 \<and> ?r1 then 1 else 0)" by (simp add: r4)
  then have pos3: "0 < refs w5 p3" using n0[of p3] more3 by (auto split: if_splits)
  from reject_bold_props[OF ok5 slots2 k3(1) k2(1) pos3] obtain w6 where
    b2: "reject_bold VTE_DRAW_ITALIC (VTE_DRAW_ITALIC OR VTE_DRAW_BOLD) ?draw2 w5 = Some (?draw3, w6)"
    and ok6: "registry_ok w6" and s5: "same_fonts w5 w6"
    and r5: "refs w6 = (refs w5)(p3 := refs w5 p3 - (if ?r3 then 1 else 0))"
    unfolding rej by blast
  txt \<open>The result.\<close>
  have slot0: "fonts ?draw3 VTE_DRAW_NORMAL = Some p0" by (simp add: style_values)
  from same_fontsD[OF same_fonts_trans[OF s4 s5] i0(1)] obtain n0 where
    n0: "heap w6 p0 = Some n0" by blast
  from set_text_font_steps[OF free a0 a1 a2 a3 b1 b2 slot0 n0, of cell_width_scale cell_height_scale]
  obtain draw' where res:
    "vte_draw_set_text_font env draw widget fontdesc cell_width_scale cell_height_scale w = Some (draw', w6)"
    "fonts draw' = fonts ?draw3" by blast
  have slots: "fonts draw' VTE_DRAW_NORMAL = Some p0"
    "fonts draw' VTE_DRAW_BOLD = Some (if ?r1 then p0 else p1)"
    "fonts draw' VTE_DRAW_ITALIC = Some p2"
    "fonts draw' (VTE_DRAW_ITALIC OR VTE_DRAW_BOLD) = Some (if ?r3 then p2 else p3)"
    unfolding res(2) by (simp_all add: style_values)
  have refs6: "\<forall>q. refs w6 q = refs w4 q - (if q = p1 \<and> ?r1 then 1 else 0)
                                        - (if q = p3 \<and> ?r3 then 1 else 0)"
    by (simp add: r5 r4)
  have width0: "1 \<le> width i0" using ok_live[OF ok4 i0(1)] by simp
  have width2: "1 \<le> width i2" using ok_live[OF ok4 i2(1)] by simp
  have no1: "\<not> bold_rejected i1 i0" if "desc_weight fontdesc = Some PANGO_WEIGHT_BOLD"
  proof -
    have "p1 = p0" using that same01 desc01 by simp
    then have "i1 = i0" using i0(1) i1(1) by simp
    then show ?thesis using width0 by (simp add: bold_rejected_def c_div_def)
  qed
  have no3: "\<not> bold_rejected i3 i2" if "desc_weight fontdesc = Some PANGO_WEIGHT_BOLD"
  proof -
    have "p3 = p2" using that same23 desc23 by simp
    then have "i3 = i2" using i2(1) l3 by simp
    then show ?thesis using width2 by (simp add: bold_rejected_def c_div_def)
  qed
  show ?thesis
    using a0 a1 a2 a3 i0(1) i1(1) i2(1) l3 res(1) slots refs6 same01 same23 desc01 desc23 no1 no3
    by blast
qed


lemma allocated_fields [simp]:
  "heap (allocated env context w) =
     (heap w)(Suc (last_address w) \<mapsto> (font_info_allocate env context)\<lparr>ref_count := 1\<rparr>)"
  "last_address (allocated env context w) = Suc (last_address w)"
  "font_info_for_context (allocated env context w) =
     font_info_for_context w @ [(context, Suc (last_address w))]"
  "timeouts (allocated env context w) = timeouts w"
  "last_source (allocated env context w) = last_source w"
  "now (allocated env context w) = now w"
  by (simp_all add: allocated_def)

lemma create_fresh:
  assumes "fingerprint (widget_context env widget desc)
             \<notin> set (map (\<lambda>entry. fingerprint (fst entry)) (font_info_for_context w))"
  shows "font_info_create_for_widget env widget (Some desc) w =
           Some (Suc (last_address w), allocated env (widget_context env widget desc) w)"
    "g_hash_table_lookup env (font_info_for_context w) (widget_context env widget desc) = None"
proof -
  show none: "g_hash_table_lookup env (font_info_for_context w) (widget_context env widget desc) = None"
    using assms lookup_None_iff[OF widget_context_options] by blast
  show "font_info_create_for_widget env widget (Some desc) w =
           Some (Suc (last_address w), allocated env (widget_context env widget desc) w)"
    unfolding create_for_widget_eq by (rule find_miss[OF none])
qed

lemma create_again:
  assumes "registry_ok w" "heap w p = Some info"
    and "fingerprint (layout_context (layout info)) = fingerprint (widget_context env widget desc)"
  shows "font_info_create_for_widget env widget (Some desc) w = Some (p, referenced p info w)"
  unfolding create_for_widget_eq by (rule find_again[OF assms widget_context_options])

lemma not_rejected_same:
  "1 \<le> width info \<Longrightarrow> \<not> bold_rejected (info\<lparr>destroy_timeout := t, ref_count := r\<rparr>)
                                          (info\<lparr>destroy_timeout := t, ref_count := r\<rparr>)"
  by (simp add: bold_rejected_def c_div_def)


text \<open>A draw without fonts, in the empty world, gets the fonts of a description that is
  bold already and not italic: the bold description is the description itself and the bold
  italic one is the italic one, so the cache gives two font infos, each twice.\<close>

lemma bold_base_build:
  assumes bold: "desc_weight fontdesc = Some PANGO_WEIGHT_BOLD"
    and upright: "desc_style fontdesc \<noteq> Some PANGO_STYLE_ITALIC"
  shows "\<exists>draw' w' n i.
       vte_draw_set_text_font env vte_draw_new widget fontdesc cell_width_scale cell_height_scale
         empty_world = Some (draw', w')
     \<and> fonts draw' = (fonts vte_draw_new)(VTE_DRAW_NORMAL := Some 1, VTE_DRAW_BOLD := Some 1,
                          VTE_DRAW_ITALIC := Some 2, VTE_DRAW_ITALIC OR VTE_DRAW_BOLD := Some 2)
     \<and> registry_ok w'
     \<and> heap w' = [1 \<mapsto> n, 2 \<mapsto> i] \<and> ref_count n = 2 \<and> ref_count i = 2
     \<and> width n = width (font_info_allocate env (widget_context env widget fontdesc))
     \<and> width i = width (font_info_allocate env (widget_context env widget
                           (pango_font_description_set_style fontdesc PANGO_STYLE_ITALIC)))
     \<and> timeouts w' = [] \<and> map snd (font_info_for_context w') = [1, 2]"
proof -
  let ?italic = "pango_font_description_set_style fontdesc PANGO_STYLE_ITALIC"
  let ?c = "widget_context env widget fontdesc"
  let ?ci = "widget_context env widget ?italic"
  let ?n = "(font_info_allocate env ?c)\<lparr>ref_count := 1\<rparr>"
  let ?i = "(font_info_allocate env ?ci)\<lparr>ref_count := 1\<rparr>"
  let ?A1 = "allocated env ?c empty_world"
  let ?A2 = "referenced 1 ?n ?A1"
  let ?A3 = "allocated env ?ci ?A2"
  let ?A4 = "referenced 2 ?i ?A3"
  have d1: "pango_font_description_set_weight fontdesc PANGO_WEIGHT_BOLD = fontdesc"
    using bold by (simp add: pango_font_description_set_weight_def)
  have d2: "?italic \<noteq> fontdesc"
    using upright by (cases fontdesc) (auto simp: pango_font_description_set_style_def)
  have e: "font_info_for_context empty_world = []" "last_address empty_world = 0"
    "heap empty_world = Map.empty" "timeouts empty_world = []"
    by (simp_all add: empty_world_def)
  have free: "free_fonts 4 vte_draw_new empty_world = Some (vte_draw_new, empty_world)"
    by (simp add: eval_nat_numeral vte_draw_new_def)
  txt \<open>The normal font is allocated.\<close>
  have m0: "fingerprint ?c \<notin> set (map (\<lambda>entry. fingerprint (fst entry)) (font_info_for_context empty_world))"
    by (simp add: e)
  have a0: "font_info_create_for_widget env widget (Some fontdesc) empty_world = Some (1, ?A1)"
    using create_fresh(1)[OF m0] by (simp add: e)
  have ok1: "registry_ok ?A1"
    by (rule allocated_ok[OF empty_world_ok widget_context_options create_fresh(2)[OF m0]])
  have h1: "heap ?A1 1 = Some ?n" by (simp add: e)
  txt \<open>The bold font is the normal font.\<close>
  have f1: "fingerprint (layout_context (layout ?n)) = fingerprint ?c" by (simp add: allocate_props)
  have a1: "font_info_create_for_widget env widget
              (Some (pango_font_description_set_weight fontdesc PANGO_WEIGHT_BOLD)) ?A1 = Some (1, ?A2)"
    unfolding d1 by (rule create_again[OF ok1 h1 f1])
  have ok2: "registry_ok ?A2" by (rule referenced_ok[OF ok1 h1])
  txt \<open>The italic font is allocated.\<close>
  have m2: "fingerprint ?ci \<notin> set (map (\<lambda>entry. fingerprint (fst entry)) (font_info_for_context ?A2))"
    using d2 by (simp add: e widget_context_fingerprint)
  have a2: "font_info_create_for_widget env widget (Some ?italic) ?A2 = Some (2, ?A3)"
    using create_fresh(1)[OF m2] by (simp add: e)
  have ok3: "registry_ok ?A3"
    by (rule allocated_ok[OF ok2 widget_context_options create_fresh(2)[OF m2]])
  have h3: "heap ?A3 2 = Some ?i" by (simp add: e)
  txt \<open>The bold italic font is the italic font.\<close>
  have f3: "fingerprint (layout_context (layout ?i)) = fingerprint ?ci" by (simp add: allocate_props)
  have a3: "font_info_create_for_widget env widget
              (Some (pango_font_description_set_style
                       (pango_font_description_set_weight fontdesc PANGO_WEIGHT_BOLD) PANGO_STYLE_ITALIC)) ?A3
              = Some (2, ?A4)"
    unfolding d1 by (rule create_again[OF ok3 h3 f3])
  have ok4: "registry_ok ?A4" by (rule referenced_ok[OF ok3 h3])
  let ?n4 = "?n\<lparr>destroy_timeout := 0, ref_count := 2\<rparr>"
  let ?i4 = "?i\<lparr>destroy_timeout := 0, ref_count := 2\<rparr>"
  have heap4: "heap ?A4 = [1 \<mapsto> ?n4, 2 \<mapsto> ?i4]"
    by (simp add: e fun_eq_iff)
  have l4: "heap ?A4 1 = Some ?n4" "heap ?A4 2 = Some ?i4"
    by (simp_all add: heap4)
  txt \<open>No font is given up.\<close>
  let ?draw1 = "vte_draw_new\<lparr>fonts := (fonts vte_draw_new)
                     (VTE_DRAW_NORMAL := Some 1, VTE_DRAW_BOLD := Some 1, VTE_DRAW_ITALIC := Some 2,
                      VTE_DRAW_ITALIC OR VTE_DRAW_BOLD := Some 2)\<rparr>"
  have slots: "fonts ?draw1 (VTE_DRAW_NORMAL OR VTE_DRAW_BOLD) = Some 1"
    "fonts ?draw1 VTE_DRAW_NORMAL = Some 1"
    "fonts ?draw1 (VTE_DRAW_ITALIC OR VTE_DRAW_BOLD) = Some 2"
    "fonts ?draw1 VTE_DRAW_ITALIC = Some 2"
    by (simp_all add: style_values)
  have nr: "\<not> bold_rejected ?n4 ?n4" "\<not> bold_rejected ?i4 ?i4"
    using allocate_props(4)[of env ?c] allocate_props(4)[of env ?ci]
    by (simp_all add: bold_rejected_def c_div_def)
  have b1: "reject_bold VTE_DRAW_NORMAL (VTE_DRAW_NORMAL OR VTE_DRAW_BOLD) ?draw1 ?A4 = Some (?draw1, ?A4)"
    using reject_bold_step[OF ok4 slots(1,2) l4(1) l4(1)] nr(1) by simp
  have b2: "reject_bold VTE_DRAW_ITALIC (VTE_DRAW_ITALIC OR VTE_DRAW_BOLD) ?draw1 ?A4 = Some (?draw1, ?A4)"
    using reject_bold_step[OF ok4 slots(3,4) l4(2) l4(2)] nr(2) by simp
  from set_text_font_steps[OF free a0 a1 a2 a3 b1 b2 slots(2) l4(1), of cell_width_scale cell_height_scale]
  obtain draw' where res:
    "vte_draw_set_text_font env vte_draw_new widget fontdesc cell_width_scale cell_height_scale empty_world
       = Some (draw', ?A4)"
    "fonts draw' = fonts ?draw1" by blast
  have fonts': "fonts draw' = (fonts vte_draw_new)(VTE_DRAW_NORMAL := Some 1, VTE_DRAW_BOLD := Some 1,
                          VTE_DRAW_ITALIC := Some 2, VTE_DRAW_ITALIC OR VTE_DRAW_BOLD := Some 2)"
    using res(2) by simp
  have fields: "ref_count ?n4 = 2" "ref_count ?i4 = 2" "width ?n4 = width (font_info_allocate env ?c)"
    "width ?i4 = width (font_info_allocate env ?ci)" by simp_all
  have pending: "timeouts ?A4 = []" by (simp add: e allocate_props)
  have table: "map snd (font_info_for_context ?A4) = [1, 2]" by (simp add: e)
  show ?thesis
    apply (rule exI[of _ draw'])
    apply (rule exI[of _ ?A4])
    apply (rule exI[of _ ?n4])
    apply (rule exI[of _ ?i4])
    apply (intro conjI)
    apply (rule res(1))
    apply (rule fonts')
    apply (rule ok4)
    apply (rule heap4)
    apply (rule fields(1))
    apply (rule fields(2))
    apply (rule fields(3))
    apply (rule fields(4))
    apply (rule pending)
    apply (rule table)
    done
qed


text \<open>Such a draw is freed: the loop gives up one reference to each of the two font
  infos, which had two.\<close>

lemma bold_base_free:
  assumes slots: "fonts draw = (fonts vte_draw_new)(VTE_DRAW_NORMAL := Some 1, VTE_DRAW_BOLD := Some 1,
                          VTE_DRAW_ITALIC := Some 2, VTE_DRAW_ITALIC OR VTE_DRAW_BOLD := Some 2)"
    and live: "heap w = [1 \<mapsto> n, 2 \<mapsto> i]" and two: "ref_count n = 2" "ref_count i = 2"
  shows "vte_draw_free draw w =
           Some (w\<lparr>heap := [1 \<mapsto> n\<lparr>ref_count := 1\<rparr>, 2 \<mapsto> i\<lparr>ref_count := 1\<rparr>]\<rparr>)"
proof -
  have f: "fonts draw 0 = Some 1" "fonts draw (Suc 0) = Some 1" "fonts draw 2 = Some 2"
    "fonts draw 3 = Some 2"
    by (simp_all add: slots style_values)
  let ?w1 = "w\<lparr>heap := [1 \<mapsto> n, 2 \<mapsto> i\<lparr>ref_count := 1\<rparr>]\<rparr>"
  let ?draw1 = "draw\<lparr>fonts := (fonts draw)(2 := None)\<rparr>"
  have d2: "font_info_destroy (Some 2) w = Some ?w1"
    using two by (simp add: font_info_destroy_def live Let_def fun_upd_twist)
  have d1: "font_info_destroy (Some 1) ?w1 =
              Some (w\<lparr>heap := [1 \<mapsto> n\<lparr>ref_count := 1\<rparr>, 2 \<mapsto> i\<lparr>ref_count := 1\<rparr>]\<rparr>)"
    using two by (simp add: font_info_destroy_def Let_def fun_upd_twist)
  have s0: "free_fonts 1 ?draw1 ?w1 =
              Some (?draw1\<lparr>fonts := (fonts ?draw1)(0 := None)\<rparr>,
                    w\<lparr>heap := [1 \<mapsto> n\<lparr>ref_count := 1\<rparr>, 2 \<mapsto> i\<lparr>ref_count := 1\<rparr>]\<rparr>)"
    unfolding One_nat_def free_fonts.simps using f(1) d1 by simp
  have s1: "free_fonts 2 ?draw1 ?w1 = free_fonts 1 ?draw1 ?w1"
    using f(1,2) by (simp add: eval_nat_numeral)
  have s2: "free_fonts 3 draw w = free_fonts 2 ?draw1 ?w1"
    using f d2 by (simp add: eval_nat_numeral)
  have s3: "free_fonts 4 draw w = free_fonts 3 draw w"
    using f by (simp add: eval_nat_numeral)
  show ?thesis
    by (simp only: vte_draw_free_def s3 s2 s1 s0 option.map snd_conv)
qed


text \<open>The width of a font whose texts all have one logical width.\<close>

lemma measure_chars_width:
  assumes "\<And>text. logical_width (shape env (layout_context l) text) = W"
    and "foldl (measure_char env) (l, mw, mh) ns = (l', mw', mh')"
  shows "mw' = (if ns = [] then mw else max mw (PANGO_PIXELS_CEIL W))"
  using assms
proof (induction ns arbitrary: l mw mh)
  case Nil
  then show ?case by simp
next
  case (Cons n ns)
  let ?l1 = "pango_layout_set_text l [char_of n]"
  have c: "layout_context ?l1 = layout_context l" by simp
  have step: "measure_char env (l, mw, mh) n =
                (?l1, max mw (PANGO_PIXELS_CEIL W),
                 max mh (PANGO_PIXELS_CEIL (logical_height (layout_shaped env ?l1))))"
    by (simp add: measure_char_def Let_def layout_shaped_def Cons.prems(1))
  have rest: "foldl (measure_char env) (?l1, max mw (PANGO_PIXELS_CEIL W),
                 max mh (PANGO_PIXELS_CEIL (logical_height (layout_shaped env ?l1)))) ns = (l', mw', mh')"
    using Cons.prems(2) step by simp
  have "mw' = (if ns = [] then max mw (PANGO_PIXELS_CEIL W)
               else max (max mw (PANGO_PIXELS_CEIL W)) (PANGO_PIXELS_CEIL W))"
    by (rule Cons.IH[OF _ rest]) (simp add: Cons.prems(1))
  then show ?case by simp
qed

lemma allocate_width:
  assumes "\<And>text. logical_width (shape env context text) = W"
  shows "width (font_info_allocate env context) = max 1 (PANGO_PIXELS_CEIL W)"
proof -
  let ?info = "\<lparr>ref_count = 0, destroy_timeout = 0,
        layout = \<lparr>layout_context = context, layout_text = [], layout_set_text_calls = 0\<rparr>,
        ascii_unistr_info = (\<lambda>_. unistr_info_create), other_unistr_info = Map.empty,
        width = 0, height = 0, ascent = 0, info_string = []\<rparr>"
  obtain l1 mw mh where f: "foldl (measure_char env) (layout ?info, 1, 1) [0x21 ..< 0x7f] = (l1, mw, mh)"
    by (cases "foldl (measure_char env) (layout ?info, 1, 1) [0x21 ..< 0x7f]") auto
  have ne: "[0x21 ..< (0x7f::nat)] \<noteq> []" by simp
  have "mw = (if [0x21 ..< (0x7f::nat)] = [] then 1 else max 1 (PANGO_PIXELS_CEIL W))"
    by (rule measure_chars_width[OF _ f]) (simp add: assms)
  then have mw: "mw = max 1 (PANGO_PIXELS_CEIL W)" using ne by simp
  show ?thesis
    unfolding font_info_allocate_def font_info_measure_font_def f
    by (simp add: Let_def mw)
qed

lemma demo_widths:
  "width (font_info_allocate demo_pango context) = 8"
  "width (font_info_allocate demo_pango_wide_bold context) =
     (if desc_weight (ctx_font_description context) = Some 700 then 10 else 8)"
proof -
  have "logical_width (shape demo_pango context t) = 8192" for t
    by (simp add: demo_pango_def demo_shape_def)
  from allocate_width[of demo_pango "context" 8192, OF this]
  show "width (font_info_allocate demo_pango context) = 8"
    by (simp add: PANGO_PIXELS_CEIL_def)
  have "logical_width (shape demo_pango_wide_bold context t) =
          (if desc_weight (ctx_font_description context) = Some 700 then 10240 else 8192)" for t
    by (simp add: demo_pango_wide_bold_def demo_pango_def demo_shape_def)
  from allocate_width[of demo_pango_wide_bold "context", OF this]
  show "width (font_info_allocate demo_pango_wide_bold context) =
     (if desc_weight (ctx_font_description context) = Some 700 then 10 else 8)"
    by (simp add: PANGO_PIXELS_CEIL_def)
qed


text \<open>The four lookups for a description that is neither bold nor italic, in the empty
  world: four font infos are allocated.\<close>

lemma plain_base_lookups:
  assumes plain: "desc_weight fontdesc \<noteq> Some PANGO_WEIGHT_BOLD"
    and upright: "desc_style fontdesc \<noteq> Some PANGO_STYLE_ITALIC"
  shows
    "let bold = pango_font_description_set_weight fontdesc PANGO_WEIGHT_BOLD;
         italic = pango_font_description_set_style fontdesc PANGO_STYLE_ITALIC;
         bolditalic = pango_font_description_set_style bold PANGO_STYLE_ITALIC;
         w1 = allocated env (widget_context env widget fontdesc) empty_world;
         w2 = allocated env (widget_context env widget bold) w1;
         w3 = allocated env (widget_context env widget italic) w2;
         w4 = allocated env (widget_context env widget bolditalic) w3
     in font_info_create_for_widget env widget (Some fontdesc) empty_world = Some (1, w1)
      \<and> font_info_create_for_widget env widget (Some bold) w1 = Some (2, w2)
      \<and> font_info_create_for_widget env widget (Some italic) w2 = Some (3, w3)
      \<and> font_info_create_for_widget env widget (Some bolditalic) w3 = Some (4, w4)
      \<and> heap w4 = [1 \<mapsto> (font_info_allocate env (widget_context env widget fontdesc))\<lparr>ref_count := 1\<rparr>,
                    2 \<mapsto> (font_info_allocate env (widget_context env widget bold))\<lparr>ref_count := 1\<rparr>,
                    3 \<mapsto> (font_info_allocate env (widget_context env widget italic))\<lparr>ref_count := 1\<rparr>,
                    4 \<mapsto> (font_info_allocate env (widget_context env widget bolditalic))\<lparr>ref_count := 1\<rparr>]"
proof -
  let ?bold = "pango_font_description_set_weight fontdesc PANGO_WEIGHT_BOLD"
  let ?italic = "pango_font_description_set_style fontdesc PANGO_STYLE_ITALIC"
  let ?bolditalic = "pango_font_description_set_style ?bold PANGO_STYLE_ITALIC"
  let ?w1 = "allocated env (widget_context env widget fontdesc) empty_world"
  let ?w2 = "allocated env (widget_context env widget ?bold) ?w1"
  let ?w3 = "allocated env (widget_context env widget ?italic) ?w2"
  let ?w4 = "allocated env (widget_context env widget ?bolditalic) ?w3"
  have e: "font_info_for_context empty_world = []" "last_address empty_world = 0"
    "heap empty_world = Map.empty"
    by (simp_all add: empty_world_def)
  have d: "?bold \<noteq> fontdesc" "?italic \<noteq> fontdesc" "?italic \<noteq> ?bold"
    "?bolditalic \<noteq> fontdesc" "?bolditalic \<noteq> ?bold" "?bolditalic \<noteq> ?italic"
    using plain upright
    by (cases fontdesc; auto simp: pango_font_description_set_weight_def
          pango_font_description_set_style_def)+
  have m0: "fingerprint (widget_context env widget fontdesc)
              \<notin> set (map (\<lambda>entry. fingerprint (fst entry)) (font_info_for_context empty_world))"
    by (simp add: e)
  have m1: "fingerprint (widget_context env widget ?bold)
              \<notin> set (map (\<lambda>entry. fingerprint (fst entry)) (font_info_for_context ?w1))"
    using d by (simp add: e widget_context_fingerprint)
  have m2: "fingerprint (widget_context env widget ?italic)
              \<notin> set (map (\<lambda>entry. fingerprint (fst entry)) (font_info_for_context ?w2))"
    using d by (simp add: e widget_context_fingerprint)
  have m3: "fingerprint (widget_context env widget ?bolditalic)
              \<notin> set (map (\<lambda>entry. fingerprint (fst entry)) (font_info_for_context ?w3))"
    using d by (simp add: e widget_context_fingerprint)
  have a0: "font_info_create_for_widget env widget (Some fontdesc) empty_world = Some (1, ?w1)"
    using create_fresh(1)[OF m0] by (simp add: e)
  have a1: "font_info_create_for_widget env widget (Some ?bold) ?w1 = Some (2, ?w2)"
    using create_fresh(1)[OF m1] by (simp add: e)
  have a2: "font_info_create_for_widget env widget (Some ?italic) ?w2 = Some (3, ?w3)"
    using create_fresh(1)[OF m2] by (simp add: e)
  have a3: "font_info_create_for_widget env widget (Some ?bolditalic) ?w3 = Some (4, ?w4)"
    using create_fresh(1)[OF m3] by (simp add: e)
  have h: "heap ?w4 = [1 \<mapsto> (font_info_allocate env (widget_context env widget fontdesc))\<lparr>ref_count := 1\<rparr>,
                    2 \<mapsto> (font_info_allocate env (widget_context env widget ?bold))\<lparr>ref_count := 1\<rparr>,
                    3 \<mapsto> (font_info_allocate env (widget_context env widget ?italic))\<lparr>ref_count := 1\<rparr>,
                    4 \<mapsto> (font_info_allocate env (widget_context env widget ?bolditalic))\<lparr>ref_count := 1\<rparr>]"
    by (simp add: e eval_nat_numeral)
  show ?thesis
    unfolding Let_def using a0 a1 a2 a3 h by (intro conjI)
qed

lemma demo_descs:
  "desc_weight demo_desc \<noteq> Some PANGO_WEIGHT_BOLD" "desc_style demo_desc \<noteq> Some PANGO_STYLE_ITALIC"
  "desc_weight demo_bold_desc = Some PANGO_WEIGHT_BOLD"
  "desc_style demo_bold_desc \<noteq> Some PANGO_STYLE_ITALIC"
  by (simp_all add: demo_desc_def demo_bold_desc_def demo_context_def PANGO_WEIGHT_BOLD_def)


lemma plain_base_slots:
  assumes plain: "desc_weight fontdesc \<noteq> Some PANGO_WEIGHT_BOLD"
    and upright: "desc_style fontdesc \<noteq> Some PANGO_STYLE_ITALIC"
    and a: "font_info_create_for_widget env widget (Some fontdesc) empty_world = Some (p0, w1)"
      "font_info_create_for_widget env widget
         (Some (pango_font_description_set_weight fontdesc PANGO_WEIGHT_BOLD)) w1 = Some (p1, w2)"
      "font_info_create_for_widget env widget
         (Some (pango_font_description_set_style fontdesc PANGO_STYLE_ITALIC)) w2 = Some (p2, w3)"
      "font_info_create_for_widget env widget
         (Some (pango_font_description_set_style
                  (pango_font_description_set_weight fontdesc PANGO_WEIGHT_BOLD) PANGO_STYLE_ITALIC)) w3
         = Some (p3, w4)"
    and h: "heap w4 p0 = Some i0" "heap w4 p1 = Some i1" "heap w4 p2 = Some i2" "heap w4 p3 = Some i3"
  shows "p0 = 1 \<and> p1 = 2 \<and> p2 = 3 \<and> p3 = 4"
    "width i0 = width (font_info_allocate env (widget_context env widget fontdesc))"
    "width i1 = width (font_info_allocate env (widget_context env widget
                  (pango_font_description_set_weight fontdesc PANGO_WEIGHT_BOLD)))"
    "width i2 = width (font_info_allocate env (widget_context env widget
                  (pango_font_description_set_style fontdesc PANGO_STYLE_ITALIC)))"
    "width i3 = width (font_info_allocate env (widget_context env widget
                  (pango_font_description_set_style
                     (pango_font_description_set_weight fontdesc PANGO_WEIGHT_BOLD) PANGO_STYLE_ITALIC)))"
    "map (refs w4) [1, 2, 3, 4] = [1, 1, 1, 1]"
proof -
  note L = plain_base_lookups[OF plain upright, of env widget, unfolded Let_def]
  have p0: "p0 = 1" and w1: "w1 = allocated env (widget_context env widget fontdesc) empty_world"
    using a(1) L by simp_all
  have p1: "p1 = 2" and w2: "w2 = allocated env (widget_context env widget
                  (pango_font_description_set_weight fontdesc PANGO_WEIGHT_BOLD)) w1"
    using a(2) L unfolding w1 by simp_all
  have p2: "p2 = 3" and w3: "w3 = allocated env (widget_context env widget
                  (pango_font_description_set_style fontdesc PANGO_STYLE_ITALIC)) w2"
    using a(3) L unfolding w1 w2 by simp_all
  have p3: "p3 = 4" and w4: "w4 = allocated env (widget_context env widget
                  (pango_font_description_set_style
                     (pango_font_description_set_weight fontdesc PANGO_WEIGHT_BOLD) PANGO_STYLE_ITALIC)) w3"
    using a(4) L unfolding w1 w2 w3 by simp_all
  have heap4: "heap w4 = [1 \<mapsto> (font_info_allocate env (widget_context env widget fontdesc))\<lparr>ref_count := 1\<rparr>,
      2 \<mapsto> (font_info_allocate env (widget_context env widget
                  (pango_font_description_set_weight fontdesc PANGO_WEIGHT_BOLD)))\<lparr>ref_count := 1\<rparr>,
      3 \<mapsto> (font_info_allocate env (widget_context env widget
                  (pango_font_description_set_style fontdesc PANGO_STYLE_ITALIC)))\<lparr>ref_count := 1\<rparr>,
      4 \<mapsto> (font_info_allocate env (widget_context env widget
                  (pango_font_description_set_style
                     (pango_font_description_set_weight fontdesc PANGO_WEIGHT_BOLD) PANGO_STYLE_ITALIC)))\<lparr>ref_count := 1\<rparr>]"
    using L unfolding w4 w3 w2 w1 by blast
  show "p0 = 1 \<and> p1 = 2 \<and> p2 = 3 \<and> p3 = 4" using p0 p1 p2 p3 by simp
  show "width i0 = width (font_info_allocate env (widget_context env widget fontdesc))"
    using h(1) unfolding heap4 p0 by auto
  show "width i1 = width (font_info_allocate env (widget_context env widget
                  (pango_font_description_set_weight fontdesc PANGO_WEIGHT_BOLD)))"
    using h(2) unfolding heap4 p1 by auto
  show "width i2 = width (font_info_allocate env (widget_context env widget
                  (pango_font_description_set_style fontdesc PANGO_STYLE_ITALIC)))"
    using h(3) unfolding heap4 p2 by auto
  show "width i3 = width (font_info_allocate env (widget_context env widget
                  (pango_font_description_set_style
                     (pango_font_description_set_weight fontdesc PANGO_WEIGHT_BOLD) PANGO_STYLE_ITALIC)))"
    using h(4) unfolding heap4 p3 by auto
  show "map (refs w4) [1, 2, 3, 4] = [1, 1, 1, 1]"
    by (simp add: refs_def heap4)
qed

lemma free_new: "free_fonts 4 vte_draw_new empty_world = Some (vte_draw_new, empty_world)"
  by (simp add: eval_nat_numeral vte_draw_new_def)

lemma slot_fonts_eq:
  "slot_fonts draw = [fonts draw VTE_DRAW_NORMAL, fonts draw VTE_DRAW_BOLD, fonts draw VTE_DRAW_ITALIC,
                      fonts draw (VTE_DRAW_ITALIC OR VTE_DRAW_BOLD)]"
  by (simp add: slot_fonts_def)

text \<open>The theorem for a draw without fonts in the empty world and the demo description, with
  the Pango whose bold fonts are 10 pixels wide (125%: both bold fonts are given up) and
  with the demo Pango, whose fonts are all 8 pixels wide (both are kept).\<close>

theorem bold_rejection_witness:
  "registry_ok empty_world
   \<and> free_fonts 4 vte_draw_new empty_world = Some (vte_draw_new, empty_world)
   \<and> (\<exists>draw' w'. vte_draw_set_text_font demo_pango_wide_bold vte_draw_new demo_widget demo_desc
                     (\<lambda>x. x) (\<lambda>x. x) empty_world = Some (draw', w')
         \<and> slot_fonts draw' = [Some 1, Some 1, Some 3, Some 3]
         \<and> map (refs w') [1, 2, 3, 4] = [1, 0, 1, 0])
   \<and> (\<exists>draw' w'. vte_draw_set_text_font demo_pango vte_draw_new demo_widget demo_desc
                     (\<lambda>x. x) (\<lambda>x. x) empty_world = Some (draw', w')
         \<and> slot_fonts draw' = [Some 1, Some 2, Some 3, Some 4]
         \<and> map (refs w') [1, 2, 3, 4] = [1, 1, 1, 1])"
proof -
  have bold: "desc_weight (pango_font_description_set_weight demo_desc PANGO_WEIGHT_BOLD) = Some 700"
    "desc_weight (pango_font_description_set_style
        (pango_font_description_set_weight demo_desc PANGO_WEIGHT_BOLD) PANGO_STYLE_ITALIC) = Some 700"
    "desc_weight demo_desc \<noteq> Some 700"
    "desc_weight (pango_font_description_set_style demo_desc PANGO_STYLE_ITALIC) \<noteq> Some 700"
    by (simp_all add: pango_font_description_set_weight_def pango_font_description_set_style_def
          PANGO_WEIGHT_BOLD_def demo_desc_def demo_context_def)
  have wide: "\<exists>draw' w'. vte_draw_set_text_font demo_pango_wide_bold vte_draw_new demo_widget demo_desc
                     (\<lambda>x. x) (\<lambda>x. x) empty_world = Some (draw', w')
         \<and> slot_fonts draw' = [Some 1, Some 1, Some 3, Some 3]
         \<and> map (refs w') [1, 2, 3, 4] = [1, 0, 1, 0]"
  proof -
    from bold_rejection[OF empty_world_ok free_new, of demo_pango_wide_bold demo_widget demo_desc
           "\<lambda>x. x" "\<lambda>x. x"]
    obtain p0 p1 p2 p3 w1 w2 w3 w4 i0 i1 i2 i3 draw' w' where
      a: "font_info_create_for_widget demo_pango_wide_bold demo_widget (Some demo_desc) empty_world
            = Some (p0, w1)"
        "font_info_create_for_widget demo_pango_wide_bold demo_widget
           (Some (pango_font_description_set_weight demo_desc PANGO_WEIGHT_BOLD)) w1 = Some (p1, w2)"
        "font_info_create_for_widget demo_pango_wide_bold demo_widget
           (Some (pango_font_description_set_style demo_desc PANGO_STYLE_ITALIC)) w2 = Some (p2, w3)"
        "font_info_create_for_widget demo_pango_wide_bold demo_widget
           (Some (pango_font_description_set_style
                    (pango_font_description_set_weight demo_desc PANGO_WEIGHT_BOLD) PANGO_STYLE_ITALIC)) w3
           = Some (p3, w4)"
      and h: "heap w4 p0 = Some i0" "heap w4 p1 = Some i1" "heap w4 p2 = Some i2" "heap w4 p3 = Some i3"
      and res: "vte_draw_set_text_font demo_pango_wide_bold vte_draw_new demo_widget demo_desc
                  (\<lambda>x. x) (\<lambda>x. x) empty_world = Some (draw', w')"
      and f: "fonts draw' VTE_DRAW_NORMAL = Some p0"
        "fonts draw' VTE_DRAW_BOLD = Some (if bold_rejected i1 i0 then p0 else p1)"
        "fonts draw' VTE_DRAW_ITALIC = Some p2"
        "fonts draw' (VTE_DRAW_ITALIC OR VTE_DRAW_BOLD) = Some (if bold_rejected i3 i2 then p2 else p3)"
      and r: "\<forall>q. refs w' q = refs w4 q - (if q = p1 \<and> bold_rejected i1 i0 then 1 else 0)
                                         - (if q = p3 \<and> bold_rejected i3 i2 then 1 else 0)"
      by (elim exE conjE) (rule that)
    note s = plain_base_slots[OF demo_descs(1,2) a h]
    have rej: "bold_rejected i1 i0" "bold_rejected i3 i2"
      by (simp_all add: bold_rejected_def s demo_widths bold c_div_def)
    have sf: "slot_fonts draw' = [Some 1, Some 1, Some 3, Some 3]"
      using s(1) by (simp add: slot_fonts_eq f rej)
    have rf: "map (refs w') [1, 2, 3, 4] = [1, 0, 1, 0]"
      using s(1) s(6) by (simp add: r rej)
    show ?thesis by (intro exI[of _ draw'] exI[of _ w'] conjI res sf rf)
  qed
  have even: "\<exists>draw' w'. vte_draw_set_text_font demo_pango vte_draw_new demo_widget demo_desc
                     (\<lambda>x. x) (\<lambda>x. x) empty_world = Some (draw', w')
         \<and> slot_fonts draw' = [Some 1, Some 2, Some 3, Some 4]
         \<and> map (refs w') [1, 2, 3, 4] = [1, 1, 1, 1]"
  proof -
    from bold_rejection[OF empty_world_ok free_new, of demo_pango demo_widget demo_desc
           "\<lambda>x. x" "\<lambda>x. x"]
    obtain p0 p1 p2 p3 w1 w2 w3 w4 i0 i1 i2 i3 draw' w' where
      a: "font_info_create_for_widget demo_pango demo_widget (Some demo_desc) empty_world
            = Some (p0, w1)"
        "font_info_create_for_widget demo_pango demo_widget
           (Some (pango_font_description_set_weight demo_desc PANGO_WEIGHT_BOLD)) w1 = Some (p1, w2)"
        "font_info_create_for_widget demo_pango demo_widget
           (Some (pango_font_description_set_style demo_desc PANGO_STYLE_ITALIC)) w2 = Some (p2, w3)"
        "font_info_create_for_widget demo_pango demo_widget
           (Some (pango_font_description_set_style
                    (pango_font_description_set_weight demo_desc PANGO_WEIGHT_BOLD) PANGO_STYLE_ITALIC)) w3
           = Some (p3, w4)"
      and h: "heap w4 p0 = Some i0" "heap w4 p1 = Some i1" "heap w4 p2 = Some i2" "heap w4 p3 = Some i3"
      and res: "vte_draw_set_text_font demo_pango vte_draw_new demo_widget demo_desc
                  (\<lambda>x. x) (\<lambda>x. x) empty_world = Some (draw', w')"
      and f: "fonts draw' VTE_DRAW_NORMAL = Some p0"
        "fonts draw' VTE_DRAW_BOLD = Some (if bold_rejected i1 i0 then p0 else p1)"
        "fonts draw' VTE_DRAW_ITALIC = Some p2"
        "fonts draw' (VTE_DRAW_ITALIC OR VTE_DRAW_BOLD) = Some (if bold_rejected i3 i2 then p2 else p3)"
      and r: "\<forall>q. refs w' q = refs w4 q - (if q = p1 \<and> bold_rejected i1 i0 then 1 else 0)
                                         - (if q = p3 \<and> bold_rejected i3 i2 then 1 else 0)"
      by (elim exE conjE) (rule that)
    note s = plain_base_slots[OF demo_descs(1,2) a h]
    have rej: "\<not> bold_rejected i1 i0" "\<not> bold_rejected i3 i2"
      by (simp_all add: bold_rejected_def s demo_widths c_div_def)
    have sf: "slot_fonts draw' = [Some 1, Some 2, Some 3, Some 4]"
      using s(1) by (simp add: slot_fonts_eq f rej)
    have rf: "map (refs w') [1, 2, 3, 4] = [1, 1, 1, 1]"
      using s(1) s(6) by (simp add: r rej)
    show ?thesis by (intro exI[of _ draw'] exI[of _ w'] conjI res sf rf)
  qed
  show ?thesis
    by (intro conjI empty_world_ok free_new wide even)
qed


text \<open>
  Claim C7 as it is written fails for a description that is bold already: the widths of
  the bold and the normal font are both 8, within 10%, and the bold slot and the normal
  slot hold the same font info, as do the bold italic and the italic slot.
\<close>

theorem bold_rejection_counterexample:
  "map_option (\<lambda>r. (slot_fonts (fst r), slot_widths (fst r) (snd r)))
     (vte_draw_set_text_font demo_pango vte_draw_new demo_widget demo_bold_desc (\<lambda>x. x) (\<lambda>x. x)
        empty_world)
   = Some ([Some 1, Some 1, Some 2, Some 2], [Some 8, Some 8, Some 8, Some 8])"
proof -
  from bold_base_build[OF demo_descs(3,4), of demo_pango demo_widget "\<lambda>x. x" "\<lambda>x. x"]
  obtain draw' w' n i where
    res: "vte_draw_set_text_font demo_pango vte_draw_new demo_widget demo_bold_desc (\<lambda>x. x) (\<lambda>x. x)
            empty_world = Some (draw', w')"
    and f: "fonts draw' = (fonts vte_draw_new)(VTE_DRAW_NORMAL := Some 1, VTE_DRAW_BOLD := Some 1,
                          VTE_DRAW_ITALIC := Some 2, VTE_DRAW_ITALIC OR VTE_DRAW_BOLD := Some 2)"
    and h: "heap w' = [1 \<mapsto> n, 2 \<mapsto> i]"
    and wd: "width n = width (font_info_allocate demo_pango (widget_context demo_pango demo_widget demo_bold_desc))"
      "width i = width (font_info_allocate demo_pango (widget_context demo_pango demo_widget
                           (pango_font_description_set_style demo_bold_desc PANGO_STYLE_ITALIC)))"
    by (elim exE conjE) (rule that)
  have sf: "slot_fonts draw' = [Some 1, Some 1, Some 2, Some 2]"
    by (simp add: slot_fonts_def f style_values)
  have sw: "slot_widths draw' w' = [Some 8, Some 8, Some 8, Some 8]"
    by (simp add: slot_widths_def sf h wd demo_widths)
  show ?thesis
    unfolding res by (simp add: sf sw)
qed

text \<open>
  Claim C8 at a description that is bold already, for a draw without fonts in the empty
  world. After \<^verbatim>\<open>_vte_draw_set_text_font\<close> the four slots hold the font infos 1, 1, 2, 2 and
  each of the two has two references, one for each lookup. \<^verbatim>\<open>_vte_draw_free\<close> leaves out a
  slot that holds the font info of the slot before it, so it gives up one reference to
  each: both font infos keep one reference, no timeout is pending, and both stay in the
  hash table.
\<close>

theorem free_leaks_shared_fonts:
  "map_option (\<lambda>r. (slot_fonts (fst r), map (refs (snd r)) [1, 2]))
     (vte_draw_set_text_font demo_pango vte_draw_new demo_widget demo_bold_desc (\<lambda>x. x) (\<lambda>x. x)
        empty_world)
   = Some ([Some 1, Some 1, Some 2, Some 2], [2, 2])
   \<and> map_option (\<lambda>w. (map (refs w) [1, 2], timeouts w, map snd (font_info_for_context w)))
       (vte_draw_set_text_font demo_pango vte_draw_new demo_widget demo_bold_desc (\<lambda>x. x) (\<lambda>x. x)
          empty_world
        \<bind> (\<lambda>r. vte_draw_free (fst r) (snd r)))
     = Some ([1, 1], [], [1, 2])"
proof -
  from bold_base_build[OF demo_descs(3,4), of demo_pango demo_widget "\<lambda>x. x" "\<lambda>x. x"]
  obtain draw' w' n i where
    res: "vte_draw_set_text_font demo_pango vte_draw_new demo_widget demo_bold_desc (\<lambda>x. x) (\<lambda>x. x)
            empty_world = Some (draw', w')"
    and f: "fonts draw' = (fonts vte_draw_new)(VTE_DRAW_NORMAL := Some 1, VTE_DRAW_BOLD := Some 1,
                          VTE_DRAW_ITALIC := Some 2, VTE_DRAW_ITALIC OR VTE_DRAW_BOLD := Some 2)"
    and h: "heap w' = [1 \<mapsto> n, 2 \<mapsto> i]" and two: "ref_count n = 2" "ref_count i = 2"
    and pending: "timeouts w' = []" and table: "map snd (font_info_for_context w') = [1, 2]"
    by (elim exE conjE) (rule that)
  have sf: "slot_fonts draw' = [Some 1, Some 1, Some 2, Some 2]"
    by (simp add: slot_fonts_def f style_values)
  have before: "map (refs w') [1, 2] = [2, 2]"
    by (simp add: refs_def h two)
  note freed = bold_base_free[OF f h two]
  have after: "map (refs (w'\<lparr>heap := [1 \<mapsto> n\<lparr>ref_count := 1\<rparr>, 2 \<mapsto> i\<lparr>ref_count := 1\<rparr>]\<rparr>)) [1, 2] = [1, 1]"
    by (simp add: refs_def)
  show ?thesis
    unfolding res using before after by (simp add: sf freed pending table)
qed

end
